theory Spec2Isabelle
  imports Complex_Main
begin

section \<open>JavaScript primitives used by the three generators\<close>

text \<open>
  The generators are Node.js scripts. Numbers are modelled as mathematical reals and
  integers (every integer the scripts compute is far below \<open>2^53\<close>).

  The local time zone of the process is a parameter of the Appointment Generator: its
  \<open>Date\<close> values are built from local calendar fields, rendered in UTC and read back with
  local getters. The Operations and the Financial Generator are modelled for a process
  whose zone is UTC, where local time and UTC agree.

  \<open>Math.random()\<close> returns a number in \<open>[0, 1)\<close>. A draw is a value of the type
  \<open>random_draw\<close>; every call site of \<open>Math.random()\<close> receives its draw as a named field
  of a record of draws, one record per loop iteration.
\<close>

typedef random_draw = "{x::real. 0 \<le> x \<and> x < 1}"
  by (rule exI [of _ 0]) simp

setup_lifting type_definition_random_draw

lift_definition rv :: "random_draw \<Rightarrow> real" is "\<lambda>x. x" .

lift_definition draw_of :: "real \<Rightarrow> random_draw" is "\<lambda>x. if 0 \<le> x \<and> x < 1 then x else 0"
  by simp

definition Math_round :: "real \<Rightarrow> int" where
  "Math_round x = \<lfloor>x + 1 / 2\<rfloor>"

definition Math_floor :: "real \<Rightarrow> int" where
  "Math_floor x = \<lfloor>x\<rfloor>"

text \<open>\<open>randomBetween(min, max)\<close>: \<open>Math.floor(Math.random() * (max - min + 1) + min)\<close>.\<close>

definition randomBetween :: "int \<Rightarrow> int \<Rightarrow> random_draw \<Rightarrow> int" where
  "randomBetween lo hi u = Math_floor (rv u * real_of_int (hi - lo + 1) + real_of_int lo)"

text \<open>\<open>Math.floor(Math.random() * xs.length)\<close>, the index of a uniform pick from a table.\<close>

definition randomIndex :: "nat \<Rightarrow> random_draw \<Rightarrow> nat" where
  "randomIndex n u = nat (Math_floor (rv u * real n))"

subsection \<open>Strings of numbers\<close>

definition digit_char :: "nat \<Rightarrow> char" where
  "digit_char d = ''0123456789'' ! d"

fun String_nat :: "nat \<Rightarrow> string" where
  "String_nat n = (if n < 10 then [digit_char n] else String_nat (n div 10) @ [digit_char (n mod 10)])"

declare String_nat.simps [simp del]

definition String_int :: "int \<Rightarrow> string" where
  "String_int k = (if k < 0 then CHR ''-'' # String_nat (nat (- k)) else String_nat (nat k))"

definition padStart :: "nat \<Rightarrow> char \<Rightarrow> string \<Rightarrow> string" where
  "padStart n c s = replicate (n - length s) c @ s"

definition digit_val :: "char \<Rightarrow> nat option" where
  "digit_val c = (if c \<in> set ''0123456789'' then Some (of_char c - 48) else None)"

fun digits_val :: "nat \<Rightarrow> string \<Rightarrow> nat" where
  "digits_val acc [] = acc"
| "digits_val acc (c # cs) =
     (case digit_val c of None \<Rightarrow> acc | Some d \<Rightarrow> digits_val (acc * 10 + d) cs)"

subsection \<open>Dates\<close>

text \<open>
  A \<open>Date\<close> is its time value, the milliseconds since the epoch. The calendar arithmetic
  of the platform is the proleptic Gregorian calendar; \<open>civil_from_days\<close> and
  \<open>days_from_civil\<close> convert between a day number and (year, month, day).
\<close>

definition msPerDay :: int where
  "msPerDay = 86400000"

text \<open>
  The time zone of the process: the offset of local time from UTC in milliseconds, at a
  time value (\<open>LocalTZA(t, true)\<close>) and at a local time (\<open>LocalTZA(t, false)\<close>). A zone
  without daylight saving has the same constant for both.
\<close>

record timezone =
  offsetAtUTC :: "int \<Rightarrow> int"
  offsetAtLocal :: "int \<Rightarrow> int"

definition LocalTime :: "timezone \<Rightarrow> int \<Rightarrow> int" where
  "LocalTime tz t = t + offsetAtUTC tz t"

definition UTC :: "timezone \<Rightarrow> int \<Rightarrow> int" where
  "UTC tz t = t - offsetAtLocal tz t"

definition fixed_zone :: "int \<Rightarrow> timezone" where
  "fixed_zone offset = \<lparr>offsetAtUTC = (\<lambda>t. offset), offsetAtLocal = (\<lambda>t. offset)\<rparr>"

definition zone_UTC :: timezone where
  "zone_UTC = fixed_zone 0"

definition days_from_civil :: "int \<Rightarrow> int \<Rightarrow> int \<Rightarrow> int" where
  "days_from_civil y m d =
     (let y' = (if m \<le> 2 then y - 1 else y);
          era = y' div 400;
          yoe = y' mod 400;
          doy = (153 * (if m > 2 then m - 3 else m + 9) + 2) div 5 + d - 1;
          doe = yoe * 365 + yoe div 4 - yoe div 100 + doy
      in era * 146097 + doe - 719468)"

definition civil_from_days :: "int \<Rightarrow> int \<times> int \<times> int" where
  "civil_from_days z0 =
     (let z = z0 + 719468;
          era = z div 146097;
          doe = z mod 146097;
          yoe = (doe - doe div 1460 + doe div 36524 - doe div 146096) div 365;
          doy = doe - (365 * yoe + yoe div 4 - yoe div 100);
          mp = (5 * doy + 2) div 153;
          d = doy - (153 * mp + 2) div 5 + 1;
          m = (if mp < 10 then mp + 3 else mp - 9);
          y = yoe + era * 400
      in (if m \<le> 2 then y + 1 else y, m, d))"

text \<open>
  The time of midnight of a calendar day, with the month index counted from 0. The
  constructor \<open>new Date(year, monthIndex, day)\<close> takes the fields as local time: its time
  value is \<open>UTC tz (Date_of year monthIndex day)\<close>.
\<close>

definition Date_of :: "int \<Rightarrow> int \<Rightarrow> int \<Rightarrow> int" where
  "Date_of y mi d = days_from_civil y (mi + 1) d * msPerDay"

text \<open>
  The calendar fields of a time. The methods \<open>getFullYear()\<close>, \<open>getMonth()\<close>, \<open>getDate()\<close>
  and \<open>getDay()\<close> of a \<open>Date\<close> with time value \<open>t\<close> give the fields of \<open>LocalTime tz t\<close>;
  \<open>toISOString()\<close> renders the fields of \<open>t\<close> itself.
\<close>

definition getFullYear :: "int \<Rightarrow> int" where
  "getFullYear t = fst (civil_from_days (t div msPerDay))"

definition getMonth :: "int \<Rightarrow> int" where
  "getMonth t = fst (snd (civil_from_days (t div msPerDay))) - 1"

definition getDate :: "int \<Rightarrow> int" where
  "getDate t = snd (snd (civil_from_days (t div msPerDay)))"

text \<open>\<open>getDay()\<close>: 0 is Sunday; the epoch was a Thursday.\<close>

definition getDay :: "int \<Rightarrow> int" where
  "getDay t = (t div msPerDay + 4) mod 7"

text \<open>\<open>formatDate(date)\<close>: \<open>date.toISOString().split('T')[0]\<close>, the text \<open>YYYY-MM-DD\<close>.\<close>

definition formatDate :: "int \<Rightarrow> string" where
  "formatDate t =
     padStart 4 CHR ''0'' (String_int (getFullYear t)) @ ''-'' @
     padStart 2 CHR ''0'' (String_int (getMonth t + 1)) @ ''-'' @
     padStart 2 CHR ''0'' (String_int (getDate t))"

text \<open>
  \<open>new Date(s)\<close> for a date-only text \<open>YYYY-MM-DD\<close> (the only texts the scripts pass):
  midnight UTC of that day.
\<close>

definition Date_parse :: "string \<Rightarrow> int" where
  "Date_parse s =
     days_from_civil (int (digits_val 0 (take 4 s)))
       (int (digits_val 0 (take 2 (drop 5 s))))
       (int (digits_val 0 (take 2 (drop 8 s)))) * msPerDay"

text \<open>\<open>new Date(x)\<close> for a number \<open>x\<close> clips the time value to an integer.\<close>

definition Date_of_number :: "real \<Rightarrow> int" where
  "Date_of_number x = (if 0 \<le> x then \<lfloor>x\<rfloor> else \<lceil>x\<rceil>)"

text \<open>\<open>randomDate(start, end)\<close>.\<close>

definition randomDate :: "int \<Rightarrow> int \<Rightarrow> random_draw \<Rightarrow> int" where
  "randomDate start end u =
     Date_of_number (real_of_int start + rv u * (real_of_int end - real_of_int start))"

text \<open>\<open>randomAppointmentTime()\<close>: a start time on a quarter hour between 08:00 and 16:45.\<close>

definition randomAppointmentTime :: "random_draw \<Rightarrow> random_draw \<Rightarrow> string" where
  "randomAppointmentTime uh um =
     (let hour = randomBetween 8 16 uh;
          minute = [0, 15, 30, 45] ! nat (randomBetween 0 3 um)
      in padStart 2 CHR ''0'' (String_int hour) @ '':'' @ padStart 2 CHR ''0'' (String_int minute))"


section \<open>The Appointment Generator (generate-pat-data.js)\<close>

subsection \<open>Catalogs\<close>

text \<open>\<open>new Date(2020, 0, 1)\<close> and \<open>new Date(2025, 3, 1)\<close>: local midnights.\<close>

definition START_DATE :: "timezone \<Rightarrow> int" where
  "START_DATE tz = UTC tz (Date_of 2020 0 1)"

definition END_DATE :: "timezone \<Rightarrow> int" where
  "END_DATE tz = UTC tz (Date_of 2025 3 1)"

definition NUM_RECORDS :: nat where
  "NUM_RECORDS = 10000"

definition NUM_PATIENTS :: nat where
  "NUM_PATIENTS = 600"

record location =
  loc_id :: string
  loc_name :: string

definition locations :: "location list" where
  "locations =
    [\<lparr>loc_id = ''LOC001'', loc_name = ''Downtown Dental''\<rparr>,
     \<lparr>loc_id = ''LOC002'', loc_name = ''Westside Smile Center''\<rparr>,
     \<lparr>loc_id = ''LOC003'', loc_name = ''East Valley Dental Care''\<rparr>,
     \<lparr>loc_id = ''LOC004'', loc_name = ''North Portland Family Dental''\<rparr>]"

record provider =
  prov_id :: string
  prov_role :: string
  primary_location :: string

definition mk_provider :: "string \<Rightarrow> string \<Rightarrow> string \<Rightarrow> provider" where
  "mk_provider i r l = \<lparr>prov_id = i, prov_role = r, primary_location = l\<rparr>"

definition providers :: "provider list" where
  "providers =
    [mk_provider ''DR001'' ''Dentist'' ''LOC001'', mk_provider ''DR002'' ''Dentist'' ''LOC001'',
     mk_provider ''DR003'' ''Dentist'' ''LOC002'', mk_provider ''DR004'' ''Dentist'' ''LOC002'',
     mk_provider ''DR005'' ''Dentist'' ''LOC003'', mk_provider ''DR006'' ''Dentist'' ''LOC003'',
     mk_provider ''DR007'' ''Dentist'' ''LOC004'',
     mk_provider ''HYG001'' ''Hygienist'' ''LOC001'', mk_provider ''HYG002'' ''Hygienist'' ''LOC002'',
     mk_provider ''HYG003'' ''Hygienist'' ''LOC003'', mk_provider ''HYG004'' ''Hygienist'' ''LOC001'',
     mk_provider ''HYG005'' ''Hygienist'' ''LOC001'', mk_provider ''HYG006'' ''Hygienist'' ''LOC002'',
     mk_provider ''HYG007'' ''Hygienist'' ''LOC002'', mk_provider ''HYG008'' ''Hygienist'' ''LOC003'',
     mk_provider ''HYG009'' ''Hygienist'' ''LOC004'',
     mk_provider ''ASST001'' ''Assistant'' ''LOC001'', mk_provider ''ASST002'' ''Assistant'' ''LOC001'',
     mk_provider ''ASST003'' ''Assistant'' ''LOC001'', mk_provider ''ASST004'' ''Assistant'' ''LOC001'',
     mk_provider ''ASST005'' ''Assistant'' ''LOC001'', mk_provider ''ASST006'' ''Assistant'' ''LOC002'',
     mk_provider ''ASST007'' ''Assistant'' ''LOC002'', mk_provider ''ASST008'' ''Assistant'' ''LOC002'',
     mk_provider ''ASST009'' ''Assistant'' ''LOC002'', mk_provider ''ASST010'' ''Assistant'' ''LOC003'',
     mk_provider ''ASST011'' ''Assistant'' ''LOC003'', mk_provider ''ASST012'' ''Assistant'' ''LOC003'',
     mk_provider ''ASST013'' ''Assistant'' ''LOC004'',
     mk_provider ''ADM001'' ''Admin'' ''LOC001'', mk_provider ''ADM002'' ''Admin'' ''LOC001'',
     mk_provider ''ADM003'' ''Admin'' ''LOC001'', mk_provider ''ADM004'' ''Admin'' ''LOC002'',
     mk_provider ''ADM005'' ''Admin'' ''LOC002'', mk_provider ''ADM006'' ''Admin'' ''LOC003'',
     mk_provider ''ADM007'' ''Admin'' ''LOC004'',
     mk_provider ''DR008'' ''Dentist'' ''LOC004'', mk_provider ''DR009'' ''Dentist'' ''LOC004'',
     mk_provider ''HYG010'' ''Hygienist'' ''LOC004'', mk_provider ''HYG011'' ''Hygienist'' ''LOC004'',
     mk_provider ''ASST014'' ''Assistant'' ''LOC004'', mk_provider ''ASST015'' ''Assistant'' ''LOC004'',
     mk_provider ''ASST016'' ''Assistant'' ''LOC004'', mk_provider ''ASST017'' ''Assistant'' ''LOC004'',
     mk_provider ''ADM008'' ''Admin'' ''LOC004'', mk_provider ''ADM009'' ''Admin'' ''LOC004'']"

record insurance =
  ins_name :: string
  avg_reimbursement_rate :: real

definition insuranceProviders :: "insurance list" where
  "insuranceProviders =
    [\<lparr>ins_name = ''Delta Dental'', avg_reimbursement_rate = 85 / 100\<rparr>,
     \<lparr>ins_name = ''Cigna Dental'', avg_reimbursement_rate = 80 / 100\<rparr>,
     \<lparr>ins_name = ''Aetna'', avg_reimbursement_rate = 75 / 100\<rparr>,
     \<lparr>ins_name = ''MetLife'', avg_reimbursement_rate = 82 / 100\<rparr>,
     \<lparr>ins_name = ''Guardian'', avg_reimbursement_rate = 78 / 100\<rparr>,
     \<lparr>ins_name = ''No Insurance'', avg_reimbursement_rate = 1\<rparr>]"

record procedure =
  code :: string
  category :: string
  avg_fee :: int
  duration :: int

definition mk_procedure :: "string \<Rightarrow> string \<Rightarrow> int \<Rightarrow> int \<Rightarrow> procedure" where
  "mk_procedure c g f d = \<lparr>code = c, category = g, avg_fee = f, duration = d\<rparr>"

definition procedures :: "procedure list" where
  "procedures =
    [mk_procedure ''D0120'' ''Diagnostic'' 60 15, mk_procedure ''D0150'' ''Diagnostic'' 110 30,
     mk_procedure ''D0210'' ''Diagnostic'' 150 30, mk_procedure ''D0220'' ''Diagnostic'' 35 10,
     mk_procedure ''D0274'' ''Diagnostic'' 70 15,
     mk_procedure ''D1110'' ''Preventive'' 110 45, mk_procedure ''D1120'' ''Preventive'' 85 30,
     mk_procedure ''D1208'' ''Preventive'' 45 15, mk_procedure ''D1351'' ''Preventive'' 60 20,
     mk_procedure ''D2140'' ''Restorative'' 155 45, mk_procedure ''D2150'' ''Restorative'' 195 60,
     mk_procedure ''D2160'' ''Restorative'' 235 75, mk_procedure ''D2330'' ''Restorative'' 175 45,
     mk_procedure ''D2331'' ''Restorative'' 215 60, mk_procedure ''D2332'' ''Restorative'' 255 75,
     mk_procedure ''D2740'' ''Restorative'' 1250 90, mk_procedure ''D2750'' ''Restorative'' 1150 90,
     mk_procedure ''D3310'' ''Endodontic'' 825 90, mk_procedure ''D3320'' ''Endodontic'' 950 105,
     mk_procedure ''D3330'' ''Endodontic'' 1150 120,
     mk_procedure ''D4341'' ''Periodontic'' 275 60, mk_procedure ''D4910'' ''Periodontic'' 135 45,
     mk_procedure ''D5110'' ''Prosthodontic'' 1890 100, mk_procedure ''D5120'' ''Prosthodontic'' 1850 90,
     mk_procedure ''D5213'' ''Prosthodontic'' 1650 90, mk_procedure ''D5214'' ''Prosthodontic'' 1650 90,
     mk_procedure ''D6010'' ''Implant'' 2100 120, mk_procedure ''D6056'' ''Implant'' 650 60,
     mk_procedure ''D6058'' ''Implant'' 1550 90,
     mk_procedure ''D8080'' ''Orthodontic'' 5500 120, mk_procedure ''D8090'' ''Orthodontic'' 6200 120,
     mk_procedure ''D9110'' ''Adjunctive'' 125 30, mk_procedure ''D9215'' ''Adjunctive'' 45 10,
     mk_procedure ''D9310'' ''Adjunctive'' 95 45]"

definition teeth :: "string list" where
  "teeth = map (\<lambda>n. String_nat n) [1..<33]"

definition appointmentStatuses :: "string list" where
  "appointmentStatuses = [''Completed'', ''No-Show'', ''Canceled'', ''Rescheduled'']"

definition statusProbabilities :: "real list" where
  "statusProbabilities = [85 / 100, 5 / 100, 7 / 100, 3 / 100]"

definition paymentMethods :: "string list" where
  "paymentMethods = [''Credit Card'', ''Debit Card'', ''Cash'', ''Check'', ''Insurance Only'']"

definition youthProcedureCodes :: "string list" where
  "youthProcedureCodes = [''D0120'', ''D0150'', ''D1120'', ''D1208'', ''D1351'', ''D8080'']"

definition seniorProcedureCodes :: "string list" where
  "seniorProcedureCodes =
     [''D2740'', ''D2750'', ''D3310'', ''D3320'', ''D3330'', ''D5110'', ''D5120'', ''D6010'', ''D6058'']"

subsection \<open>Patients, rows and the generator's state\<close>

text \<open>
  Of a patient, a location and a provider the model keeps the fields that the generator
  reads; the fields it only copies into the row (names, gender, zip code, the provider's
  specialty, the procedure description, the location's rating) are left out of the row.
\<close>

record patient =
  patient_id :: string
  age :: int
  registration_date :: string
  insurance_provider :: string

record appointment =
  Visit_ID :: string
  Procedure_ID :: string
  Patient_ID :: string
  Location_ID :: string
  Provider_ID :: string
  Date_of_Service :: string
  Appointment_Time :: string
  Appointment_Status :: string
  Procedure_Code :: string
  Procedure_Category :: string
  Procedure_Duration :: int
  Tooth_Number :: string
  Charged_Amount :: int
  Insurance_Provider :: string
  Insurance_Covered_Amount :: int
  Patient_Responsibility :: int
  Discount_Applied :: int
  Out_of_Pocket :: int
  Amount_Paid :: int
  Payment_Method :: string
  Payment_Status :: string
  Is_New_Patient :: bool
  Insurance_Claim_Status :: string
  Insurance_Claim_Submission_Date :: string
  Insurance_Claim_Payment_Date :: string
  Treatment_Plan_ID :: string
  Treatment_Plan_Creation_Date :: string
  Treatment_Plan_Completion_Date :: string
  Treatment_Plan_Completion_Rate :: int
  Estimated_Total_Cost :: int
  Year :: int
  Month :: int

record treatment_plan =
  plan_id :: string
  creationDate :: string
  totalProcedures :: int
  completedProcedures :: int
  totalCost :: int

text \<open>The two module-level maps, keyed by patient id.\<close>

record gen_state =
  patientLastCleaningDate :: "string \<rightharpoonup> string"
  activeTreatmentPlans :: "string \<rightharpoonup> treatment_plan"

definition initial_state :: gen_state where
  "initial_state = \<lparr>patientLastCleaningDate = Map.empty, activeTreatmentPlans = Map.empty\<rparr>"


subsection \<open>Recall gating\<close>

text \<open>
  \<open>isDueForRecall(patientId, procedureCode, currentDate)\<close>. Both dates are texts
  \<open>YYYY-MM-DD\<close>, which \<open>new Date\<close> reads as midnight UTC; their years and months are then
  taken with the local getters.
\<close>

definition isDueForRecall ::
  "timezone \<Rightarrow> (string \<rightharpoonup> string) \<Rightarrow> string \<Rightarrow> string \<Rightarrow> string \<Rightarrow> bool" where
  "isDueForRecall tz lastCleaningDates patientId procedureCode currentDate =
     (if procedureCode \<noteq> ''D1110'' \<and> procedureCode \<noteq> ''D1120'' then True
      else case lastCleaningDates patientId of
             None \<Rightarrow> True
           | Some lastCleaning \<Rightarrow>
               (if lastCleaning = [] then True
                else let lastDate = LocalTime tz (Date_parse lastCleaning);
                         currentDateTime = LocalTime tz (Date_parse currentDate);
                         monthsSince = (getFullYear currentDateTime - getFullYear lastDate) * 12 +
                                       (getMonth currentDateTime - getMonth lastDate)
                     in monthsSince \<ge> 5))"

subsection \<open>The draws of one visit and of one procedure\<close>

text \<open>
  One field per call site of \<open>Math.random()\<close> in the loop body; call sites on mutually
  exclusive branches share a field.
\<close>

record visit_draws =
  u_patient :: random_draw
  u_date :: random_draw
  u_hour :: random_draw
  u_minute :: random_draw
  u_location :: random_draw
  u_provider :: random_draw
  u_status :: random_draw
  u_numProcedures :: random_draw

record procedure_draws =
  u_bias :: random_draw
  u_pick :: random_draw
  u_fallback :: random_draw
  u_charge :: random_draw
  u_coverage :: random_draw
  u_hasDiscount :: random_draw
  u_discount :: random_draw
  u_isPaid :: random_draw
  u_method :: random_draw
  u_tooth :: random_draw
  u_newPlan :: random_draw
  u_planId :: random_draw
  u_totalProcedures :: random_draw
  u_claimPaid :: random_draw
  u_claimPending :: random_draw
  u_claimDays :: random_draw

subsection \<open>Status and procedure selection\<close>

text \<open>The cumulative-probability scan; the index stays 0 when no threshold is reached.\<close>

fun statusScan :: "real \<Rightarrow> real \<Rightarrow> nat \<Rightarrow> real list \<Rightarrow> nat" where
  "statusScan statusRand cumulativeProb j [] = 0"
| "statusScan statusRand cumulativeProb j (p # ps) =
     (if statusRand \<le> cumulativeProb + p then j
      else statusScan statusRand (cumulativeProb + p) (Suc j) ps)"

definition statusIndex :: "random_draw \<Rightarrow> nat" where
  "statusIndex u = statusScan (rv u) 0 0 statusProbabilities"

text \<open>\<open>procedures.findIndex(p => p.code === selectedCode)\<close>: \<open>-1\<close> when there is none.\<close>

fun findIndex_from :: "int \<Rightarrow> string \<Rightarrow> procedure list \<Rightarrow> int" where
  "findIndex_from k c [] = - 1"
| "findIndex_from k c (p # ps) = (if code p = c then k else findIndex_from (k + 1) c ps)"

definition findIndex :: "string \<Rightarrow> int" where
  "findIndex c = findIndex_from 0 c procedures"

definition selectProcedureIndex :: "int \<Rightarrow> procedure_draws \<Rightarrow> int" where
  "selectProcedureIndex patientAge d =
     (let procedureIndex =
        (if patientAge < 18 then
           (if rv (u_bias d) < 7 / 10
            then findIndex (youthProcedureCodes ! randomIndex (length youthProcedureCodes) (u_pick d))
            else int (randomIndex (length procedures) (u_pick d)))
         else if patientAge > 55 then
           (if rv (u_bias d) < 6 / 10
            then findIndex (seniorProcedureCodes ! randomIndex (length seniorProcedureCodes) (u_pick d))
            else int (randomIndex (length procedures) (u_pick d)))
         else
           (if rv (u_bias d) < 6 / 10
            then int (randomIndex 10 (u_pick d))
            else int (randomIndex (length procedures) (u_pick d))))
      in if procedureIndex = - 1 then int (randomIndex (length procedures) (u_fallback d))
         else procedureIndex)"

subsection \<open>Treatment plans\<close>

record plan_fields =
  treatmentPlanId :: string
  treatmentPlanCreationDate :: string
  treatmentPlanCompletionDate :: string
  treatmentPlanCompletionRate :: int
  estimatedTotalCost :: int

text \<open>
  The treatment-plan block of a Completed procedure: an open plan of the patient is
  advanced (and removed once its rate reaches 100); otherwise a new plan may be opened.
\<close>

definition treatmentPlanStep ::
  "string \<Rightarrow> string \<Rightarrow> string \<Rightarrow> int \<Rightarrow> procedure_draws \<Rightarrow> (string \<rightharpoonup> treatment_plan) \<Rightarrow>
   plan_fields \<times> (string \<rightharpoonup> treatment_plan)" where
  "treatmentPlanStep patientId formattedVisitDate procCategory chargedAmount d plans =
     (case plans patientId of
        Some existingPlan \<Rightarrow>
          (let completed = completedProcedures existingPlan + 1;
               rate = min 100 (Math_round (real_of_int completed /
                                           real_of_int (totalProcedures existingPlan) * 100))
           in if rate \<ge> 100
              then (\<lparr>treatmentPlanId = plan_id existingPlan,
                     treatmentPlanCreationDate = creationDate existingPlan,
                     treatmentPlanCompletionDate = formattedVisitDate,
                     treatmentPlanCompletionRate = rate,
                     estimatedTotalCost = totalCost existingPlan\<rparr>,
                    plans(patientId := None))
              else (\<lparr>treatmentPlanId = plan_id existingPlan,
                     treatmentPlanCreationDate = creationDate existingPlan,
                     treatmentPlanCompletionDate = [],
                     treatmentPlanCompletionRate = rate,
                     estimatedTotalCost = totalCost existingPlan\<rparr>,
                    plans(patientId \<mapsto> existingPlan\<lparr>completedProcedures := completed\<rparr>)))
      | None \<Rightarrow>
          (if rv (u_newPlan d) < 3 / 10 \<and>
              procCategory \<in> set [''Restorative'', ''Endodontic'', ''Prosthodontic'', ''Implant'']
           then
             (let newId = ''TP'' @ padStart 4 CHR ''0'' (String_int (Math_floor (rv (u_planId d) * 10000)));
                  total = randomBetween 1 5 (u_totalProcedures d);
                  newPlan = \<lparr>plan_id = newId, creationDate = formattedVisitDate,
                             totalProcedures = total, completedProcedures = 1,
                             totalCost = chargedAmount * total\<rparr>
              in (\<lparr>treatmentPlanId = newId,
                    treatmentPlanCreationDate = formattedVisitDate,
                    treatmentPlanCompletionDate = [],
                    treatmentPlanCompletionRate = Math_round (1 / real_of_int total * 100),
                    estimatedTotalCost = totalCost newPlan\<rparr>,
                  plans(patientId \<mapsto> newPlan)))
           else (\<lparr>treatmentPlanId = [], treatmentPlanCreationDate = [],
                  treatmentPlanCompletionDate = [], treatmentPlanCompletionRate = 0,
                  estimatedTotalCost = chargedAmount\<rparr>,
                 plans)))"


subsection \<open>One procedure of a visit\<close>

text \<open>The values fixed per visit, before the loop over its procedures.\<close>

record visit =
  v_index :: nat
  v_patient :: patient
  v_visitDate :: int
  v_formattedVisitDate :: string
  v_appointmentTime :: string
  v_year :: int
  v_month :: int
  v_location :: location
  v_provider :: provider
  v_appointmentStatus :: string
  v_visitId :: string

definition isNewPatient :: "visit \<Rightarrow> bool" where
  "isNewPatient v =
     (formatDate (Date_parse (registration_date (v_patient v))) = v_formattedVisitDate v)"

text \<open>The row of a procedure of a visit that was not completed: basic data only.\<close>

definition basicRow :: "visit \<Rightarrow> string \<Rightarrow> appointment" where
  "basicRow v procedureId =
     \<lparr>Visit_ID = v_visitId v,
      Procedure_ID = procedureId,
      Patient_ID = patient_id (v_patient v),
      Location_ID = loc_id (v_location v),
      Provider_ID = prov_id (v_provider v),
      Date_of_Service = v_formattedVisitDate v,
      Appointment_Time = v_appointmentTime v,
      Appointment_Status = v_appointmentStatus v,
      Procedure_Code = [],
      Procedure_Category = [],
      Procedure_Duration = 0,
      Tooth_Number = [],
      Charged_Amount = 0,
      Insurance_Provider = insurance_provider (v_patient v),
      Insurance_Covered_Amount = 0,
      Patient_Responsibility = 0,
      Discount_Applied = 0,
      Out_of_Pocket = 0,
      Amount_Paid = 0,
      Payment_Method = [],
      Payment_Status = [],
      Is_New_Patient = isNewPatient v,
      Insurance_Claim_Status = [],
      Insurance_Claim_Submission_Date = [],
      Insurance_Claim_Payment_Date = [],
      Treatment_Plan_ID = [],
      Treatment_Plan_Creation_Date = [],
      Treatment_Plan_Completion_Date = [],
      Treatment_Plan_Completion_Rate = 0,
      Estimated_Total_Cost = 0,
      Year = v_year v,
      Month = v_month v\<rparr>"

text \<open>
  The row of a procedure of a Completed visit, with the financial calculations. The
  payment date of a paid claim is the visit date moved by \<open>setDate(getDate() + n)\<close>, that
  is by \<open>n\<close> days of local time.
\<close>

definition completedRow ::
  "timezone \<Rightarrow> visit \<Rightarrow> string \<Rightarrow> procedure \<Rightarrow> procedure_draws \<Rightarrow> gen_state \<Rightarrow>
   appointment \<times> gen_state" where
  "completedRow tz v procedureId proc d st =
     (let patient = v_patient v;
          chargedAmount = Math_round (real_of_int (avg_fee proc) * (9 / 10 + rv (u_charge d) * (2 / 10)));
          hasInsurance = (insurance_provider patient \<noteq> ''No Insurance'');
          insuranceCovered =
            (if hasInsurance then
               (let coverageRate0 =
                      (case find (\<lambda>p. ins_name p = insurance_provider patient) insuranceProviders of
                         Some p \<Rightarrow> avg_reimbursement_rate p
                       | None \<Rightarrow> 75 / 100);
                    coverageRate = max (5 / 10) (min (95 / 100)
                                     (coverageRate0 * (9 / 10 + rv (u_coverage d) * (2 / 10))))
                in Math_round (real_of_int chargedAmount * coverageRate))
             else 0);
          patientResponsibility = chargedAmount - insuranceCovered;
          hasDiscount = (rv (u_hasDiscount d) < 15 / 100);
          discountRate = (if hasDiscount then real_of_int (randomBetween 1 3 (u_discount d)) / 10 else 0);
          discountAmount = Math_round (real_of_int patientResponsibility * discountRate);
          outOfPocket = patientResponsibility - discountAmount;
          isPaid = (rv (u_isPaid d) < 95 / 100);
          amountPaid = (if isPaid then outOfPocket else 0);
          paymentMethod =
            (if isPaid then paymentMethods ! randomIndex (length paymentMethods) (u_method d) else []);
          needsTooth = (category proc \<in> set [''Restorative'', ''Endodontic'', ''Periodontic'', ''Implant'']);
          toothNumber = (if needsTooth then teeth ! randomIndex (length teeth) (u_tooth d) else []);
          (tp, plans') = treatmentPlanStep (patient_id patient) (v_formattedVisitDate v)
                           (category proc) chargedAmount d (activeTreatmentPlans st);
          claimStatus =
            (if hasInsurance
             then (if rv (u_claimPaid d) < 95 / 100 then ''Paid''
                   else if rv (u_claimPending d) < 5 / 10 then ''Pending'' else ''Denied'')
             else []);
          claimSubmissionDate = (if hasInsurance then v_formattedVisitDate v else []);
          claimPaymentDate =
            (if claimStatus = ''Paid''
             then formatDate (UTC tz (LocalTime tz (v_visitDate v) +
                                      randomBetween 15 45 (u_claimDays d) * msPerDay))
             else [])
      in (\<lparr>Visit_ID = v_visitId v,
           Procedure_ID = procedureId,
           Patient_ID = patient_id patient,
           Location_ID = loc_id (v_location v),
           Provider_ID = prov_id (v_provider v),
           Date_of_Service = v_formattedVisitDate v,
           Appointment_Time = v_appointmentTime v,
           Appointment_Status = v_appointmentStatus v,
           Procedure_Code = code proc,
           Procedure_Category = category proc,
           Procedure_Duration = duration proc,
           Tooth_Number = toothNumber,
           Charged_Amount = chargedAmount,
           Insurance_Provider = insurance_provider patient,
           Insurance_Covered_Amount = insuranceCovered,
           Patient_Responsibility = patientResponsibility,
           Discount_Applied = discountAmount,
           Out_of_Pocket = outOfPocket,
           Amount_Paid = amountPaid,
           Payment_Method = paymentMethod,
           Payment_Status = (if isPaid then ''Paid'' else ''Outstanding''),
           Is_New_Patient = isNewPatient v,
           Insurance_Claim_Status = claimStatus,
           Insurance_Claim_Submission_Date = claimSubmissionDate,
           Insurance_Claim_Payment_Date = claimPaymentDate,
           Treatment_Plan_ID = treatmentPlanId tp,
           Treatment_Plan_Creation_Date = treatmentPlanCreationDate tp,
           Treatment_Plan_Completion_Date = treatmentPlanCompletionDate tp,
           Treatment_Plan_Completion_Rate = treatmentPlanCompletionRate tp,
           Estimated_Total_Cost = estimatedTotalCost tp,
           Year = v_year v,
           Month = v_month v\<rparr>,
          st\<lparr>activeTreatmentPlans := plans'\<rparr>))"

text \<open>
  The body of the loop over the procedures of a visit: the procedure is selected; a
  cleaning that is not due is skipped (\<open>continue\<close>: no row, no change of state); a cleaning
  that is emitted is recorded as the patient's last cleaning; then the row is built.
\<close>

definition selectProcedure :: "visit \<Rightarrow> procedure_draws \<Rightarrow> procedure" where
  "selectProcedure v d = procedures ! nat (selectProcedureIndex (age (v_patient v)) d)"

definition generateProcedure ::
  "timezone \<Rightarrow> visit \<Rightarrow> nat \<Rightarrow> procedure_draws \<Rightarrow> gen_state \<Rightarrow>
   appointment option \<times> gen_state" where
  "generateProcedure tz v p d st =
     (let patient = v_patient v;
          proc = selectProcedure v d
      in if (code proc = ''D1110'' \<or> code proc = ''D1120'') \<and>
            \<not> isDueForRecall tz (patientLastCleaningDate st) (patient_id patient) (code proc)
                (v_formattedVisitDate v)
         then (None, st)
         else
           (let st1 = (if code proc = ''D1110'' \<or> code proc = ''D1120''
                       then st\<lparr>patientLastCleaningDate :=
                                 (patientLastCleaningDate st)(patient_id patient \<mapsto> v_formattedVisitDate v)\<rparr>
                       else st);
                procedureId = ''PROC'' @ padStart 6 CHR ''0'' (String_nat (v_index v * 10 + p + 1))
            in if v_appointmentStatus v = ''Completed''
               then (let (row, st2) = completedRow tz v procedureId proc d st1 in (Some row, st2))
               else (Some (basicRow v procedureId), st1)))"

text \<open>The loop \<open>for (p = 0; p < numProceduresForVisit; p++)\<close>, with \<open>k\<close> iterations left.\<close>

fun procedureLoop ::
  "timezone \<Rightarrow> visit \<Rightarrow> (nat \<Rightarrow> procedure_draws) \<Rightarrow> nat \<Rightarrow> nat \<Rightarrow> gen_state \<Rightarrow>
   appointment list \<times> gen_state" where
  "procedureLoop tz v pd p 0 st = ([], st)"
| "procedureLoop tz v pd p (Suc k) st =
     (let (r, st1) = generateProcedure tz v p (pd p) st;
          (rs, st2) = procedureLoop tz v pd (Suc p) k st1
      in ((case r of None \<Rightarrow> rs | Some row \<Rightarrow> row # rs), st2))"

subsection \<open>One visit, and the loop over the visits\<close>

text \<open>The identifier of visit \<open>i\<close>: \<open>V\<close> followed by \<open>i + 1\<close> padded to six digits.\<close>

definition visitId :: "nat \<Rightarrow> string" where
  "visitId i = ''V'' @ padStart 6 CHR ''0'' (String_nat (i + 1))"

datatype error = TypeError | ENOENT

text \<open>
  The head of the loop body: the patient, the date, the location, the provider and the
  status of visit \<open>i\<close>, and the number of its procedures.
\<close>

definition patientIndex :: "patient list \<Rightarrow> visit_draws \<Rightarrow> nat" where
  "patientIndex patients vd =
     nat (Math_floor (rv (u_patient vd) powr (3 / 2) * real (length patients)))"

definition visitOf :: "timezone \<Rightarrow> patient list \<Rightarrow> nat \<Rightarrow> visit_draws \<Rightarrow> visit" where
  "visitOf tz patients i vd =
     (let patient = patients ! patientIndex patients vd;
          regDate = Date_parse (registration_date patient);
          visitDate = randomDate (if regDate > START_DATE tz then regDate else START_DATE tz)
                        (END_DATE tz) (u_date vd);
          location = locations ! randomIndex (length locations) (u_location vd);
          locationProviders = filter (\<lambda>p. primary_location p = loc_id location) providers;
          prov = (if length locationProviders > 0
                  then locationProviders ! randomIndex (length locationProviders) (u_provider vd)
                  else (case find (\<lambda>p. primary_location p = loc_id location) providers of
                          Some p \<Rightarrow> p
                        | None \<Rightarrow> providers ! randomIndex (length providers) (u_provider vd)))
      in \<lparr>v_index = i,
          v_patient = patient,
          v_visitDate = visitDate,
          v_formattedVisitDate = formatDate visitDate,
          v_appointmentTime = randomAppointmentTime (u_hour vd) (u_minute vd),
          v_year = getFullYear (LocalTime tz visitDate),
          v_month = getMonth (LocalTime tz visitDate) + 1,
          v_location = location,
          v_provider = prov,
          v_appointmentStatus = appointmentStatuses ! statusIndex (u_status vd),
          v_visitId = visitId i\<rparr>)"

definition numProceduresForVisit :: "visit_draws \<Rightarrow> nat" where
  "numProceduresForVisit vd = nat (randomBetween 1 3 (u_numProcedures vd))"

text \<open>
  \<open>patients[patientIndex]\<close> is \<open>undefined\<close> when the index is out of range (which happens
  for an empty population only), and reading its registration date throws.
\<close>

definition generateVisit ::
  "timezone \<Rightarrow> patient list \<Rightarrow> nat \<Rightarrow> visit_draws \<Rightarrow> (nat \<Rightarrow> procedure_draws) \<Rightarrow> gen_state \<Rightarrow>
   error + (appointment list \<times> gen_state)" where
  "generateVisit tz patients i vd pd st =
     (if patientIndex patients vd \<ge> length patients then Inl TypeError
      else Inr (procedureLoop tz (visitOf tz patients i vd) pd 0 (numProceduresForVisit vd) st))"

text \<open>The loop \<open>for (i = 0; i < NUM_RECORDS; i++)\<close>, with \<open>k\<close> iterations left.\<close>

fun visitLoop ::
  "timezone \<Rightarrow> patient list \<Rightarrow> (nat \<Rightarrow> visit_draws) \<Rightarrow> (nat \<Rightarrow> nat \<Rightarrow> procedure_draws) \<Rightarrow>
   nat \<Rightarrow> nat \<Rightarrow> gen_state \<Rightarrow> error + (appointment list \<times> gen_state)" where
  "visitLoop tz patients vd pd i 0 st = Inr ([], st)"
| "visitLoop tz patients vd pd i (Suc k) st =
     (case generateVisit tz patients i (vd i) (pd i) st of
        Inl e \<Rightarrow> Inl e
      | Inr (rows, st1) \<Rightarrow>
          (case visitLoop tz patients vd pd (Suc i) k st1 of
             Inl e \<Rightarrow> Inl e
           | Inr (rest, st2) \<Rightarrow> Inr (rows @ rest, st2)))"

text \<open>
  The sort key \<open>new Date(Date_of_Service + 'T' + Appointment_Time)\<close>, in milliseconds: a
  date with a time and no zone is read as local time.
\<close>

definition sortKey :: "timezone \<Rightarrow> appointment \<Rightarrow> int" where
  "sortKey tz a =
     UTC tz (Date_parse (Date_of_Service a) +
             (int (digits_val 0 (take 2 (Appointment_Time a))) * 60 +
              int (digits_val 0 (take 2 (drop 3 (Appointment_Time a))))) * 60000)"

text \<open>
  \<open>generateAppointmentData(patients)\<close>, with the number of visits as an argument (the
  script passes \<open>NUM_RECORDS\<close>): the rows of all visits in order of generation, then
  sorted (stably) by date and time.
\<close>

definition generateAppointmentData ::
  "timezone \<Rightarrow> nat \<Rightarrow> patient list \<Rightarrow> (nat \<Rightarrow> visit_draws) \<Rightarrow> (nat \<Rightarrow> nat \<Rightarrow> procedure_draws) \<Rightarrow>
   error + appointment list" where
  "generateAppointmentData tz n patients vd pd =
     (case visitLoop tz patients vd pd 0 n initial_state of
        Inl e \<Rightarrow> Inl e
      | Inr (rows, st) \<Rightarrow> Inr (sort_key (sortKey tz) rows))"

text \<open>The rows of an output that carry a given visit identifier.\<close>

definition rowsOfVisit :: "string \<Rightarrow> appointment list \<Rightarrow> appointment list" where
  "rowsOfVisit vid rows = filter (\<lambda>r. Visit_ID r = vid) rows"

text \<open>
  For the statements about a run: the state in which visit \<open>i\<close> starts, the state in which
  procedure \<open>p\<close> of a visit starts, and whether that procedure is skipped by the recall
  test (the \<open>continue\<close> of the loop body).
\<close>

definition stateBeforeVisit ::
  "timezone \<Rightarrow> patient list \<Rightarrow> (nat \<Rightarrow> visit_draws) \<Rightarrow> (nat \<Rightarrow> nat \<Rightarrow> procedure_draws) \<Rightarrow>
   nat \<Rightarrow> gen_state" where
  "stateBeforeVisit tz patients vd pd i =
     (case visitLoop tz patients vd pd 0 i initial_state of
        Inl e \<Rightarrow> initial_state
      | Inr (rows, st) \<Rightarrow> st)"

definition stateBeforeProcedure ::
  "timezone \<Rightarrow> visit \<Rightarrow> (nat \<Rightarrow> procedure_draws) \<Rightarrow> gen_state \<Rightarrow> nat \<Rightarrow> gen_state" where
  "stateBeforeProcedure tz v pd st p = snd (procedureLoop tz v pd 0 p st)"

definition skipped ::
  "timezone \<Rightarrow> visit \<Rightarrow> (nat \<Rightarrow> procedure_draws) \<Rightarrow> gen_state \<Rightarrow> nat \<Rightarrow> bool" where
  "skipped tz v pd st p =
     (let proc = selectProcedure v (pd p)
      in (code proc = ''D1110'' \<or> code proc = ''D1120'') \<and>
         \<not> isDueForRecall tz (patientLastCleaningDate (stateBeforeProcedure tz v pd st p))
             (patient_id (v_patient v)) (code proc) (v_formattedVisitDate v))"

section \<open>Reading the flat files (Operations and Financial Generators)\<close>

text \<open>
  The working directory maps a file name to the text of the file. The two downstream
  generators parse the appointment file with the same hand-written code: the text is
  split into lines, the first line gives the headers, every other non-blank line is split
  at the commas outside double quotes (the quotes themselves are dropped), and a row
  object maps each header to its value.
\<close>

type_synonym filesystem = "string \<rightharpoonup> string"

text \<open>
  The name under which the Operations Generator writes its main table, and the name under
  which the Financial Generator looks for it (the two literals of the scripts).
\<close>

definition operationsOutputFile :: string where
  "operationsOutputFile = ''Dental_Operations_Data.csv''"

definition operationsInputFile :: string where
  "operationsInputFile = ''Operations_Data.csv''"


text \<open>\<open>s.split(c)\<close> for a one-character separator.\<close>

fun split_from :: "char \<Rightarrow> string \<Rightarrow> string \<Rightarrow> string list" where
  "split_from sep current [] = [current]"
| "split_from sep current (c # cs) =
     (if c = sep then current # split_from sep [] cs else split_from sep (current @ [c]) cs)"

definition split :: "char \<Rightarrow> string \<Rightarrow> string list" where
  "split sep s = split_from sep [] s"

text \<open>\<open>s.replace(/^"|"$/g, '')\<close>: a leading and a trailing double quote are removed.\<close>

definition stripQuotes :: "string \<Rightarrow> string" where
  "stripQuotes s =
     (let s1 = (case s of c # cs \<Rightarrow> (if c = CHR 0x22 then cs else s) | [] \<Rightarrow> s)
      in if s1 \<noteq> [] \<and> last s1 = CHR 0x22 then butlast s1 else s1)"

definition isWhiteSpace :: "char \<Rightarrow> bool" where
  "isWhiteSpace c = (c \<in> set [CHR '' '', CHR 0x09, CHR 0x0A, CHR 0x0B, CHR 0x0C, CHR 0x0D])"

text \<open>\<open>!line.trim()\<close>: the line is empty or blank.\<close>

definition isBlank :: "string \<Rightarrow> bool" where
  "isBlank s = list_all isWhiteSpace s"

text \<open>The loop over the characters of a line, with the value being built and \<open>inQuotes\<close>.\<close>

fun splitValues :: "string \<Rightarrow> bool \<Rightarrow> string \<Rightarrow> string list" where
  "splitValues current inQuotes [] = [current]"
| "splitValues current inQuotes (c # cs) =
     (if c = CHR 0x22 then splitValues current (\<not> inQuotes) cs
      else if c = CHR '','' \<and> \<not> inQuotes then current # splitValues [] inQuotes cs
      else splitValues (current @ [c]) inQuotes cs)"

type_synonym csv_row = "string \<rightharpoonup> string"

definition rowObject :: "string list \<Rightarrow> string list \<Rightarrow> csv_row" where
  "rowObject headers values =
     fold (\<lambda>(header, index) row.
             row(header \<mapsto> (if index < length values then stripQuotes (values ! index) else [])))
       (zip headers [0..<length headers]) Map.empty"

text \<open>
  Reading a property of a row object: a header that the file does not have gives
  \<open>undefined\<close>, which every use below converts to the text \<open>undefined\<close> (as a key or as
  the argument of \<open>parseInt\<close>) or compares with a text it differs from.
\<close>

definition getProp :: "csv_row \<Rightarrow> string \<Rightarrow> string" where
  "getProp row name = (case row name of None \<Rightarrow> ''undefined'' | Some v \<Rightarrow> v)"

text \<open>The rows of a file: the parsed non-blank lines after the header line.\<close>

definition parseRows :: "string \<Rightarrow> csv_row list" where
  "parseRows data =
     (case split CHR 0x0A data of
        [] \<Rightarrow> []
      | first # rest \<Rightarrow>
          (let headers = map stripQuotes (split CHR '','' first)
           in map (\<lambda>line. rowObject headers (splitValues [] False line))
                (filter (\<lambda>line. \<not> isBlank line) rest)))"

text \<open>
  \<open>parseInt(s)\<close>: leading white space is skipped, a sign is read, then the longest run of
  decimal digits (hexadecimal digits after \<open>0x\<close>); without a digit the result is \<open>NaN\<close>,
  here \<open>None\<close>. \<open>parseInt(s) || 0\<close> replaces \<open>NaN\<close> by 0.
\<close>

definition hex_val :: "char \<Rightarrow> nat option" where
  "hex_val c =
     (if c \<in> set ''0123456789'' then Some (of_char c - 48)
      else if c \<in> set ''abcdef'' then Some (of_char c - 87)
      else if c \<in> set ''ABCDEF'' then Some (of_char c - 55)
      else None)"

fun hex_digits_val :: "nat \<Rightarrow> string \<Rightarrow> nat" where
  "hex_digits_val acc [] = acc"
| "hex_digits_val acc (c # cs) =
     (case hex_val c of None \<Rightarrow> acc | Some d \<Rightarrow> hex_digits_val (acc * 16 + d) cs)"

definition parseInt :: "string \<Rightarrow> int option" where
  "parseInt s =
     (let s1 = dropWhile isWhiteSpace s;
          negative = (take 1 s1 = ''-'');
          s2 = (if take 1 s1 = ''-'' \<or> take 1 s1 = ''+'' then drop 1 s1 else s1);
          sign = (if negative then - 1 else 1)
      in if take 2 s2 = ''0x'' \<or> take 2 s2 = ''0X''
         then (if takeWhile (\<lambda>c. hex_val c \<noteq> None) (drop 2 s2) = [] then None
               else Some (sign * int (hex_digits_val 0 (drop 2 s2))))
         else (if takeWhile (\<lambda>c. digit_val c \<noteq> None) s2 = [] then None
               else Some (sign * int (digits_val 0 s2))))"

definition parseIntOr0 :: "string \<Rightarrow> int" where
  "parseIntOr0 s = (case parseInt s of None \<Rightarrow> 0 | Some k \<Rightarrow> k)"

section \<open>The Operations Generator\<close>

subsection \<open>The index of the appointment file by date and location\<close>

text \<open>
  One bucket per date and location seen in the file. (The bucket's list of procedure
  details is never read again and is left out.)

  The index and its entry for a date are plain objects, read and written with
  \<open>index[date][locationId]\<close>. They are modelled as partial maps. This is what the property
  accesses of the script do as long as no date and no location id of a row is the name of
  a property that a plain object inherits from \<open>Object.prototype\<close>; \<open>plainKeys\<close> says so of
  the rows of a file, and the statements about the index assume it. (With such a name as a
  key the script would reach the inherited object instead of a bucket of its own.)
\<close>

definition Object_prototype_names :: "string list" where
  "Object_prototype_names =
     [''constructor'', ''__defineGetter__'', ''__defineSetter__'', ''hasOwnProperty'',
      ''__lookupGetter__'', ''__lookupSetter__'', ''isPrototypeOf'', ''propertyIsEnumerable'',
      ''toString'', ''valueOf'', ''__proto__'', ''toLocaleString'']"

record appointment_metrics =
  total :: int
  completed :: int
  canceled :: int
  noShow :: int
  rescheduled :: int
  totalDuration :: int
  newPatients :: int
  chargedAmount :: int
  insuranceCovered :: int
  patientResponsibility :: int
  amountPaid :: int

definition emptyMetrics :: appointment_metrics where
  "emptyMetrics =
     \<lparr>total = 0, completed = 0, canceled = 0, noShow = 0, rescheduled = 0, totalDuration = 0,
      newPatients = 0, chargedAmount = 0, insuranceCovered = 0, patientResponsibility = 0,
      amountPaid = 0\<rparr>"

type_synonym appointment_index = "string \<rightharpoonup> (string \<rightharpoonup> appointment_metrics)"

text \<open>The update of the bucket of a row, by status.\<close>

definition updateMetrics :: "csv_row \<Rightarrow> appointment_metrics \<Rightarrow> appointment_metrics" where
  "updateMetrics row m =
     (let status = getProp row ''Appointment_Status'';
          dur = parseIntOr0 (getProp row ''Procedure_Duration'');
          m1 = m\<lparr>total := total m + 1\<rparr>;
          m2 = (if status = ''Completed'' then
                  m1\<lparr>completed := completed m1 + 1,
                     totalDuration := totalDuration m1 + dur,
                     chargedAmount := chargedAmount m1 + parseIntOr0 (getProp row ''Charged_Amount''),
                     insuranceCovered :=
                       insuranceCovered m1 + parseIntOr0 (getProp row ''Insurance_Covered_Amount''),
                     patientResponsibility :=
                       patientResponsibility m1 + parseIntOr0 (getProp row ''Patient_Responsibility''),
                     amountPaid := amountPaid m1 + parseIntOr0 (getProp row ''Amount_Paid'')\<rparr>
                else if status = ''Canceled'' then m1\<lparr>canceled := canceled m1 + 1\<rparr>
                else if status = ''No-Show'' then m1\<lparr>noShow := noShow m1 + 1\<rparr>
                else if status = ''Rescheduled'' then m1\<lparr>rescheduled := rescheduled m1 + 1\<rparr>
                else m1)
      in if getProp row ''Is_New_Patient'' = ''true'' then m2\<lparr>newPatients := newPatients m2 + 1\<rparr>
         else m2)"

definition addRow :: "csv_row \<Rightarrow> appointment_index \<Rightarrow> appointment_index" where
  "addRow row idx =
     (let date = getProp row ''Date_of_Service'';
          locationId = getProp row ''Location_ID'';
          byLocation = (case idx date of None \<Rightarrow> Map.empty | Some b \<Rightarrow> b);
          m = (case byLocation locationId of None \<Rightarrow> emptyMetrics | Some m \<Rightarrow> m)
      in idx(date \<mapsto> byLocation(locationId \<mapsto> updateMetrics row m)))"

definition indexRows :: "csv_row list \<Rightarrow> appointment_index" where
  "indexRows rows = fold addRow rows Map.empty"

text \<open>
  \<open>readAppointmentData()\<close>: the promise is rejected when the file cannot be read, and
  resolved with the index otherwise.
\<close>

definition readAppointmentData :: "filesystem \<Rightarrow> error + appointment_index" where
  "readAppointmentData fs =
     (case fs ''Pat_App_Data.csv'' of
        None \<Rightarrow> Inl ENOENT
      | Some data \<Rightarrow> Inr (indexRows (parseRows data)))"

text \<open>
  For the statements about the index: the rows of a file for a date and a location, those
  of them that are Completed, and the sum of a numeric column over rows.
\<close>

definition fileRowsFor :: "csv_row list \<Rightarrow> string \<Rightarrow> string \<Rightarrow> csv_row list" where
  "fileRowsFor rows date locationId =
     filter (\<lambda>row. getProp row ''Date_of_Service'' = date \<and> getProp row ''Location_ID'' = locationId)
       rows"

definition completedRowsFor :: "csv_row list \<Rightarrow> string \<Rightarrow> string \<Rightarrow> csv_row list" where
  "completedRowsFor rows date locationId =
     filter (\<lambda>row. getProp row ''Appointment_Status'' = ''Completed'')
       (fileRowsFor rows date locationId)"

definition columnSum :: "string \<Rightarrow> csv_row list \<Rightarrow> int" where
  "columnSum name rows = sum_list (map (\<lambda>row. parseIntOr0 (getProp row name)) rows)"

definition plainKeys :: "csv_row list \<Rightarrow> bool" where
  "plainKeys rows =
     list_all (\<lambda>row. getProp row ''Date_of_Service'' \<notin> set Object_prototype_names \<and>
                      getProp row ''Location_ID'' \<notin> set Object_prototype_names) rows"

subsection \<open>Catalogs and helpers of the Operations Generator\<close>

record ops_location =
  ol_id :: string
  ol_name :: string
  ol_chairs :: int
  ol_operatingHours :: int
  ol_avgPatientsPerChairPerDay :: int
  ol_target_chair_utilization :: real
  ol_target_collection_rate :: real
  ol_target_new_patients :: int
  ol_target_cancellation_rate :: real

definition ops_locations :: "ops_location list" where
  "ops_locations =
    [\<lparr>ol_id = ''LOC001'', ol_name = ''Downtown Dental'', ol_chairs = 5, ol_operatingHours = 9,
      ol_avgPatientsPerChairPerDay = 8, ol_target_chair_utilization = 85 / 100,
      ol_target_collection_rate = 92 / 100, ol_target_new_patients = 30,
      ol_target_cancellation_rate = 5 / 100\<rparr>,
     \<lparr>ol_id = ''LOC002'', ol_name = ''Westside Smile Center'', ol_chairs = 4, ol_operatingHours = 10,
      ol_avgPatientsPerChairPerDay = 7, ol_target_chair_utilization = 82 / 100,
      ol_target_collection_rate = 90 / 100, ol_target_new_patients = 25,
      ol_target_cancellation_rate = 6 / 100\<rparr>,
     \<lparr>ol_id = ''LOC003'', ol_name = ''East Valley Dental Care'', ol_chairs = 3, ol_operatingHours = 8,
      ol_avgPatientsPerChairPerDay = 6, ol_target_chair_utilization = 80 / 100,
      ol_target_collection_rate = 88 / 100, ol_target_new_patients = 20,
      ol_target_cancellation_rate = 7 / 100\<rparr>,
     \<lparr>ol_id = ''LOC004'', ol_name = ''North Portland Family Dental'', ol_chairs = 4,
      ol_operatingHours = 9, ol_avgPatientsPerChairPerDay = 7,
      ol_target_chair_utilization = 83 / 100, ol_target_collection_rate = 91 / 100,
      ol_target_new_patients = 25, ol_target_cancellation_rate = 6 / 100\<rparr>]"

definition holidays :: "string list" where
  "holidays =
    [''2020-01-01'', ''2020-01-20'', ''2020-02-17'', ''2020-05-25'', ''2020-07-04'', ''2020-09-07'',
     ''2020-11-11'', ''2020-11-26'', ''2020-12-25'',
     ''2021-01-01'', ''2021-01-18'', ''2021-02-15'', ''2021-05-31'', ''2021-07-04'', ''2021-09-06'',
     ''2021-11-11'', ''2021-11-25'', ''2021-12-25'',
     ''2022-01-01'', ''2022-01-17'', ''2022-02-21'', ''2022-05-30'', ''2022-07-04'', ''2022-09-05'',
     ''2022-11-11'', ''2022-11-24'', ''2022-12-25'',
     ''2023-01-01'', ''2023-01-16'', ''2023-02-20'', ''2023-05-29'', ''2023-07-04'', ''2023-09-04'',
     ''2023-11-11'', ''2023-11-23'', ''2023-12-25'',
     ''2024-01-01'', ''2024-01-15'', ''2024-02-19'', ''2024-05-27'', ''2024-07-04'', ''2024-09-02'',
     ''2024-11-11'', ''2024-11-28'', ''2024-12-25'',
     ''2025-01-01'', ''2025-01-20'', ''2025-02-17'', ''2025-05-26'', ''2025-07-04'']"

text \<open>
  \<open>randomFloatBetween(min, max)\<close> with the default precision 2:
  \<open>Math.round(value * 100) / 100\<close>.
\<close>

definition randomFloatBetween :: "real \<Rightarrow> real \<Rightarrow> random_draw \<Rightarrow> real" where
  "randomFloatBetween lo hi u = real_of_int (Math_round ((rv u * (hi - lo) + lo) * 100)) / 100"

text \<open>The growth factor of the Operations Generator: about 5\% a year since 2020.\<close>

definition ops_getGrowthFactor :: "int \<Rightarrow> random_draw \<Rightarrow> real" where
  "ops_getGrowthFactor date u =
     (let yearsSince2020 = real_of_int (getFullYear date - 2020) + real_of_int (getMonth date) / 12
      in 1 + (yearsSince2020 * (5 / 100)) * randomFloatBetween (8 / 10) (12 / 10) u)"

text \<open>
  The result of a division whose denominator is not tested first: JavaScript yields
  \<open>NaN\<close> for \<open>0 / 0\<close> and an infinity for any other division by zero.
\<close>

datatype jsnum = Num real | NaN | Infinity | NegInfinity

definition js_div :: "real \<Rightarrow> real \<Rightarrow> jsnum" where
  "js_div a b =
     (if b = 0 then (if a = 0 then NaN else if 0 < a then Infinity else NegInfinity)
      else Num (a / b))"

fun isFinite :: "jsnum \<Rightarrow> bool" where
  "isFinite (Num x) = True"
| "isFinite NaN = False"
| "isFinite Infinity = False"
| "isFinite NegInfinity = False"

text \<open>\<open>Math.min(c, x)\<close> for a finite \<open>c\<close>.\<close>

fun Math_min :: "real \<Rightarrow> jsnum \<Rightarrow> jsnum" where
  "Math_min c (Num x) = Num (min c x)"
| "Math_min c NaN = NaN"
| "Math_min c Infinity = Num c"
| "Math_min c NegInfinity = NegInfinity"

subsection \<open>One day of one location\<close>

text \<open>
  The draws of the call sites of \<open>generateDailyOperations\<close> that the modelled fields
  reach. The staffing and equipment simulations (a shuffle by a random comparator, hours
  and usage counts) feed only the staff and equipment fields of the record, and the
  treatment-plan and wait-time fields depend on nothing else; these fields and their
  draws are left out of the record below.
\<close>

record ops_draws =
  u_chairUtilization :: random_draw
  u_claimsProcessed :: random_draw
  u_claimsPaid :: random_draw
  u_claimsDenied :: random_draw
  u_collectionRate :: random_draw
  u_revenuePerChair :: random_draw
  u_growthChair :: random_draw
  u_revenuePerPatient :: random_draw
  u_growthPatient :: random_draw

text \<open>Rates are recorded before their rendering by \<open>toFixed\<close>.\<close>

record operations =
  op_Location_ID :: string
  op_Date :: string
  op_Year :: int
  op_Month :: int
  op_Is_Weekend :: bool
  Appointment_Capacity :: int
  Scheduled_Appointments :: int
  Actual_Appointments :: int
  Chair_Utilization :: jsnum
  Target_Chair_Utilization :: real
  Cancellation_Count :: int
  Cancellation_Rate :: real
  No_Show_Count :: int
  No_Show_Rate :: real
  New_Patient_Count :: int
  Returning_Patient_Count :: int
  Insurance_Claims_Submitted :: int
  Insurance_Claims_Processed :: int
  Insurance_Claims_Paid :: int
  Insurance_Claims_Denied :: int
  Insurance_Denial_Rate :: jsnum
  Actual_Collection_Rate :: real
  Revenue_Per_Chair :: int
  Revenue_Per_Patient :: int

text \<open>The bucket of the day and location, or the all-zero default when there is none.\<close>

definition lookupMetrics :: "appointment_index \<Rightarrow> string \<Rightarrow> string \<Rightarrow> appointment_metrics" where
  "lookupMetrics appointmentData formattedDate locationId =
     (case appointmentData formattedDate of
        None \<Rightarrow> emptyMetrics
      | Some byLocation \<Rightarrow>
          (case byLocation locationId of None \<Rightarrow> emptyMetrics | Some m \<Rightarrow> m))"

definition availableChairMinutes :: "int \<Rightarrow> ops_location \<Rightarrow> real" where
  "availableChairMinutes date location =
     (let availableMinutes = real_of_int (ol_chairs location * ol_operatingHours location * 60)
      in if getDay date = 6 then availableMinutes / 2 else availableMinutes)"

definition targetUtilization :: "int \<Rightarrow> ops_location \<Rightarrow> real" where
  "targetUtilization date location =
     ol_target_chair_utilization location + real_of_int (getFullYear date - 2020) * (5 / 1000)"

text \<open>The two arms of the chair utilization.\<close>

definition derivedChairUtilization :: "int \<Rightarrow> ops_location \<Rightarrow> appointment_metrics \<Rightarrow> jsnum" where
  "derivedChairUtilization date location m =
     Math_min (95 / 100) (js_div (real_of_int (totalDuration m)) (availableChairMinutes date location))"

definition synthesizedChairUtilization :: "int \<Rightarrow> ops_location \<Rightarrow> random_draw \<Rightarrow> real" where
  "synthesizedChairUtilization date location u =
     randomFloatBetween (max (65 / 100) (targetUtilization date location - 1 / 10))
       (min (95 / 100) (targetUtilization date location + 5 / 100)) u"

text \<open>The two arms of the collection rate.\<close>

definition derivedCollectionRate :: "appointment_metrics \<Rightarrow> real" where
  "derivedCollectionRate m = real_of_int (amountPaid m) / real_of_int (chargedAmount m)"

definition synthesizedCollectionRate :: "ops_location \<Rightarrow> random_draw \<Rightarrow> real" where
  "synthesizedCollectionRate location u =
     randomFloatBetween (max (6 / 10) (ol_target_collection_rate location - 1 / 10))
       (min (98 / 100) (ol_target_collection_rate location + 5 / 100)) u"

text \<open>
  \<open>generateDailyOperations(date, location, appointmentData)\<close>: \<open>null\<close> (here \<open>None\<close>) on a
  Sunday or a holiday, the record of the day otherwise.
\<close>

definition generateDailyOperations ::
  "int \<Rightarrow> ops_location \<Rightarrow> appointment_index \<Rightarrow> ops_draws \<Rightarrow> operations option" where
  "generateDailyOperations date location appointmentData d =
     (let formattedDate = formatDate date;
          isHoliday = (formattedDate \<in> set holidays);
          isWeekend = (getDay date = 0 \<or> getDay date = 6)
      in if getDay date = 0 \<or> isHoliday then None
         else
           (let appointmentMetrics = lookupMetrics appointmentData formattedDate (ol_id location);
                chairUtilization =
                  (if totalDuration appointmentMetrics > 0
                   then derivedChairUtilization date location appointmentMetrics
                   else Num (synthesizedChairUtilization date location (u_chairUtilization d)));
                totalScheduled = total appointmentMetrics;
                cancellations = canceled appointmentMetrics;
                noShows = noShow appointmentMetrics;
                cancellationRate =
                  (if totalScheduled > 0 then real_of_int cancellations / real_of_int totalScheduled
                   else 0);
                noShowRate =
                  (if totalScheduled > 0 then real_of_int noShows / real_of_int totalScheduled
                   else 0);
                actualAppointments = completed appointmentMetrics;
                returningPatients = actualAppointments - newPatients appointmentMetrics;
                dailyClaimsSubmitted = Math_round (real_of_int actualAppointments * (8 / 10));
                dailyClaimsProcessed =
                  Math_round (real_of_int dailyClaimsSubmitted *
                              randomFloatBetween (9 / 10) (11 / 10) (u_claimsProcessed d));
                dailyClaimsPaid =
                  Math_round (real_of_int dailyClaimsProcessed *
                              randomFloatBetween (85 / 100) (95 / 100) (u_claimsPaid d));
                dailyClaimsDenied =
                  Math_round (real_of_int dailyClaimsProcessed *
                              randomFloatBetween (2 / 100) (8 / 100) (u_claimsDenied d));
                actualCollectionRate =
                  (if chargedAmount appointmentMetrics > 0
                   then derivedCollectionRate appointmentMetrics
                   else synthesizedCollectionRate location (u_collectionRate d));
                revenuePerChair =
                  (if ol_chairs location > 0
                   then Math_round (real_of_int (chargedAmount appointmentMetrics) /
                                    real_of_int (ol_chairs location))
                   else Math_round (randomFloatBetween 1800 2400 (u_revenuePerChair d) *
                                    ops_getGrowthFactor date (u_growthChair d)));
                revenuePerPatient =
                  (if actualAppointments > 0
                   then Math_round (real_of_int (chargedAmount appointmentMetrics) /
                                    real_of_int actualAppointments)
                   else Math_round (randomFloatBetween 250 350 (u_revenuePerPatient d) *
                                    ops_getGrowthFactor date (u_growthPatient d)))
            in Some
                 \<lparr>op_Location_ID = ol_id location,
                  op_Date = formattedDate,
                  op_Year = getFullYear date,
                  op_Month = getMonth date + 1,
                  op_Is_Weekend = isWeekend,
                  Appointment_Capacity = ol_chairs location * ol_avgPatientsPerChairPerDay location,
                  Scheduled_Appointments = totalScheduled,
                  Actual_Appointments = actualAppointments,
                  Chair_Utilization = chairUtilization,
                  Target_Chair_Utilization = targetUtilization date location,
                  Cancellation_Count = cancellations,
                  Cancellation_Rate = cancellationRate,
                  No_Show_Count = noShows,
                  No_Show_Rate = noShowRate,
                  New_Patient_Count = newPatients appointmentMetrics,
                  Returning_Patient_Count = returningPatients,
                  Insurance_Claims_Submitted = dailyClaimsSubmitted,
                  Insurance_Claims_Processed = dailyClaimsProcessed,
                  Insurance_Claims_Paid = dailyClaimsPaid,
                  Insurance_Claims_Denied = dailyClaimsDenied,
                  Insurance_Denial_Rate =
                    js_div (real_of_int dailyClaimsDenied) (real_of_int dailyClaimsProcessed),
                  Actual_Collection_Rate = actualCollectionRate,
                  Revenue_Per_Chair = revenuePerChair,
                  Revenue_Per_Patient = revenuePerPatient\<rparr>))"

subsection \<open>The dataset and the entry point\<close>

text \<open>
  The loop \<open>while (date <= END_DATE)\<close> from \<open>START_DATE\<close>, a day at a time, and within it
  the loop over the locations; closed days give no record. The draws are given per day
  and location.
\<close>

definition operationDays :: "int list" where
  "operationDays =
     map (\<lambda>k. START_DATE zone_UTC + int k * msPerDay)
       [0..<nat ((END_DATE zone_UTC - START_DATE zone_UTC) div msPerDay + 1)]"

definition dailyRecords ::
  "appointment_index \<Rightarrow> (int \<Rightarrow> string \<Rightarrow> ops_draws) \<Rightarrow> operations list" where
  "dailyRecords appointmentData draws =
     concat (map (\<lambda>date.
                    List.map_filter
                      (\<lambda>location. generateDailyOperations date location appointmentData
                                     (draws date (ol_id location)))
                      ops_locations)
               operationDays)"

definition generateOperationsDataset ::
  "(int \<Rightarrow> string \<Rightarrow> ops_draws) \<Rightarrow> filesystem \<Rightarrow> error + operations list" where
  "generateOperationsDataset draws fs =
     (case readAppointmentData fs of
        Inl e \<Rightarrow> Inl e
      | Inr appointmentData \<Rightarrow> Inr (dailyRecords appointmentData draws))"

text \<open>
  The texts of the three files that the entry point writes. Their serialisation
  (\<open>convertToCSV\<close> over the whole record, with the staff and equipment tables) is an
  argument of the model of \<open>main\<close>.
\<close>

record ops_files =
  operationsCSV :: string
  staffHoursCSV :: string
  equipmentUsageCSV :: string

text \<open>
  \<open>main()\<close> of the Operations Generator: the working directory after the run, and the
  messages written to the console. A rejected read is caught by the \<open>try\<close> of \<open>main\<close>,
  which logs the error and writes nothing.
\<close>

definition operations_main ::
  "(operations list \<Rightarrow> ops_files) \<Rightarrow> (int \<Rightarrow> string \<Rightarrow> ops_draws) \<Rightarrow> filesystem \<Rightarrow>
   filesystem \<times> string list" where
  "operations_main render draws fs =
     (case generateOperationsDataset draws fs of
        Inl e \<Rightarrow>
          (fs, [''Reading appointment data and generating operations data...'',
                ''Error reading appointment data file:'',
                ''Error generating operations data:''])
      | Inr operationsData \<Rightarrow>
          (let files = render operationsData
           in (fs(operationsOutputFile \<mapsto> operationsCSV files,
                  ''Dental_Staff_Hours_Data.csv'' \<mapsto> staffHoursCSV files,
                  ''Dental_Equipment_Usage_Data.csv'' \<mapsto> equipmentUsageCSV files),
               [''Reading appointment data and generating operations data...'',
                ''Successfully processed appointment data'',
                ''Saving data to CSV files...''])))"

section \<open>The Financial Generator\<close>

subsection \<open>The two indices by location, year and month\<close>

text \<open>
  The key \<open>`${locationId}-${year}-${month}`\<close>; the year and month of a row are
  \<open>parseInt\<close> results, and \<open>NaN\<close> is rendered as the text \<open>NaN\<close>.
\<close>

definition String_parsed :: "int option \<Rightarrow> string" where
  "String_parsed k = (case k of None \<Rightarrow> ''NaN'' | Some n \<Rightarrow> String_int n)"

definition monthKey :: "string \<Rightarrow> int option \<Rightarrow> int option \<Rightarrow> string" where
  "monthKey locationId year month =
     locationId @ ''-'' @ String_parsed year @ ''-'' @ String_parsed month"

text \<open>
  The bucket of the appointment index. (Its two histograms, by service category and by
  payor, feed only the revenue split and the payor mix and are left out, with those
  fields.)
\<close>

record appointment_month =
  totalAppointments :: int
  completedAppointments :: int
  canceledAppointments :: int
  noShowAppointments :: int
  totalChargedAmount :: int
  totalInsuranceCovered :: int
  totalAmountPaid :: int

definition emptyAppointmentMonth :: appointment_month where
  "emptyAppointmentMonth =
     \<lparr>totalAppointments = 0, completedAppointments = 0, canceledAppointments = 0,
      noShowAppointments = 0, totalChargedAmount = 0, totalInsuranceCovered = 0,
      totalAmountPaid = 0\<rparr>"

definition updateAppointmentMonth :: "csv_row \<Rightarrow> appointment_month \<Rightarrow> appointment_month" where
  "updateAppointmentMonth row b =
     (let appointmentStatus = getProp row ''Appointment_Status'';
          b1 = b\<lparr>totalAppointments := totalAppointments b + 1\<rparr>
      in if appointmentStatus = ''Completed'' then
           b1\<lparr>completedAppointments := completedAppointments b1 + 1,
              totalChargedAmount :=
                totalChargedAmount b1 + parseIntOr0 (getProp row ''Charged_Amount''),
              totalInsuranceCovered :=
                totalInsuranceCovered b1 + parseIntOr0 (getProp row ''Insurance_Covered_Amount''),
              totalAmountPaid := totalAmountPaid b1 + parseIntOr0 (getProp row ''Amount_Paid'')\<rparr>
         else if appointmentStatus = ''Canceled'' then
           b1\<lparr>canceledAppointments := canceledAppointments b1 + 1\<rparr>
         else if appointmentStatus = ''No-Show'' then
           b1\<lparr>noShowAppointments := noShowAppointments b1 + 1\<rparr>
         else b1)"

type_synonym appointment_month_index = "string \<rightharpoonup> appointment_month"

definition addAppointmentMonthRow :: "csv_row \<Rightarrow> appointment_month_index \<Rightarrow> appointment_month_index" where
  "addAppointmentMonthRow row idx =
     (let key = monthKey (getProp row ''Location_ID'') (parseInt (getProp row ''Year''))
                  (parseInt (getProp row ''Month''));
          b = (case idx key of None \<Rightarrow> emptyAppointmentMonth | Some b \<Rightarrow> b)
      in idx(key \<mapsto> updateAppointmentMonth row b))"

text \<open>
  The bucket of the operations index. \<open>parseFloat(s) || 0\<close> is an argument of the model,
  written \<open>pf\<close>.
\<close>

record operations_month =
  daysInMonth :: int
  om_totalAppointments :: int
  totalNewPatients :: int
  totalLaborCost :: int
  totalLaborHours :: real
  avgChairUtilization :: real
  avgCollectionRate :: real

definition emptyOperationsMonth :: operations_month where
  "emptyOperationsMonth =
     \<lparr>daysInMonth = 0, om_totalAppointments = 0, totalNewPatients = 0, totalLaborCost = 0,
      totalLaborHours = 0, avgChairUtilization = 0, avgCollectionRate = 0\<rparr>"

definition updateOperationsMonth ::
  "(string \<Rightarrow> real) \<Rightarrow> csv_row \<Rightarrow> operations_month \<Rightarrow> operations_month" where
  "updateOperationsMonth pf row b =
     b\<lparr>daysInMonth := daysInMonth b + 1,
       om_totalAppointments :=
         om_totalAppointments b + parseIntOr0 (getProp row ''Actual_Appointments''),
       totalNewPatients := totalNewPatients b + parseIntOr0 (getProp row ''New_Patient_Count''),
       totalLaborCost := totalLaborCost b + parseIntOr0 (getProp row ''Total_Labor_Cost''),
       totalLaborHours := totalLaborHours b + pf (getProp row ''Total_Labor_Hours''),
       avgChairUtilization := avgChairUtilization b + pf (getProp row ''Chair_Utilization''),
       avgCollectionRate := avgCollectionRate b + pf (getProp row ''Actual_Collection_Rate'')\<rparr>"

type_synonym operations_month_index = "string \<rightharpoonup> operations_month"

definition addOperationsMonthRow ::
  "(string \<Rightarrow> real) \<Rightarrow> csv_row \<Rightarrow> operations_month_index \<Rightarrow> operations_month_index" where
  "addOperationsMonthRow pf row idx =
     (let key = monthKey (getProp row ''Location_ID'') (parseInt (getProp row ''Year''))
                  (parseInt (getProp row ''Month''));
          b = (case idx key of None \<Rightarrow> emptyOperationsMonth | Some b \<Rightarrow> b)
      in idx(key \<mapsto> updateOperationsMonth pf row b))"

text \<open>The averages are taken once all rows are in.\<close>

definition averageOperationsMonth :: "operations_month \<Rightarrow> operations_month" where
  "averageOperationsMonth b =
     (if daysInMonth b > 0
      then b\<lparr>avgChairUtilization := avgChairUtilization b / real_of_int (daysInMonth b),
             avgCollectionRate := avgCollectionRate b / real_of_int (daysInMonth b)\<rparr>
      else b)"

record existing_data =
  appointmentsByLocationMonth :: appointment_month_index
  operationsByLocationMonth :: operations_month_index

text \<open>
  \<open>readExistingData()\<close>: each of the two files is probed with \<open>fs.existsSync\<close> and, when
  present, parsed into its index; when absent the index stays empty and a message is
  logged. The result is the two indices and the messages.
\<close>

definition readExistingData :: "(string \<Rightarrow> real) \<Rightarrow> filesystem \<Rightarrow> existing_data \<times> string list" where
  "readExistingData pf fs =
     (let (appointments, log1) =
            (case fs ''Pat_App_Data.csv'' of
               Some data \<Rightarrow>
                 (fold addAppointmentMonthRow (parseRows data) Map.empty,
                  [''Successfully processed appointment data''])
             | None \<Rightarrow>
                 (Map.empty, [''Appointment data file not found, will generate synthetic data'']));
          (operations, log2) =
            (case fs operationsInputFile of
               Some data \<Rightarrow>
                 (map_option averageOperationsMonth \<circ>
                    fold (addOperationsMonthRow pf) (parseRows data) Map.empty,
                  [''Successfully processed operations data''])
             | None \<Rightarrow>
                 (Map.empty, [''Operations data file not found, will generate synthetic data'']))
      in (\<lparr>appointmentsByLocationMonth = appointments, operationsByLocationMonth = operations\<rparr>,
          log1 @ log2))"

subsection \<open>Catalog, seasonal and growth factors\<close>

record fin_location =
  fl_id :: string
  fl_name :: string
  fl_opened_date :: string
  fl_chairs :: int
  fl_target_collection_rate :: real

definition fin_locations :: "fin_location list" where
  "fin_locations =
    [\<lparr>fl_id = ''LOC001'', fl_name = ''Downtown Dental'', fl_opened_date = ''2015-03-15'',
      fl_chairs = 5, fl_target_collection_rate = 92 / 100\<rparr>,
     \<lparr>fl_id = ''LOC002'', fl_name = ''Westside Smile Center'', fl_opened_date = ''2017-06-22'',
      fl_chairs = 4, fl_target_collection_rate = 90 / 100\<rparr>,
     \<lparr>fl_id = ''LOC003'', fl_name = ''East Valley Dental Care'', fl_opened_date = ''2019-11-10'',
      fl_chairs = 3, fl_target_collection_rate = 88 / 100\<rparr>,
     \<lparr>fl_id = ''LOC004'', fl_name = ''North Portland Family Dental'',
      fl_opened_date = ''2018-08-05'', fl_chairs = 4, fl_target_collection_rate = 91 / 100\<rparr>]"

definition fin_getSeasonalFactor :: "int \<Rightarrow> random_draw \<Rightarrow> real" where
  "fin_getSeasonalFactor date u =
     (let month = getMonth date
      in if formatDate date \<in> set holidays then randomFloatBetween (4 / 10) (6 / 10) u
         else if month = 11 \<or> month = 0 \<or> month = 1 then randomFloatBetween (85 / 100) (95 / 100) u
         else if month \<ge> 2 \<and> month \<le> 4 then randomFloatBetween (105 / 100) (115 / 100) u
         else if month \<ge> 5 \<and> month \<le> 7 then randomFloatBetween (9 / 10) (11 / 10) u
         else randomFloatBetween (95 / 100) (105 / 100) u)"

definition fin_getGrowthFactor :: "int \<Rightarrow> fin_location \<Rightarrow> random_draw \<Rightarrow> real" where
  "fin_getGrowthFactor date location u =
     (let locationOpenDate = Date_parse (fl_opened_date location);
          yearsSinceOpening =
            real_of_int (getFullYear date - getFullYear locationOpenDate) +
            real_of_int (getMonth date - getMonth locationOpenDate) / 12
      in if yearsSinceOpening < 2
         then 1 + (yearsSinceOpening * (2 / 10)) * randomFloatBetween (9 / 10) (11 / 10) u
         else if yearsSinceOpening < 4
         then 1 + 4 / 10 + ((yearsSinceOpening - 2) * (12 / 100)) * randomFloatBetween (9 / 10) (11 / 10) u
         else 1 + 64 / 100 +
              ((yearsSinceOpening - 4) * (55 / 1000)) * randomFloatBetween (9 / 10) (11 / 10) u)"

subsection \<open>One month of one location\<close>

text \<open>The test \<open>x && P(x)\<close> on an index entry that may be absent.\<close>

definition present_and :: "'a option \<Rightarrow> ('a \<Rightarrow> bool) \<Rightarrow> bool" where
  "present_and x P = (case x of None \<Rightarrow> False | Some v \<Rightarrow> P v)"

text \<open>
  The draws of the call sites that the modelled fields reach; call sites on exclusive
  branches share a field.
\<close>

record fin_draws =
  f_seasonal :: random_draw
  f_growth :: random_draw
  f_baseRevenue :: random_draw
  f_laborClinical :: random_draw
  f_laborAdministrative :: random_draw
  f_collectionRate :: random_draw
  f_cancelled :: random_draw
  f_procedureValue :: random_draw
  f_completedShare :: random_draw
  f_newPatients :: random_draw
  f_chairUtilization :: random_draw
  f_plansPresented :: random_draw
  f_plansAccepted :: random_draw
  f_plansCompleted :: random_draw

text \<open>
  The fields of the monthly record that depend on the two indices, and the ratios over
  them; rates are recorded before their rendering by \<open>toFixed\<close>. (The revenue split, the
  other expense categories, the receivables, the payor mix and the comparative pass over
  the finished rows are left out.)
\<close>

record financial =
  fin_Location_ID :: string
  fin_Year :: int
  fin_Month :: int
  Total_Revenue :: int
  Labor_Clinical :: int
  Labor_Administrative :: int
  Collection_Rate :: real
  Collections_Actual :: int
  Total_Procedures :: int
  Completed_Procedures :: int
  Cancelled_Procedures :: int
  Total_Patient_Visits :: int
  New_Patients :: int
  Returning_Patients :: int
  Revenue_Per_Patient_Month :: jsnum
  fin_Chair_Utilization :: real
  Treatment_Plans_Presented :: int
  Treatment_Plans_Accepted :: int
  Treatment_Plans_Completed :: int
  Case_Acceptance_Rate :: jsnum
  Treatment_Completion_Rate :: jsnum

text \<open>The synthetic arm of the revenue, by location tier.\<close>

definition synthesizedRevenue :: "int \<Rightarrow> fin_location \<Rightarrow> fin_draws \<Rightarrow> int" where
  "synthesizedRevenue date location d =
     (let baseRevenue =
            (if fl_id location = ''LOC001'' then randomBetween 180000 220000 (f_baseRevenue d)
             else if fl_id location = ''LOC002'' then randomBetween 140000 170000 (f_baseRevenue d)
             else if fl_id location = ''LOC004'' then randomBetween 120000 150000 (f_baseRevenue d)
             else randomBetween 100000 130000 (f_baseRevenue d))
      in Math_round (real_of_int baseRevenue * fin_getSeasonalFactor date (f_seasonal d) *
                     fin_getGrowthFactor date location (f_growth d)))"

text \<open>The second and the third arm of the collection rate.\<close>

definition appointmentCollectionRate :: "appointment_month \<Rightarrow> real" where
  "appointmentCollectionRate a =
     real_of_int (totalAmountPaid a) / real_of_int (totalChargedAmount a)"

definition fin_synthesizedCollectionRate :: "fin_location \<Rightarrow> random_draw \<Rightarrow> real" where
  "fin_synthesizedCollectionRate location u =
     randomFloatBetween (max (6 / 10) (fl_target_collection_rate location - 1 / 10))
       (min (98 / 100) (fl_target_collection_rate location + 5 / 100)) u"

definition generateMonthlyFinancialData ::
  "int \<Rightarrow> fin_location \<Rightarrow> existing_data \<Rightarrow> fin_draws \<Rightarrow> financial" where
  "generateMonthlyFinancialData date location existingData d =
     (let year = getFullYear date;
          month = getMonth date + 1;
          lookupKey = monthKey (fl_id location) (Some year) (Some month);
          appointmentData = appointmentsByLocationMonth existingData lookupKey;
          operationsData = operationsByLocationMonth existingData lookupKey;
          totalRevenue =
            (if present_and appointmentData (\<lambda>a. totalChargedAmount a > 0)
             then totalChargedAmount (the appointmentData)
             else synthesizedRevenue date location d);
          laborFromOperations = present_and operationsData (\<lambda>ops. totalLaborCost ops > 0);
          laborClinical =
            (if laborFromOperations
             then Math_round (real_of_int (totalLaborCost (the operationsData)) * (75 / 100))
             else Math_round (real_of_int totalRevenue *
                              randomFloatBetween (18 / 100) (22 / 100) (f_laborClinical d)));
          laborAdministrative =
            (if laborFromOperations
             then Math_round (real_of_int (totalLaborCost (the operationsData)) * (25 / 100))
             else Math_round (real_of_int totalRevenue *
                              randomFloatBetween (6 / 100) (10 / 100) (f_laborAdministrative d)));
          collectionRate =
            (if present_and operationsData (\<lambda>ops. avgCollectionRate ops > 0)
             then avgCollectionRate (the operationsData)
             else if present_and appointmentData (\<lambda>a. totalChargedAmount a > 0)
             then appointmentCollectionRate (the appointmentData)
             else fin_synthesizedCollectionRate location (f_collectionRate d));
          collectionsActual = Math_round (real_of_int totalRevenue * collectionRate);
          (numberOfProcedures, completedProcedures, cancelledProcedures) =
            (case appointmentData of
               Some a \<Rightarrow>
                 (completedAppointments a + (canceledAppointments a + noShowAppointments a),
                  completedAppointments a,
                  canceledAppointments a + noShowAppointments a)
             | None \<Rightarrow>
                 (case operationsData of
                    Some ops \<Rightarrow>
                      (let cancelled = Math_round (real_of_int (om_totalAppointments ops) *
                                         randomFloatBetween (2 / 100) (8 / 100) (f_cancelled d))
                       in (om_totalAppointments ops + cancelled, om_totalAppointments ops, cancelled))
                  | None \<Rightarrow>
                      (let n = Math_round (real_of_int totalRevenue /
                                           real_of_int (randomBetween 200 300 (f_procedureValue d)));
                           c = Math_round (real_of_int n *
                                           randomFloatBetween (92 / 100) (98 / 100) (f_completedShare d))
                       in (n, c, n - c))));
          (patientVisits, newPatientsMonth) =
            (case operationsData of
               Some ops \<Rightarrow> (om_totalAppointments ops, totalNewPatients ops)
             | None \<Rightarrow>
                 (let visits = Math_round (real_of_int numberOfProcedures * (7 / 10))
                  in (visits,
                      Math_round (real_of_int visits *
                                  randomFloatBetween (15 / 100) (25 / 100) (f_newPatients d)))));
          chairUtilization =
            (if present_and operationsData (\<lambda>ops. avgChairUtilization ops > 0)
             then avgChairUtilization (the operationsData)
             else randomFloatBetween (7 / 10) (9 / 10) (f_chairUtilization d));
          treatmentPlansPresented =
            Math_round (real_of_int patientVisits *
                        randomFloatBetween (3 / 10) (5 / 10) (f_plansPresented d));
          treatmentPlansAccepted =
            Math_round (real_of_int treatmentPlansPresented *
                        randomFloatBetween (6 / 10) (8 / 10) (f_plansAccepted d));
          treatmentPlansCompleted =
            Math_round (real_of_int treatmentPlansAccepted *
                        randomFloatBetween (7 / 10) (9 / 10) (f_plansCompleted d))
      in \<lparr>fin_Location_ID = fl_id location,
           fin_Year = year,
           fin_Month = month,
           Total_Revenue = totalRevenue,
           Labor_Clinical = laborClinical,
           Labor_Administrative = laborAdministrative,
           Collection_Rate = collectionRate,
           Collections_Actual = collectionsActual,
           Total_Procedures = numberOfProcedures,
           Completed_Procedures = completedProcedures,
           Cancelled_Procedures = cancelledProcedures,
           Total_Patient_Visits = patientVisits,
           New_Patients = newPatientsMonth,
           Returning_Patients = patientVisits - newPatientsMonth,
           Revenue_Per_Patient_Month = js_div (real_of_int totalRevenue) (real_of_int patientVisits),
           fin_Chair_Utilization = chairUtilization,
           Treatment_Plans_Presented = treatmentPlansPresented,
           Treatment_Plans_Accepted = treatmentPlansAccepted,
           Treatment_Plans_Completed = treatmentPlansCompleted,
           Case_Acceptance_Rate =
             js_div (real_of_int treatmentPlansAccepted) (real_of_int treatmentPlansPresented),
           Treatment_Completion_Rate =
             js_div (real_of_int treatmentPlansCompleted) (real_of_int treatmentPlansAccepted)\<rparr>)"

subsection \<open>The dataset and the entry point\<close>




subsection \<open>The entry point of the Appointment Generator, and the pipeline\<close>

text \<open>
  \<open>convertToCSV(data)\<close>: the header line from the keys of the first row, then one line per
  row, with texts in double quotes and numbers and booleans bare.
\<close>

fun join :: "string \<Rightarrow> string list \<Rightarrow> string" where
  "join sep [] = []"
| "join sep [x] = x"
| "join sep (x # y # ys) = x @ sep @ join sep (y # ys)"

definition quoted :: "string \<Rightarrow> string" where
  "quoted s = [CHR 0x22] @ s @ [CHR 0x22]"

definition String_bool :: "bool \<Rightarrow> string" where
  "String_bool b = (if b then ''true'' else ''false'')"

definition csvHeaders :: "string list" where
  "csvHeaders =
     [''Visit_ID'', ''Procedure_ID'', ''Patient_ID'', ''Location_ID'', ''Provider_ID'',
      ''Date_of_Service'', ''Appointment_Time'', ''Appointment_Status'', ''Procedure_Code'',
      ''Procedure_Category'', ''Procedure_Duration'', ''Tooth_Number'', ''Charged_Amount'',
      ''Insurance_Provider'', ''Insurance_Covered_Amount'', ''Patient_Responsibility'',
      ''Discount_Applied'', ''Out_of_Pocket'', ''Amount_Paid'', ''Payment_Method'',
      ''Payment_Status'', ''Is_New_Patient'', ''Insurance_Claim_Status'',
      ''Insurance_Claim_Submission_Date'', ''Insurance_Claim_Payment_Date'',
      ''Treatment_Plan_ID'', ''Treatment_Plan_Creation_Date'', ''Treatment_Plan_Completion_Date'',
      ''Treatment_Plan_Completion_Rate'', ''Estimated_Total_Cost'', ''Year'', ''Month'']"

definition csvValues :: "appointment \<Rightarrow> string list" where
  "csvValues a =
     [quoted (Visit_ID a), quoted (Procedure_ID a), quoted (Patient_ID a), quoted (Location_ID a),
      quoted (Provider_ID a), quoted (Date_of_Service a), quoted (Appointment_Time a),
      quoted (Appointment_Status a), quoted (Procedure_Code a), quoted (Procedure_Category a),
      String_int (Procedure_Duration a), quoted (Tooth_Number a), String_int (Charged_Amount a),
      quoted (Insurance_Provider a), String_int (Insurance_Covered_Amount a),
      String_int (Patient_Responsibility a), String_int (Discount_Applied a),
      String_int (Out_of_Pocket a), String_int (Amount_Paid a), quoted (Payment_Method a),
      quoted (Payment_Status a), String_bool (Is_New_Patient a),
      quoted (Insurance_Claim_Status a), quoted (Insurance_Claim_Submission_Date a),
      quoted (Insurance_Claim_Payment_Date a), quoted (Treatment_Plan_ID a),
      quoted (Treatment_Plan_Creation_Date a), quoted (Treatment_Plan_Completion_Date a),
      String_int (Treatment_Plan_Completion_Rate a), String_int (Estimated_Total_Cost a),
      String_int (Year a), String_int (Month a)]"

definition convertToCSV :: "appointment list \<Rightarrow> string" where
  "convertToCSV data =
     join [CHR 0x0A] (join '','' csvHeaders # map (\<lambda>row. join '','' (csvValues row)) data)"

text \<open>
  The Appointment Generator writes its rows to \<open>Pat_App_Data.csv\<close>; an exception (an empty
  population, or no first row to take the headers from) ends the script before the
  write. The population is an argument of the model.
\<close>

definition appointment_main ::
  "timezone \<Rightarrow> patient list \<Rightarrow> (nat \<Rightarrow> visit_draws) \<Rightarrow> (nat \<Rightarrow> nat \<Rightarrow> procedure_draws) \<Rightarrow>
   filesystem \<Rightarrow> filesystem" where
  "appointment_main tz patients vd pd fs =
     (case generateAppointmentData tz NUM_RECORDS patients vd pd of
        Inl e \<Rightarrow> fs
      | Inr rows \<Rightarrow> (if rows = [] then fs else fs(''Pat_App_Data.csv'' \<mapsto> convertToCSV rows)))"

section \<open>Concrete populations, draws and rows\<close>

text \<open>Inputs and expected outputs of the concrete runs evaluated below.\<close>

definition zero_visit_draws :: visit_draws where
  "zero_visit_draws = \<lparr>u_patient = draw_of 0, u_date = draw_of 0, u_hour = draw_of 0,
     u_minute = draw_of 0, u_location = draw_of 0, u_provider = draw_of 0,
     u_status = draw_of 0, u_numProcedures = draw_of 0\<rparr>"

definition zero_procedure_draws :: procedure_draws where
  "zero_procedure_draws = \<lparr>u_bias = draw_of 0, u_pick = draw_of 0, u_fallback = draw_of 0,
     u_charge = draw_of 0, u_coverage = draw_of 0, u_hasDiscount = draw_of 0,
     u_discount = draw_of 0, u_isPaid = draw_of 0, u_method = draw_of 0, u_tooth = draw_of 0,
     u_newPlan = draw_of 0, u_planId = draw_of 0, u_totalProcedures = draw_of 0,
     u_claimPaid = draw_of 0, u_claimPending = draw_of 0, u_claimDays = draw_of 0\<rparr>"

text \<open>Every visit draws 0 everywhere: a Completed visit with one procedure.\<close>

definition all_zero_visits :: "nat \<Rightarrow> visit_draws" where
  "all_zero_visits i = zero_visit_draws"

definition all_zero_procedures :: "nat \<Rightarrow> nat \<Rightarrow> procedure_draws" where
  "all_zero_procedures i p = zero_procedure_draws"

text \<open>
  Every visit is a No-Show (status draw 0.87) with one procedure, and every procedure
  is the adult cleaning \<open>D1110\<close> (index draw 0.5 among the ten common procedures).
\<close>

definition noshow_visits :: "nat \<Rightarrow> visit_draws" where
  "noshow_visits i = zero_visit_draws\<lparr>u_status := draw_of (87 / 100)\<rparr>"

definition cleaning_draws :: procedure_draws where
  "cleaning_draws = zero_procedure_draws\<lparr>u_pick := draw_of (1 / 2)\<rparr>"

definition cleaning_procedures :: "nat \<Rightarrow> nat \<Rightarrow> procedure_draws" where
  "cleaning_procedures i p = cleaning_draws"

definition example_patient :: patient where
  "example_patient = \<lparr>patient_id = ''PAT0001'', age = 30, registration_date = ''2019-05-10'',
     insurance_provider = ''Delta Dental''\<rparr>"

text \<open>A population of \<open>NUM_PATIENTS\<close> patients, \<open>PAT0001\<close> to \<open>PAT0600\<close>.\<close>

definition example_population :: "patient list" where
  "example_population =
     map (\<lambda>k. example_patient\<lparr>patient_id := ''PAT'' @ padStart 4 CHR ''0'' (String_nat k)\<rparr>)
       [1..<601]"

definition example_visit :: "nat \<Rightarrow> string \<Rightarrow> visit" where
  "example_visit i status = \<lparr>v_index = i, v_patient = example_patient,
     v_visitDate = START_DATE zone_UTC,
     v_formattedVisitDate = ''2020-01-01'', v_appointmentTime = ''08:00'', v_year = 2020,
     v_month = 1, v_location = \<lparr>loc_id = ''LOC001'', loc_name = ''Downtown Dental''\<rparr>,
     v_provider = mk_provider ''DR001'' ''Dentist'' ''LOC001'',
     v_appointmentStatus = status, v_visitId = visitId i\<rparr>"

definition example_completed_row :: appointment where
  "example_completed_row =
     \<lparr>Visit_ID = ''V000001'', Procedure_ID = ''PROC000001'', Patient_ID = ''PAT0001'',
      Location_ID = ''LOC001'', Provider_ID = ''DR001'', Date_of_Service = ''2020-01-01'',
      Appointment_Time = ''08:00'', Appointment_Status = ''Completed'',
      Procedure_Code = ''D0120'', Procedure_Category = ''Diagnostic'', Procedure_Duration = 15,
      Tooth_Number = [], Charged_Amount = 54, Insurance_Provider = ''Delta Dental'',
      Insurance_Covered_Amount = 41, Patient_Responsibility = 13, Discount_Applied = 1,
      Out_of_Pocket = 12, Amount_Paid = 12, Payment_Method = ''Credit Card'',
      Payment_Status = ''Paid'', Is_New_Patient = False, Insurance_Claim_Status = ''Paid'',
      Insurance_Claim_Submission_Date = ''2020-01-01'',
      Insurance_Claim_Payment_Date = ''2020-01-16'', Treatment_Plan_ID = [],
      Treatment_Plan_Creation_Date = [], Treatment_Plan_Completion_Date = [],
      Treatment_Plan_Completion_Rate = 0, Estimated_Total_Cost = 54, Year = 2020, Month = 1\<rparr>"

definition example_noshow_row :: appointment where
  "example_noshow_row =
     \<lparr>Visit_ID = ''V000001'', Procedure_ID = ''PROC000001'', Patient_ID = ''PAT0001'',
      Location_ID = ''LOC001'', Provider_ID = ''DR001'', Date_of_Service = ''2020-01-01'',
      Appointment_Time = ''08:00'', Appointment_Status = ''No-Show'',
      Procedure_Code = [], Procedure_Category = [], Procedure_Duration = 0,
      Tooth_Number = [], Charged_Amount = 0, Insurance_Provider = ''Delta Dental'',
      Insurance_Covered_Amount = 0, Patient_Responsibility = 0, Discount_Applied = 0,
      Out_of_Pocket = 0, Amount_Paid = 0, Payment_Method = [],
      Payment_Status = [], Is_New_Patient = False, Insurance_Claim_Status = [],
      Insurance_Claim_Submission_Date = [],
      Insurance_Claim_Payment_Date = [], Treatment_Plan_ID = [],
      Treatment_Plan_Creation_Date = [], Treatment_Plan_Completion_Date = [],
      Treatment_Plan_Completion_Rate = 0, Estimated_Total_Cost = 0, Year = 2020, Month = 1\<rparr>"

text \<open>The state after a cleaning of \<open>PAT0001\<close> on 2020-01-01.\<close>

definition cleaned_state :: gen_state where
  "cleaned_state = initial_state\<lparr>patientLastCleaningDate := [''PAT0001'' \<mapsto> ''2020-01-01'']\<rparr>"

text \<open>
  A Completed visit with two procedures (draw 0.5 for their number), each the one-surface
  amalgam filling \<open>D2140\<close> (a Restorative procedure, index draw 0.27 over the whole
  catalog); the plan that the first one opens has one procedure (draw 0).
\<close>

definition two_procedure_visits :: "nat \<Rightarrow> visit_draws" where
  "two_procedure_visits i = zero_visit_draws\<lparr>u_numProcedures := draw_of (1 / 2)\<rparr>"

definition restorative_draws :: procedure_draws where
  "restorative_draws = zero_procedure_draws\<lparr>u_bias := draw_of (9 / 10), u_pick := draw_of (27 / 100)\<rparr>"

definition restorative_procedures :: "nat \<Rightarrow> nat \<Rightarrow> procedure_draws" where
  "restorative_procedures i p = restorative_draws"

definition single_procedure_plan :: treatment_plan where
  "single_procedure_plan = \<lparr>plan_id = ''TP0000'', creationDate = ''2020-01-01'',
     totalProcedures = 1, completedProcedures = 1, totalCost = 140\<rparr>"

definition plan_open_state :: gen_state where
  "plan_open_state = initial_state\<lparr>activeTreatmentPlans := [''PAT0001'' \<mapsto> single_procedure_plan]\<rparr>"

definition plan_opening_row :: appointment where
  "plan_opening_row =
     \<lparr>Visit_ID = ''V000001'', Procedure_ID = ''PROC000001'', Patient_ID = ''PAT0001'',
      Location_ID = ''LOC001'', Provider_ID = ''DR001'', Date_of_Service = ''2020-01-01'',
      Appointment_Time = ''08:00'', Appointment_Status = ''Completed'',
      Procedure_Code = ''D2140'', Procedure_Category = ''Restorative'', Procedure_Duration = 45,
      Tooth_Number = ''1'', Charged_Amount = 140, Insurance_Provider = ''Delta Dental'',
      Insurance_Covered_Amount = 107, Patient_Responsibility = 33, Discount_Applied = 3,
      Out_of_Pocket = 30, Amount_Paid = 30, Payment_Method = ''Credit Card'',
      Payment_Status = ''Paid'', Is_New_Patient = False, Insurance_Claim_Status = ''Paid'',
      Insurance_Claim_Submission_Date = ''2020-01-01'',
      Insurance_Claim_Payment_Date = ''2020-01-16'', Treatment_Plan_ID = ''TP0000'',
      Treatment_Plan_Creation_Date = ''2020-01-01'', Treatment_Plan_Completion_Date = [],
      Treatment_Plan_Completion_Rate = 100, Estimated_Total_Cost = 140, Year = 2020, Month = 1\<rparr>"

definition plan_closing_row :: appointment where
  "plan_closing_row =
     plan_opening_row\<lparr>Procedure_ID := ''PROC000002'',
       Treatment_Plan_Completion_Date := ''2020-01-01''\<rparr>"

text \<open>
  An appointment file with exactly one row: a Completed procedure of 45 minutes at
  \<open>LOC001\<close> on Tuesday 2024-03-05, charged 200 and paid 180.
\<close>

definition march_row :: appointment where
  "march_row =
     example_completed_row\<lparr>Date_of_Service := ''2024-03-05'', Procedure_Duration := 45,
       Charged_Amount := 200, Amount_Paid := 180, Year := 2024, Month := 3\<rparr>"

definition march_directory :: filesystem where
  "march_directory = [''Pat_App_Data.csv'' \<mapsto> convertToCSV [march_row]]"

definition zero_ops_draws :: ops_draws where
  "zero_ops_draws =
     \<lparr>u_chairUtilization = draw_of 0, u_claimsProcessed = draw_of 0, u_claimsPaid = draw_of 0,
      u_claimsDenied = draw_of 0, u_collectionRate = draw_of 0, u_revenuePerChair = draw_of 0,
      u_growthChair = draw_of 0, u_revenuePerPatient = draw_of 0, u_growthPatient = draw_of 0\<rparr>"

definition all_zero_ops_draws :: "int \<Rightarrow> string \<Rightarrow> ops_draws" where
  "all_zero_ops_draws date locationId = zero_ops_draws"

definition downtown :: ops_location where
  "downtown = ops_locations ! 0"

text \<open>
  Stand-ins for the arguments of the entry points in the concrete runs: the texts that
  the serialisations return and the reading of decimal numbers. The properties shown of
  these runs do not depend on them.
\<close>

definition sample_operations_files :: "operations list \<Rightarrow> ops_files" where
  "sample_operations_files rows =
     \<lparr>operationsCSV = ''Operations_ID'', staffHoursCSV = ''Operations_ID'',
      equipmentUsageCSV = ''Operations_ID''\<rparr>"


definition sample_parseFloat :: "string \<Rightarrow> real" where
  "sample_parseFloat s = real_of_int (parseIntOr0 s)"

definition zero_fin_draws :: fin_draws where
  "zero_fin_draws =
     \<lparr>f_seasonal = draw_of 0, f_growth = draw_of 0, f_baseRevenue = draw_of 0,
      f_laborClinical = draw_of 0, f_laborAdministrative = draw_of 0,
      f_collectionRate = draw_of 0, f_cancelled = draw_of 0, f_procedureValue = draw_of 0,
      f_completedShare = draw_of 0, f_newPatients = draw_of 0, f_chairUtilization = draw_of 0,
      f_plansPresented = draw_of 0, f_plansAccepted = draw_of 0, f_plansCompleted = draw_of 0\<rparr>"


text \<open>
  The row of the run of \<open>NUM_RECORDS\<close> Completed visits of \<open>PAT0001\<close>, each with one
  cleaning on 2020-01-01: only the first cleaning is emitted.
\<close>

definition example_cleaning_row :: appointment where
  "example_cleaning_row =
     example_completed_row\<lparr>Procedure_Code := ''D1110'', Procedure_Category := ''Preventive'',
       Procedure_Duration := 45, Charged_Amount := 99, Insurance_Covered_Amount := 76,
       Patient_Responsibility := 23, Discount_Applied := 2, Out_of_Pocket := 21,
       Amount_Paid := 21, Estimated_Total_Cost := 99\<rparr>"

text \<open>
  The working directory that the Financial Generator finds when the Appointment Generator
  and then the Operations Generator have run in an empty directory.
\<close>

definition financial_input_directory :: filesystem where
  "financial_input_directory =
     fst (operations_main sample_operations_files all_zero_ops_draws
       (appointment_main zone_UTC example_population all_zero_visits cleaning_procedures
          Map.empty))"

definition january_date :: int where
  "january_date = Date_of 2020 0 1"

definition january_bucket :: appointment_month where
  "january_bucket =
     \<lparr>totalAppointments = 1, completedAppointments = 1, canceledAppointments = 0,
      noShowAppointments = 0, totalChargedAmount = 99, totalInsuranceCovered = 76,
      totalAmountPaid = 21\<rparr>"

text \<open>
  A zone seven hours west of UTC without daylight saving (that of Phoenix), and a run in
  it: every visit is a Completed visit of \<open>PAT0001\<close> with one cleaning; the date draw of
  the first visit gives 2020-02-01, that of all later visits 2020-06-12.
\<close>

definition zone_Phoenix :: timezone where
  "zone_Phoenix = fixed_zone (- 25200000)"

definition west_visits :: "nat \<Rightarrow> visit_draws" where
  "west_visits i =
     zero_visit_draws\<lparr>u_date := draw_of (if i = 0 then 31 / 1917 else 163 / 1917)\<rparr>"

definition west_visit :: "nat \<Rightarrow> int \<Rightarrow> string \<Rightarrow> int \<Rightarrow> visit" where
  "west_visit i visitDate formatted month =
     \<lparr>v_index = i, v_patient = example_patient, v_visitDate = visitDate,
      v_formattedVisitDate = formatted, v_appointmentTime = ''08:00'', v_year = 2020,
      v_month = month, v_location = \<lparr>loc_id = ''LOC001'', loc_name = ''Downtown Dental''\<rparr>,
      v_provider = mk_provider ''DR001'' ''Dentist'' ''LOC001'',
      v_appointmentStatus = ''Completed'', v_visitId = visitId i\<rparr>"

definition february_visit :: visit where
  "february_visit = west_visit 0 1580540400000 ''2020-02-01'' 2"

definition june_visit :: "nat \<Rightarrow> visit" where
  "june_visit i = west_visit i 1591945200000 ''2020-06-12'' 6"

definition february_cleaning_row :: appointment where
  "february_cleaning_row =
     example_cleaning_row\<lparr>Date_of_Service := ''2020-02-01'',
       Insurance_Claim_Submission_Date := ''2020-02-01'',
       Insurance_Claim_Payment_Date := ''2020-02-16'', Month := 2\<rparr>"

definition june_cleaning_row :: appointment where
  "june_cleaning_row =
     example_cleaning_row\<lparr>Visit_ID := ''V000002'', Procedure_ID := ''PROC000011'',
       Date_of_Service := ''2020-06-12'', Insurance_Claim_Submission_Date := ''2020-06-12'',
       Insurance_Claim_Payment_Date := ''2020-06-27'', Month := 6\<rparr>"

text \<open>The state after a cleaning of \<open>PAT0001\<close> on a given date.\<close>

definition cleaned_on :: "string \<Rightarrow> gen_state" where
  "cleaned_on date = initial_state\<lparr>patientLastCleaningDate := [''PAT0001'' \<mapsto> date]\<rparr>"

section \<open>Evaluation of the primitives\<close>

lemma rv_draw_of [simp]: "rv (draw_of x) = (if 0 \<le> x \<and> x < 1 then x else 0)"
  by transfer simp

lemma rv_bounds: "0 \<le> rv u" "rv u < 1"
  by (transfer, simp)+

lemma randomBetween_0 [simp]: "randomBetween lo hi (draw_of 0) = lo"
  by (simp add: randomBetween_def Math_floor_def)

lemma randomIndex_0 [simp]: "randomIndex n (draw_of 0) = 0"
  by (simp add: randomIndex_def Math_floor_def)

lemma LocalTime_zone_UTC [simp]: "LocalTime zone_UTC t = t"
  by (simp add: LocalTime_def zone_UTC_def fixed_zone_def)

lemma UTC_zone_UTC [simp]: "UTC zone_UTC t = t"
  by (simp add: UTC_def zone_UTC_def fixed_zone_def)

lemma Date_of_eval: "Date_of 2020 0 1 = 1577836800000" "Date_of 2025 3 1 = 1743465600000"
  by code_simp+

lemma START_DATE_eval: "START_DATE zone_UTC = 1577836800000"
  by (simp add: START_DATE_def Date_of_eval)

lemma END_DATE_eval: "END_DATE zone_UTC = 1743465600000"
  by (simp add: END_DATE_def Date_of_eval)

text \<open>The index of the selected patient is in range unless the population is empty.\<close>

lemma patientIndex_lt:
  assumes "patients \<noteq> []"
  shows "patientIndex patients vd < length patients"
proof -
  define u where "u = u_patient vd"
  define x where "x = rv u powr (3 / 2) * real (length patients)"
  have "rv u powr (3 / 2) < 1 powr (3 / 2)"
    using rv_bounds [of u] by (intro powr_less_mono2) simp_all
  then have lt: "rv u powr (3 / 2) < 1" by simp
  have n: "0 < real (length patients)" using assms by simp
  from lt n have "x < real_of_int (int (length patients))"
    by (simp add: x_def)
  then have fl: "\<lfloor>x\<rfloor> < int (length patients)"
    by (rule floor_less_iff [THEN iffD2])
  have "0 \<le> rv u powr (3 / 2)" by simp
  then have "0 \<le> x" unfolding x_def by (intro mult_nonneg_nonneg) simp_all
  then have "0 \<le> \<lfloor>x\<rfloor>" by (rule zero_le_floor [THEN iffD2])
  with fl have "nat \<lfloor>x\<rfloor> < length patients" by linarith
  then show ?thesis by (simp only: patientIndex_def Math_floor_def x_def u_def)
qed

section \<open>Every emitted row comes from one procedure step\<close>

lemma procedureLoop_rows:
  assumes step: "\<And>p d st r st'. generateProcedure tz v p d st = (Some r, st') \<Longrightarrow> P r"
  shows "procedureLoop tz v pd p k st = (rs, st') \<Longrightarrow> \<forall>r\<in>set rs. P r"
proof (induction k arbitrary: p st rs st')
  case 0
  then show ?case by simp
next
  case (Suc k)
  obtain r st1 where g: "generateProcedure tz v p (pd p) st = (r, st1)"
    by (cases "generateProcedure tz v p (pd p) st")
  obtain rs2 st2 where l: "procedureLoop tz v pd (Suc p) k st1 = (rs2, st2)"
    by (cases "procedureLoop tz v pd (Suc p) k st1")
  from Suc.IH [OF l] have ih: "\<forall>r\<in>set rs2. P r" .
  from Suc.prems g l have rs: "rs = (case r of None \<Rightarrow> rs2 | Some row \<Rightarrow> row # rs2)"
    by simp
  show ?case
  proof (cases r)
    case None
    with rs ih show ?thesis by simp
  next
    case (Some row)
    with g step have "P row" by blast
    with rs ih Some show ?thesis by simp
  qed
qed

lemma generateVisit_rows:
  assumes step: "\<And>v p d st r st'. v_patient v \<in> set patients \<Longrightarrow> v_visitId v = visitId i \<Longrightarrow>
                   generateProcedure tz v p d st = (Some r, st') \<Longrightarrow> P r"
    and gen: "generateVisit tz patients i vd pd st = Inr (rs, st')"
  shows "\<forall>r\<in>set rs. P r"
proof -
  let ?v = "visitOf tz patients i vd"
  from gen have lt: "patientIndex patients vd < length patients"
    unfolding generateVisit_def by (simp split: if_splits)
  from gen lt have
    loop: "procedureLoop tz ?v pd 0 (numProceduresForVisit vd) st = (rs, st')"
    unfolding generateVisit_def by simp
  have pat: "v_patient ?v = patients ! patientIndex patients vd" and vid: "v_visitId ?v = visitId i"
    unfolding visitOf_def Let_def by simp_all
  from pat lt have "v_patient ?v \<in> set patients" by simp
  with step vid have "\<And>p d st r st'. generateProcedure tz ?v p d st = (Some r, st') \<Longrightarrow> P r"
    by blast
  from procedureLoop_rows [where P = P, OF this loop] show ?thesis .
qed

lemma visitLoop_rows:
  "(\<And>i v p d st r st'. i0 \<le> i \<Longrightarrow> i < i0 + k \<Longrightarrow> v_patient v \<in> set patients \<Longrightarrow>
       v_visitId v = visitId i \<Longrightarrow> generateProcedure tz v p d st = (Some r, st') \<Longrightarrow> P r) \<Longrightarrow>
   visitLoop tz patients vd pd i0 k st = Inr (rs, st') \<Longrightarrow> \<forall>r\<in>set rs. P r"
proof (induction k arbitrary: i0 st rs st')
  case 0
  then show ?case by simp
next
  case (Suc k)
  from Suc.prems(2) obtain rows st1 rest where
    g: "generateVisit tz patients i0 (vd i0) (pd i0) st = Inr (rows, st1)" and
    l: "visitLoop tz patients vd pd (Suc i0) k st1 = Inr (rest, st')" and
    rs: "rs = rows @ rest"
    by (auto split: sum.splits prod.splits)
  have "\<forall>r\<in>set rows. P r"
    by (rule generateVisit_rows [where P = P, OF _ g]) (rule Suc.prems(1) [of i0], simp_all)
  moreover have "\<forall>r\<in>set rest. P r"
    by (rule Suc.IH [OF _ l]) (rule Suc.prems(1), simp_all)
  ultimately show ?case using rs by auto
qed

lemma generateAppointmentData_rows:
  assumes step: "\<And>i v p d st r st'. i < n \<Longrightarrow> v_patient v \<in> set patients \<Longrightarrow>
                   v_visitId v = visitId i \<Longrightarrow> generateProcedure tz v p d st = (Some r, st') \<Longrightarrow> P r"
    and gen: "generateAppointmentData tz n patients vd pd = Inr rows"
  shows "\<forall>r\<in>set rows. P r"
proof -
  from gen obtain rs st' where
    l: "visitLoop tz patients vd pd 0 n initial_state = Inr (rs, st')" and
    rows: "rows = sort_key (sortKey tz) rs"
    unfolding generateAppointmentData_def by (auto split: sum.splits prod.splits)
  have "\<forall>r\<in>set rs. P r"
    by (rule visitLoop_rows [where P = P, OF _ l]) (rule step, simp_all)
  with rows show ?thesis by simp
qed

lemma generateProcedure_cases:
  assumes "generateProcedure tz v p d st = (Some r, st')"
  shows "(v_appointmentStatus v = ''Completed'' \<and>
          (\<exists>pid st1. completedRow tz v pid (selectProcedure v d) d st1 = (r, st'))) \<or>
         (v_appointmentStatus v \<noteq> ''Completed'' \<and> (\<exists>pid. r = basicRow v pid))"
proof (cases "v_appointmentStatus v = ''Completed''")
  case True
  with assms show ?thesis
    unfolding generateProcedure_def Let_def
    by (simp split: if_splits prod.splits) blast+
next
  case False
  with assms show ?thesis
    unfolding generateProcedure_def Let_def
    by (simp split: if_splits) blast+
qed

lemma completedRow_status:
  "completedRow tz v pid pr d st = (r, st') \<Longrightarrow> Appointment_Status r = v_appointmentStatus v"
  unfolding completedRow_def Let_def by (auto split: prod.splits)

lemma completedRow_money:
  "completedRow tz v pid pr d st = (r, st') \<Longrightarrow>
     Out_of_Pocket r = Patient_Responsibility r - Discount_Applied r \<and>
     (Amount_Paid r = 0 \<or> Amount_Paid r = Out_of_Pocket r)"
  unfolding completedRow_def Let_def by (auto split: prod.splits)

lemma basicRow_status: "Appointment_Status (basicRow v pid) = v_appointmentStatus v"
  by (simp add: basicRow_def)

section \<open>Evaluation of the concrete visits\<close>

lemma example_visit_sel [simp]:
  "v_index (example_visit i s) = i" "v_patient (example_visit i s) = example_patient"
  "v_visitDate (example_visit i s) = (START_DATE zone_UTC)"
  "v_formattedVisitDate (example_visit i s) = ''2020-01-01''"
  "v_appointmentTime (example_visit i s) = ''08:00''" "v_year (example_visit i s) = 2020"
  "v_month (example_visit i s) = 1" "loc_id (v_location (example_visit i s)) = ''LOC001''"
  "prov_id (v_provider (example_visit i s)) = ''DR001''"
  "v_appointmentStatus (example_visit i s) = s"
  "v_visitId (example_visit i s) = visitId i"
  by (simp_all add: example_visit_def mk_provider_def)

lemma example_patient_sel [simp]:
  "patient_id example_patient = ''PAT0001''" "age example_patient = 30"
  "registration_date example_patient = ''2019-05-10''"
  "insurance_provider example_patient = ''Delta Dental''"
  by (simp_all add: example_patient_def)

lemma zero_procedure_draws_sel [simp]:
  "u_bias zero_procedure_draws = draw_of 0" "u_pick zero_procedure_draws = draw_of 0"
  "u_fallback zero_procedure_draws = draw_of 0" "u_charge zero_procedure_draws = draw_of 0"
  "u_coverage zero_procedure_draws = draw_of 0" "u_hasDiscount zero_procedure_draws = draw_of 0"
  "u_discount zero_procedure_draws = draw_of 0" "u_isPaid zero_procedure_draws = draw_of 0"
  "u_method zero_procedure_draws = draw_of 0" "u_tooth zero_procedure_draws = draw_of 0"
  "u_newPlan zero_procedure_draws = draw_of 0" "u_planId zero_procedure_draws = draw_of 0"
  "u_totalProcedures zero_procedure_draws = draw_of 0" "u_claimPaid zero_procedure_draws = draw_of 0"
  "u_claimPending zero_procedure_draws = draw_of 0" "u_claimDays zero_procedure_draws = draw_of 0"
  by (simp_all add: zero_procedure_draws_def)

lemma example_population_length: "length example_population = 600"
  by (simp add: example_population_def)

lemma example_population_0: "example_population ! 0 = example_patient"
proof -
  have "''PAT'' @ padStart 4 CHR ''0'' (String_nat 1) = ''PAT0001''"
    by code_simp
  then show ?thesis
    by (simp add: example_population_def example_patient_def)
qed

lemma ev_date: "randomDate (START_DATE zone_UTC) (END_DATE zone_UTC) (draw_of 0) = (START_DATE zone_UTC)"
  by (simp add: randomDate_def Date_of_number_def START_DATE_eval)

lemma ev_reg: "Date_parse ''2019-05-10'' > (START_DATE zone_UTC) \<longleftrightarrow> False"
  by code_simp

lemma ev_fmt:
  "formatDate (START_DATE zone_UTC) = ''2020-01-01''" "getFullYear (START_DATE zone_UTC) = 2020"
  "getMonth (START_DATE zone_UTC) + 1 = 1"
  by code_simp+

lemma ev_time: "randomAppointmentTime (draw_of 0) (draw_of 0) = ''08:00''"
  apply (simp add: randomAppointmentTime_def)
  apply code_simp
  done

lemma ev_prov:
  "filter (\<lambda>p. primary_location p = ''LOC001'') providers \<noteq> []"
  "filter (\<lambda>p. primary_location p = ''LOC001'') providers ! 0 = mk_provider ''DR001'' ''Dentist'' ''LOC001''"
  by code_simp+

lemma ev_status:
  "appointmentStatuses ! statusIndex (draw_of 0) = ''Completed''"
  "appointmentStatuses ! statusIndex (draw_of (87 / 100)) = ''No-Show''"
  by (simp_all add: statusIndex_def statusProbabilities_def appointmentStatuses_def)

text \<open>
  A visit whose draws are 0 except for the status and the number of procedures: patient
  \<open>PAT0001\<close>, on 2020-01-01 at 08:00, at \<open>LOC001\<close> with \<open>DR001\<close>.
\<close>

lemma ev_visit:
  assumes "patients \<noteq> []" and "patients ! 0 = example_patient"
  shows "generateVisit zone_UTC patients i
           (zero_visit_draws\<lparr>u_status := us, u_numProcedures := un\<rparr>) pd st =
         Inr (procedureLoop zone_UTC (example_visit i (appointmentStatuses ! statusIndex us)) pd 0
                (nat (randomBetween 1 3 un)) st)"
  using assms
  apply (simp add: generateVisit_def visitOf_def patientIndex_def numProceduresForVisit_def
      Let_def zero_visit_draws_def Math_floor_def)
  apply (simp add: ev_reg ev_date ev_fmt ev_time ev_prov example_visit_def locations_def)
  done

lemma ev_pid: "''PROC'' @ padStart 6 CHR ''0'' (String_nat (0 * 10 + 0 + 1)) = ''PROC000001''"
  by code_simp

lemma ev_vid: "visitId 0 = ''V000001''" "visitId 1 = ''V000002''"
  by code_simp+

lemma ev_vid_Suc: "visitId (Suc 0) = ''V000002''"
  using ev_vid(2) by simp

lemma ev_isnew: "isNewPatient (example_visit i s) = False"
  unfolding isNewPatient_def
  apply simp
  apply code_simp
  done

subsection \<open>The Completed visit with all draws 0\<close>

lemma ev_proc:
  "selectProcedure (example_visit i s) zero_procedure_draws =
     mk_procedure ''D0120'' ''Diagnostic'' 60 15"
  by (simp add: selectProcedure_def selectProcedureIndex_def procedures_def)

lemma ev_claimdate: "formatDate ((START_DATE zone_UTC) + 15 * msPerDay) = ''2020-01-16''"
  by code_simp

lemma ev_tp:
  "treatmentPlanStep ''PAT0001'' ''2020-01-01'' ''Diagnostic'' 54 zero_procedure_draws Map.empty =
     (\<lparr>treatmentPlanId = [], treatmentPlanCreationDate = [], treatmentPlanCompletionDate = [],
       treatmentPlanCompletionRate = 0, estimatedTotalCost = 54\<rparr>, Map.empty)"
  by (simp add: treatmentPlanStep_def)

lemma ev_charged: "Math_round (60 * (9 / 10)) = 54"
  by (simp add: Math_round_def)

lemma ev_rate:
  "(case find (\<lambda>p. ins_name p = ''Delta Dental'') insuranceProviders of
      Some p \<Rightarrow> avg_reimbursement_rate p | None \<Rightarrow> 75 / 100) = 85 / 100"
  by (simp add: insuranceProviders_def)

lemma ev_covered: "Math_round (54 * max (5 / 10) (min (95 / 100) (85 / 100 * (9 / 10)))) = 41"
  by (simp add: Math_round_def)

lemma ev_discount: "Math_round (13 / 10) = 1"
  by (simp add: Math_round_def)

lemma ev_completedRow:
  "completedRow zone_UTC (example_visit 0 ''Completed'') ''PROC000001''
     (mk_procedure ''D0120'' ''Diagnostic'' 60 15) zero_procedure_draws initial_state =
   (example_completed_row, initial_state)"
  unfolding completedRow_def Let_def
  by (simp add: mk_procedure_def initial_state_def ev_tp ev_charged[simplified] ev_rate
      ev_covered[simplified] ev_isnew ev_discount[simplified] ev_claimdate paymentMethods_def
      example_completed_row_def ev_vid)

lemma ev_genproc:
  "generateProcedure zone_UTC (example_visit 0 ''Completed'') 0 zero_procedure_draws initial_state =
     (Some example_completed_row, initial_state)"
  unfolding generateProcedure_def Let_def
  by (simp add: ev_proc ev_pid[simplified] ev_completedRow[unfolded mk_procedure_def] mk_procedure_def)

lemma ev_run:
  "generateAppointmentData zone_UTC 1 [example_patient] all_zero_visits all_zero_procedures =
     Inr [example_completed_row]"
proof -
  have "generateVisit zone_UTC [example_patient] 0 zero_visit_draws (all_zero_procedures 0) initial_state =
          Inr ([example_completed_row], initial_state)"
    using ev_visit [of "[example_patient]" 0 "draw_of 0" "draw_of 0" "all_zero_procedures 0" initial_state]
    by (simp add: zero_visit_draws_def ev_status ev_genproc all_zero_procedures_def)
  then show ?thesis
    by (simp add: generateAppointmentData_def all_zero_visits_def)
qed

subsection \<open>The run of \<open>NUM_RECORDS\<close> No-Show visits of one patient, each with one cleaning\<close>

text \<open>
  The first visit emits its cleaning (the patient's first); every later visit is dated the
  same day, so its cleaning is not due and the visit contributes no row.
\<close>

lemma cleaning_draws_sel [simp]:
  "u_bias cleaning_draws = draw_of 0" "u_pick cleaning_draws = draw_of (1 / 2)"
  "u_fallback cleaning_draws = draw_of 0"
  by (simp_all add: cleaning_draws_def zero_procedure_draws_def)

lemma ev_cleaning:
  "selectProcedure (example_visit i s) cleaning_draws = mk_procedure ''D1110'' ''Preventive'' 110 45"
  by (simp add: selectProcedure_def selectProcedureIndex_def procedures_def randomIndex_def
      Math_floor_def)

lemma ev_months:
  "getFullYear (Date_parse ''2020-01-01'') = 2020" "getMonth (Date_parse ''2020-01-01'') = 0"
  by code_simp+

lemma ev_not_due:
  assumes "patientLastCleaningDate st ''PAT0001'' = Some ''2020-01-01''"
  shows "generateProcedure zone_UTC (example_visit i s) p cleaning_draws st = (None, st)"
  using assms unfolding generateProcedure_def Let_def
  by (simp add: ev_cleaning mk_procedure_def isDueForRecall_def ev_months)

lemma ev_first_cleaning:
  "generateProcedure zone_UTC (example_visit 0 ''No-Show'') 0 cleaning_draws initial_state =
     (Some example_noshow_row, cleaned_state)"
  unfolding generateProcedure_def Let_def
  by (simp add: ev_cleaning mk_procedure_def isDueForRecall_def initial_state_def
      cleaned_state_def basicRow_def ev_pid[simplified] ev_vid ev_isnew example_noshow_row_def)

lemma example_population_nonempty: "example_population \<noteq> []"
  using example_population_length by auto

lemmas ev_visit_population = ev_visit [OF example_population_nonempty example_population_0]

lemma noshow_visit_first:
  "generateVisit zone_UTC example_population 0 (noshow_visits 0) (cleaning_procedures 0) initial_state =
     Inr ([example_noshow_row], cleaned_state)"
  using ev_visit_population [where i = 0 and us = "draw_of (87 / 100)" and un = "draw_of 0"
      and pd = "cleaning_procedures 0" and st = initial_state]
  by (simp add: noshow_visits_def ev_status ev_first_cleaning cleaning_procedures_def
      zero_visit_draws_def)

lemma noshow_visit_later:
  assumes "patientLastCleaningDate st ''PAT0001'' = Some ''2020-01-01''"
  shows "generateVisit zone_UTC example_population i (noshow_visits i) (cleaning_procedures i) st = Inr ([], st)"
  using ev_visit_population [where i = i and us = "draw_of (87 / 100)" and un = "draw_of 0"
      and pd = "cleaning_procedures i" and st = st]
  by (simp add: noshow_visits_def ev_status ev_not_due [OF assms] cleaning_procedures_def
      zero_visit_draws_def)

lemma noshow_loop_later:
  assumes "patientLastCleaningDate st ''PAT0001'' = Some ''2020-01-01''"
  shows "visitLoop zone_UTC example_population noshow_visits cleaning_procedures i k st = Inr ([], st)"
  using assms by (induction k arbitrary: i) (simp_all add: noshow_visit_later)

lemma noshow_run:
  "generateAppointmentData zone_UTC NUM_RECORDS example_population noshow_visits cleaning_procedures =
     Inr [example_noshow_row]"
proof -
  have c: "patientLastCleaningDate cleaned_state ''PAT0001'' = Some ''2020-01-01''"
    by (simp add: cleaned_state_def)
  obtain k where k: "NUM_RECORDS = Suc k"
    by (cases NUM_RECORDS) (simp_all add: NUM_RECORDS_def)
  have "visitLoop zone_UTC example_population noshow_visits cleaning_procedures 0 (Suc k) initial_state =
          Inr ([example_noshow_row], cleaned_state)"
    by (simp add: noshow_visit_first noshow_loop_later [OF c])
  with k show ?thesis
    by (simp add: generateAppointmentData_def)
qed

subsection \<open>The run of \<open>NUM_RECORDS\<close> Completed visits of one patient, each with one cleaning\<close>

lemma cleaning_draws_all_sel [simp]:
  "u_charge cleaning_draws = draw_of 0"
  "u_coverage cleaning_draws = draw_of 0" "u_hasDiscount cleaning_draws = draw_of 0"
  "u_discount cleaning_draws = draw_of 0" "u_isPaid cleaning_draws = draw_of 0"
  "u_method cleaning_draws = draw_of 0" "u_tooth cleaning_draws = draw_of 0"
  "u_newPlan cleaning_draws = draw_of 0" "u_planId cleaning_draws = draw_of 0"
  "u_totalProcedures cleaning_draws = draw_of 0" "u_claimPaid cleaning_draws = draw_of 0"
  "u_claimPending cleaning_draws = draw_of 0" "u_claimDays cleaning_draws = draw_of 0"
  by (simp_all add: cleaning_draws_def zero_procedure_draws_def)

lemma ev_tp_cleaning:
  "treatmentPlanStep ''PAT0001'' ''2020-01-01'' ''Preventive'' 99 cleaning_draws Map.empty =
     (\<lparr>treatmentPlanId = [], treatmentPlanCreationDate = [], treatmentPlanCompletionDate = [],
       treatmentPlanCompletionRate = 0, estimatedTotalCost = 99\<rparr>, Map.empty)"
  by (simp add: treatmentPlanStep_def)

lemma ev_charged_c: "Math_round (110 * (9 / 10)) = 99"
  by (simp add: Math_round_def)

lemma ev_covered_c: "Math_round (99 * max (5 / 10) (min (95 / 100) (85 / 100 * (9 / 10)))) = 76"
  by (simp add: Math_round_def)

lemma ev_discount_c: "Math_round (23 / 10) = 2"
  by (simp add: Math_round_def)

lemma ev_cleaning_row:
  "completedRow zone_UTC (example_visit 0 ''Completed'') ''PROC000001''
     (mk_procedure ''D1110'' ''Preventive'' 110 45) cleaning_draws cleaned_state =
   (example_cleaning_row, cleaned_state)"
  unfolding completedRow_def Let_def
  by (simp add: mk_procedure_def initial_state_def cleaned_state_def ev_tp_cleaning
      ev_charged_c[simplified] ev_rate ev_covered_c[simplified] ev_isnew ev_discount_c[simplified]
      ev_claimdate paymentMethods_def example_cleaning_row_def example_completed_row_def ev_vid)

lemma ev_completed_cleaning:
  "generateProcedure zone_UTC (example_visit 0 ''Completed'') 0 cleaning_draws initial_state =
     (Some example_cleaning_row, cleaned_state)"
  unfolding generateProcedure_def Let_def
  by (simp add: ev_cleaning mk_procedure_def isDueForRecall_def initial_state_def
      cleaned_state_def ev_pid[simplified]
      ev_cleaning_row[unfolded mk_procedure_def cleaned_state_def initial_state_def, simplified])

lemma completed_visit_first:
  "generateVisit zone_UTC example_population 0 (all_zero_visits 0) (cleaning_procedures 0) initial_state =
     Inr ([example_cleaning_row], cleaned_state)"
  using ev_visit_population [where i = 0 and us = "draw_of 0" and un = "draw_of 0"
      and pd = "cleaning_procedures 0" and st = initial_state]
  by (simp add: all_zero_visits_def ev_status ev_completed_cleaning cleaning_procedures_def
      zero_visit_draws_def)

lemma completed_visit_later:
  assumes "patientLastCleaningDate st ''PAT0001'' = Some ''2020-01-01''"
  shows "generateVisit zone_UTC example_population i (all_zero_visits i) (cleaning_procedures i) st = Inr ([], st)"
  using ev_visit_population [where i = i and us = "draw_of 0" and un = "draw_of 0"
      and pd = "cleaning_procedures i" and st = st]
  by (simp add: all_zero_visits_def ev_status ev_not_due [OF assms] cleaning_procedures_def
      zero_visit_draws_def)

lemma completed_loop_later:
  assumes "patientLastCleaningDate st ''PAT0001'' = Some ''2020-01-01''"
  shows "visitLoop zone_UTC example_population all_zero_visits cleaning_procedures i k st = Inr ([], st)"
  using assms by (induction k arbitrary: i) (simp_all add: completed_visit_later)

lemma completed_run:
  "generateAppointmentData zone_UTC NUM_RECORDS example_population all_zero_visits cleaning_procedures =
     Inr [example_cleaning_row]"
proof -
  have c: "patientLastCleaningDate cleaned_state ''PAT0001'' = Some ''2020-01-01''"
    by (simp add: cleaned_state_def)
  obtain k where k: "NUM_RECORDS = Suc k"
    by (cases NUM_RECORDS) (simp_all add: NUM_RECORDS_def)
  have "visitLoop zone_UTC example_population all_zero_visits cleaning_procedures 0 (Suc k) initial_state =
          Inr ([example_cleaning_row], cleaned_state)"
    by (simp add: completed_visit_first completed_loop_later [OF c])
  with k show ?thesis
    by (simp add: generateAppointmentData_def)
qed

subsection \<open>The same visits seven hours west of UTC, and in UTC\<close>

text \<open>
  In the zone \<open>zone_Phoenix\<close> the visits of the run \<open>west_visits\<close> are at local midnight,
  that is at 07:00 UTC of the same day. The texts \<open>2020-02-01\<close> and \<open>2020-06-12\<close> are read
  back as midnight UTC, which is 17:00 of the day before in local time: the recall test
  counts the first in January and the second in June.
\<close>

lemma LocalTime_Phoenix [simp]: "LocalTime zone_Phoenix t = t - 25200000"
  by (simp add: LocalTime_def zone_Phoenix_def fixed_zone_def)

lemma UTC_Phoenix [simp]: "UTC zone_Phoenix t = t + 25200000"
  by (simp add: UTC_def zone_Phoenix_def fixed_zone_def)

lemma Phoenix_dates:
  "START_DATE zone_Phoenix = 1577862000000" "END_DATE zone_Phoenix = 1743490800000"
  by (simp_all add: START_DATE_def END_DATE_def Date_of_eval)

lemma west_dates:
  "randomDate 1577862000000 1743490800000 (draw_of (31 / 1917)) = 1580540400000"
  "randomDate 1577862000000 1743490800000 (draw_of (163 / 1917)) = 1591945200000"
  by (simp_all add: randomDate_def Date_of_number_def)

lemma west_reg: "Date_parse ''2019-05-10'' > 1577862000000 \<longleftrightarrow> False"
  by code_simp

lemma west_fmt:
  "formatDate 1580540400000 = ''2020-02-01''"
  "getFullYear 1580515200000 = 2020" "getMonth 1580515200000 = 1"
  "formatDate 1591945200000 = ''2020-06-12''"
  "getFullYear 1591920000000 = 2020" "getMonth 1591920000000 = 5"
  by code_simp+

lemma west_visit_sel [simp]:
  "v_index (west_visit i t f m) = i" "v_patient (west_visit i t f m) = example_patient"
  "v_visitDate (west_visit i t f m) = t" "v_formattedVisitDate (west_visit i t f m) = f"
  "v_appointmentTime (west_visit i t f m) = ''08:00''" "v_year (west_visit i t f m) = 2020"
  "v_month (west_visit i t f m) = m" "loc_id (v_location (west_visit i t f m)) = ''LOC001''"
  "prov_id (v_provider (west_visit i t f m)) = ''DR001''"
  "v_appointmentStatus (west_visit i t f m) = ''Completed''"
  "v_visitId (west_visit i t f m) = visitId i"
  by (simp_all add: west_visit_def mk_provider_def)

lemma west_visitOf:
  "visitOf zone_Phoenix example_population i (west_visits i) =
     (if i = 0 then february_visit else june_visit i)"
  using example_population_nonempty example_population_0
  apply (simp add: visitOf_def patientIndex_def Let_def west_visits_def zero_visit_draws_def
      Math_floor_def Phoenix_dates)
  apply (simp add: west_reg west_dates west_fmt ev_time ev_prov ev_status west_visit_def
      february_visit_def june_visit_def locations_def)
  done

lemma west_generateVisit:
  "generateVisit zone_Phoenix example_population i (west_visits i) pd st =
     Inr (procedureLoop zone_Phoenix (if i = 0 then february_visit else june_visit i) pd 0 1 st)"
proof -
  have n: "numProceduresForVisit (west_visits i) = 1"
    by (simp add: numProceduresForVisit_def west_visits_def zero_visit_draws_def)
  from patientIndex_lt [OF example_population_nonempty, of "west_visits i"] show ?thesis
    unfolding generateVisit_def west_visitOf n by simp
qed

lemma west_cleaning:
  "selectProcedure (west_visit i t f m) cleaning_draws =
     mk_procedure ''D1110'' ''Preventive'' 110 45"
  by (simp add: selectProcedure_def selectProcedureIndex_def procedures_def randomIndex_def
      Math_floor_def)

lemma west_isnew: "isNewPatient (west_visit i t ''2020-02-01'' m) = False"
  "isNewPatient (west_visit i t ''2020-06-12'' m) = False"
  unfolding isNewPatient_def
  by (simp, code_simp)+

lemma west_claimdates:
  "formatDate (1580540400000 - 25200000 + 15 * msPerDay + 25200000) = ''2020-02-16''"
  "formatDate (1591945200000 - 25200000 + 15 * msPerDay + 25200000) = ''2020-06-27''"
  by code_simp+

lemma west_tp:
  "treatmentPlanStep ''PAT0001'' date ''Preventive'' 99 cleaning_draws Map.empty =
     (\<lparr>treatmentPlanId = [], treatmentPlanCreationDate = [], treatmentPlanCompletionDate = [],
       treatmentPlanCompletionRate = 0, estimatedTotalCost = 99\<rparr>, Map.empty)"
  by (simp add: treatmentPlanStep_def)

lemma west_pids:
  "''PROC'' @ padStart 6 CHR ''0'' (String_nat (0 * 10 + 0 + 1)) = ''PROC000001''"
  "''PROC'' @ padStart 6 CHR ''0'' (String_nat (1 * 10 + 0 + 1)) = ''PROC000011''"
  by code_simp+

lemma west_february_row:
  "completedRow zone_Phoenix february_visit ''PROC000001''
     (mk_procedure ''D1110'' ''Preventive'' 110 45) cleaning_draws (cleaned_on ''2020-02-01'') =
   (february_cleaning_row, cleaned_on ''2020-02-01'')"
  unfolding completedRow_def Let_def february_visit_def
  by (simp add: mk_procedure_def initial_state_def cleaned_on_def west_tp
      ev_charged_c[simplified] ev_rate ev_covered_c[simplified] west_isnew
      ev_discount_c[simplified] west_claimdates[simplified] paymentMethods_def
      february_cleaning_row_def example_cleaning_row_def example_completed_row_def ev_vid)

lemma west_june_row:
  "completedRow zone_Phoenix (june_visit 1) ''PROC000011''
     (mk_procedure ''D1110'' ''Preventive'' 110 45) cleaning_draws (cleaned_on ''2020-06-12'') =
   (june_cleaning_row, cleaned_on ''2020-06-12'')"
  unfolding completedRow_def Let_def june_visit_def
  by (simp add: mk_procedure_def initial_state_def cleaned_on_def west_tp
      ev_charged_c[simplified] ev_rate ev_covered_c[simplified] west_isnew
      ev_discount_c[simplified] west_claimdates[simplified] paymentMethods_def
      june_cleaning_row_def example_cleaning_row_def example_completed_row_def ev_vid_Suc)

lemma west_months:
  "getFullYear (Date_parse ''2020-02-01'' - 25200000) = 2020"
  "getMonth (Date_parse ''2020-02-01'' - 25200000) = 0"
  "getFullYear (Date_parse ''2020-06-12'' - 25200000) = 2020"
  "getMonth (Date_parse ''2020-06-12'' - 25200000) = 5"
  by code_simp+


lemma cleaned_on_sel [simp]:
  "patientLastCleaningDate (cleaned_on date) = [''PAT0001'' \<mapsto> date]"
  "activeTreatmentPlans (cleaned_on date) = Map.empty"
  by (simp_all add: cleaned_on_def initial_state_def)

lemma west_first:
  "generateProcedure zone_Phoenix february_visit 0 cleaning_draws initial_state =
     (Some february_cleaning_row, cleaned_on ''2020-02-01'')"
  unfolding generateProcedure_def Let_def
  by (simp add: february_visit_def west_cleaning mk_procedure_def isDueForRecall_def
      initial_state_def cleaned_on_def west_pids[simplified]
      west_february_row[unfolded mk_procedure_def cleaned_on_def initial_state_def
        february_visit_def, simplified])

lemma west_second:
  "generateProcedure zone_Phoenix (june_visit 1) 0 cleaning_draws (cleaned_on ''2020-02-01'') =
     (Some june_cleaning_row, cleaned_on ''2020-06-12'')"
  unfolding generateProcedure_def Let_def
  by (simp add: june_visit_def west_cleaning mk_procedure_def isDueForRecall_def west_months
      initial_state_def cleaned_on_def west_pids[simplified]
      west_june_row[unfolded mk_procedure_def cleaned_on_def initial_state_def
        june_visit_def, simplified])

lemma west_later:
  "generateProcedure zone_Phoenix (june_visit i) p cleaning_draws (cleaned_on ''2020-06-12'') =
     (None, cleaned_on ''2020-06-12'')"
  unfolding generateProcedure_def Let_def
  by (simp add: june_visit_def west_cleaning mk_procedure_def isDueForRecall_def west_months)

lemma west_loop_later:
  "0 < i \<Longrightarrow>
   visitLoop zone_Phoenix example_population west_visits cleaning_procedures i k
     (cleaned_on ''2020-06-12'') = Inr ([], cleaned_on ''2020-06-12'')"
  by (induction k arbitrary: i)
     (simp_all add: west_generateVisit cleaning_procedures_def west_later)

lemma west_sort:
  "sort_key (sortKey zone_Phoenix) [february_cleaning_row, june_cleaning_row] =
     [february_cleaning_row, june_cleaning_row]"
proof -
  have "sortKey zone_Phoenix february_cleaning_row \<le> sortKey zone_Phoenix june_cleaning_row"
    unfolding sortKey_def
    apply (simp add: february_cleaning_row_def june_cleaning_row_def)
    apply code_simp
    done
  then show ?thesis by simp
qed

lemma west_run:
  "generateAppointmentData zone_Phoenix NUM_RECORDS example_population west_visits
     cleaning_procedures = Inr [february_cleaning_row, june_cleaning_row]"
proof -
  obtain k where k: "NUM_RECORDS = Suc (Suc k)"
    by (cases NUM_RECORDS; simp add: NUM_RECORDS_def)
  have "visitLoop zone_Phoenix example_population west_visits cleaning_procedures 0
          (Suc (Suc k)) initial_state =
        Inr ([february_cleaning_row, june_cleaning_row], cleaned_on ''2020-06-12'')"
    by (simp add: west_generateVisit cleaning_procedures_def west_first
        west_second[simplified] west_loop_later)
  with k show ?thesis
    by (simp add: generateAppointmentData_def west_sort del: sort_key_simps)
qed


lemma utc_dates:
  "randomDate 1577836800000 1743465600000 (draw_of (31 / 1917)) = 1580515200000"
  "randomDate 1577836800000 1743465600000 (draw_of (163 / 1917)) = 1591920000000"
  by (simp_all add: randomDate_def Date_of_number_def)

lemma utc_reg: "Date_parse ''2019-05-10'' > 1577836800000 \<longleftrightarrow> False"
  by code_simp

lemma utc_fmt:
  "formatDate 1580515200000 = ''2020-02-01''" "formatDate 1591920000000 = ''2020-06-12''"
  by code_simp+

lemma utc_visitOf:
  "visitOf zone_UTC example_population i (west_visits i) =
     (if i = 0 then west_visit 0 1580515200000 ''2020-02-01'' 2
      else west_visit i 1591920000000 ''2020-06-12'' 6)"
  using example_population_nonempty example_population_0
  apply (simp add: visitOf_def patientIndex_def Let_def west_visits_def zero_visit_draws_def
      Math_floor_def START_DATE_eval END_DATE_eval)
  apply (simp add: utc_reg utc_dates utc_fmt west_fmt ev_time ev_prov ev_status west_visit_def
      locations_def)
  done

lemma utc_generateVisit:
  "generateVisit zone_UTC example_population i (west_visits i) pd st =
     Inr (procedureLoop zone_UTC
            (if i = 0 then west_visit 0 1580515200000 ''2020-02-01'' 2
             else west_visit i 1591920000000 ''2020-06-12'' 6) pd 0 1 st)"
proof -
  have n: "numProceduresForVisit (west_visits i) = 1"
    by (simp add: numProceduresForVisit_def west_visits_def zero_visit_draws_def)
  from patientIndex_lt [OF example_population_nonempty, of "west_visits i"] show ?thesis
    unfolding generateVisit_def utc_visitOf n by simp
qed

lemma utc_claimdate: "formatDate (1580515200000 + 15 * msPerDay) = ''2020-02-16''"
  by code_simp

lemma utc_february_row:
  "completedRow zone_UTC (west_visit 0 1580515200000 ''2020-02-01'' 2) ''PROC000001''
     (mk_procedure ''D1110'' ''Preventive'' 110 45) cleaning_draws (cleaned_on ''2020-02-01'') =
   (february_cleaning_row, cleaned_on ''2020-02-01'')"
  unfolding completedRow_def Let_def
  by (simp add: mk_procedure_def initial_state_def cleaned_on_def west_tp
      ev_charged_c[simplified] ev_rate ev_covered_c[simplified] west_isnew
      ev_discount_c[simplified] utc_claimdate paymentMethods_def
      february_cleaning_row_def example_cleaning_row_def example_completed_row_def ev_vid)

lemma utc_first:
  "generateProcedure zone_UTC (west_visit 0 1580515200000 ''2020-02-01'' 2) 0 cleaning_draws
     initial_state = (Some february_cleaning_row, cleaned_on ''2020-02-01'')"
  unfolding generateProcedure_def Let_def
  by (simp add: west_cleaning mk_procedure_def isDueForRecall_def
      initial_state_def cleaned_on_def west_pids[simplified]
      utc_february_row[unfolded mk_procedure_def cleaned_on_def initial_state_def, simplified])

lemma utc_months:
  "getFullYear (Date_parse ''2020-02-01'') = 2020" "getMonth (Date_parse ''2020-02-01'') = 1"
  "getFullYear (Date_parse ''2020-06-12'') = 2020" "getMonth (Date_parse ''2020-06-12'') = 5"
  by code_simp+

lemma utc_later:
  "generateProcedure zone_UTC (west_visit i 1591920000000 ''2020-06-12'' 6) p cleaning_draws
     (cleaned_on ''2020-02-01'') = (None, cleaned_on ''2020-02-01'')"
  unfolding generateProcedure_def Let_def
  by (simp add: west_cleaning mk_procedure_def isDueForRecall_def utc_months)

lemma utc_loop_later:
  "0 < i \<Longrightarrow>
   visitLoop zone_UTC example_population west_visits cleaning_procedures i k
     (cleaned_on ''2020-02-01'') = Inr ([], cleaned_on ''2020-02-01'')"
  by (induction k arbitrary: i)
     (simp_all add: utc_generateVisit cleaning_procedures_def utc_later)

lemma utc_run:
  "generateAppointmentData zone_UTC NUM_RECORDS example_population west_visits
     cleaning_procedures = Inr [february_cleaning_row]"
proof -
  obtain k where k: "NUM_RECORDS = Suc k"
    by (cases NUM_RECORDS) (simp_all add: NUM_RECORDS_def)
  have "visitLoop zone_UTC example_population west_visits cleaning_procedures 0
          (Suc k) initial_state = Inr ([february_cleaning_row], cleaned_on ''2020-02-01'')"
    by (simp add: utc_generateVisit cleaning_procedures_def utc_first utc_loop_later)
  with k show ?thesis
    by (simp add: generateAppointmentData_def)
qed

subsection \<open>The Completed visit with two fillings, the first opening a one-procedure plan\<close>

lemma restorative_draws_sel [simp]:
  "u_bias restorative_draws = draw_of (9 / 10)" "u_pick restorative_draws = draw_of (27 / 100)"
  "u_fallback restorative_draws = draw_of 0" "u_charge restorative_draws = draw_of 0"
  "u_coverage restorative_draws = draw_of 0" "u_hasDiscount restorative_draws = draw_of 0"
  "u_discount restorative_draws = draw_of 0" "u_isPaid restorative_draws = draw_of 0"
  "u_method restorative_draws = draw_of 0" "u_tooth restorative_draws = draw_of 0"
  "u_newPlan restorative_draws = draw_of 0" "u_planId restorative_draws = draw_of 0"
  "u_totalProcedures restorative_draws = draw_of 0" "u_claimPaid restorative_draws = draw_of 0"
  "u_claimPending restorative_draws = draw_of 0" "u_claimDays restorative_draws = draw_of 0"
  by (simp_all add: restorative_draws_def zero_procedure_draws_def)

lemma ev_restorative:
  "selectProcedure (example_visit i s) restorative_draws =
     mk_procedure ''D2140'' ''Restorative'' 155 45"
  by (simp add: selectProcedure_def selectProcedureIndex_def procedures_def randomIndex_def
      Math_floor_def)

lemma ev_plan_id: "''TP'' @ padStart 4 CHR ''0'' (String_int 0) = ''TP0000''"
  by code_simp

lemma ev_plan_open:
  "treatmentPlanStep ''PAT0001'' ''2020-01-01'' ''Restorative'' 140 restorative_draws Map.empty =
     (\<lparr>treatmentPlanId = ''TP0000'', treatmentPlanCreationDate = ''2020-01-01'',
       treatmentPlanCompletionDate = [], treatmentPlanCompletionRate = 100,
       estimatedTotalCost = 140\<rparr>,
      [''PAT0001'' \<mapsto> single_procedure_plan])"
  by (simp add: treatmentPlanStep_def Let_def Math_floor_def Math_round_def ev_plan_id[simplified]
      single_procedure_plan_def)

lemma ev_plan_close:
  "treatmentPlanStep ''PAT0001'' ''2020-01-01'' ''Restorative'' 140 restorative_draws
     [''PAT0001'' \<mapsto> single_procedure_plan] =
     (\<lparr>treatmentPlanId = ''TP0000'', treatmentPlanCreationDate = ''2020-01-01'',
       treatmentPlanCompletionDate = ''2020-01-01'', treatmentPlanCompletionRate = 100,
       estimatedTotalCost = 140\<rparr>,
      Map.empty)"
  by (simp add: treatmentPlanStep_def Let_def Math_round_def single_procedure_plan_def)

lemma ev_charged_r: "Math_round (155 * (9 / 10)) = 140"
  by (simp add: Math_round_def)

lemma ev_covered_r: "Math_round (140 * max (5 / 10) (min (95 / 100) (85 / 100 * (9 / 10)))) = 107"
  by (simp add: Math_round_def)

lemma ev_discount_r: "Math_round (33 / 10) = 3"
  by (simp add: Math_round_def)

lemma ev_tooth: "teeth ! 0 = ''1''"
  by code_simp

lemma ev_pid2: "''PROC'' @ padStart 6 CHR ''0'' (String_nat (0 * 10 + 1 + 1)) = ''PROC000002''"
  by code_simp

lemma ev_opening_row:
  "completedRow zone_UTC (example_visit 0 ''Completed'') ''PROC000001''
     (mk_procedure ''D2140'' ''Restorative'' 155 45) restorative_draws initial_state =
   (plan_opening_row, plan_open_state)"
  unfolding completedRow_def Let_def
  by (simp add: mk_procedure_def initial_state_def ev_plan_open ev_charged_r[simplified] ev_rate
      ev_covered_r[simplified] ev_isnew ev_discount_r[simplified] ev_claimdate paymentMethods_def
      plan_opening_row_def plan_open_state_def ev_vid ev_tooth)

lemma ev_closing_row:
  "completedRow zone_UTC (example_visit 0 ''Completed'') ''PROC000002''
     (mk_procedure ''D2140'' ''Restorative'' 155 45) restorative_draws plan_open_state =
   (plan_closing_row, initial_state)"
  unfolding completedRow_def Let_def
  by (simp add: mk_procedure_def initial_state_def ev_plan_close ev_charged_r[simplified] ev_rate
      ev_covered_r[simplified] ev_isnew ev_discount_r[simplified] ev_claimdate paymentMethods_def
      plan_opening_row_def plan_closing_row_def plan_open_state_def ev_vid ev_tooth)

lemma ev_genproc_open:
  "generateProcedure zone_UTC (example_visit 0 ''Completed'') 0 restorative_draws initial_state =
     (Some plan_opening_row, plan_open_state)"
  unfolding generateProcedure_def Let_def
  by (simp add: ev_restorative ev_pid[simplified] ev_opening_row[unfolded mk_procedure_def]
      mk_procedure_def)

lemma ev_genproc_close:
  "generateProcedure zone_UTC (example_visit 0 ''Completed'') (Suc 0) restorative_draws plan_open_state =
     (Some plan_closing_row, initial_state)"
  unfolding generateProcedure_def Let_def
  by (simp add: ev_restorative ev_pid2[simplified] ev_closing_row[unfolded mk_procedure_def]
      mk_procedure_def)

lemma ev_two: "nat (randomBetween 1 3 (draw_of (1 / 2))) = Suc (Suc 0)"
  by (simp add: randomBetween_def Math_floor_def)

lemma ev_sort_plan_rows: "sortKey zone_UTC plan_closing_row = sortKey zone_UTC plan_opening_row"
  by (simp add: sortKey_def plan_closing_row_def)

section \<open>Visit identifiers, and the size of the output\<close>

text \<open>
  The decimal rendering of a number is read back by \<open>digits_val\<close>, so two visits never
  share an identifier; every visit returns at most three rows, all with its identifier.
\<close>

lemma digit_val_digit_char: "d < 10 \<Longrightarrow> digit_val (digit_char d) = Some d"
proof -
  have all: "\<forall>d\<in>set [0..<10]. digit_val (digit_char d) = Some d"
    by code_simp
  assume "d < 10"
  then have "d \<in> set [0..<10]" by simp
  with all show ?thesis by blast
qed

lemma digits_val_snoc:
  "\<forall>c\<in>set s. digit_val c \<noteq> None \<Longrightarrow> digit_val c = Some d \<Longrightarrow>
     digits_val acc (s @ [c]) = digits_val acc s * 10 + d"
  by (induction s arbitrary: acc) auto

lemma String_nat_digits: "\<forall>c\<in>set (String_nat n). digit_val c \<noteq> None"
proof (induction n rule: String_nat.induct)
  case (1 n)
  show ?case
  proof (cases "n < 10")
    case True
    then show ?thesis by (simp add: String_nat.simps [of n] digit_val_digit_char)
  next
    case False
    with 1 show ?thesis
      by (simp add: String_nat.simps [of n] digit_val_digit_char)
  qed
qed

lemma digits_val_String_nat: "digits_val 0 (String_nat n) = n"
proof (induction n rule: String_nat.induct)
  case (1 n)
  show ?case
  proof (cases "n < 10")
    case True
    then show ?thesis by (simp add: String_nat.simps [of n] digit_val_digit_char)
  next
    case False
    have "digit_val (digit_char (n mod 10)) = Some (n mod 10)"
      by (simp add: digit_val_digit_char)
    from digits_val_snoc [OF String_nat_digits this, of 0 "n div 10"] 1 False
    show ?thesis
      by (simp add: String_nat.simps [of n])
  qed
qed

lemma digits_val_zeros: "digits_val 0 (replicate k CHR ''0'' @ s) = digits_val 0 s"
  by (induction k) (simp_all add: digit_val_def)

lemma visitId_inj: "visitId i = visitId j \<Longrightarrow> i = j"
proof -
  assume "visitId i = visitId j"
  then have "digits_val 0 (padStart 6 CHR ''0'' (String_nat (i + 1))) =
             digits_val 0 (padStart 6 CHR ''0'' (String_nat (j + 1)))"
    by (simp add: visitId_def)
  then show "i = j"
    by (simp add: padStart_def digits_val_zeros digits_val_String_nat)
qed

lemma procedureLoop_length: "procedureLoop tz v pd p k st = (rs, st') \<Longrightarrow> length rs \<le> k"
proof (induction k arbitrary: p st rs st')
  case 0
  then show ?case by simp
next
  case (Suc k)
  obtain r st1 where g: "generateProcedure tz v p (pd p) st = (r, st1)"
    by (cases "generateProcedure tz v p (pd p) st")
  obtain rs2 st2 where l: "procedureLoop tz v pd (Suc p) k st1 = (rs2, st2)"
    by (cases "procedureLoop tz v pd (Suc p) k st1")
  from Suc.IH [OF l] have "length rs2 \<le> k" .
  with Suc.prems g l show ?case
    by (auto split: option.splits)
qed

lemma numProcedures_le: "numProceduresForVisit vd \<le> 3"
proof -
  define u where "u = u_numProcedures vd"
  have eq: "randomBetween 1 3 u = \<lfloor>rv u * 3\<rfloor> + 1"
    by (simp add: randomBetween_def Math_floor_def)
  have "rv u * 3 < real_of_int 3" using rv_bounds(2) [of u] by simp
  then have "\<lfloor>rv u * 3\<rfloor> < 3" by (rule floor_less_iff [THEN iffD2])
  with eq show ?thesis unfolding numProceduresForVisit_def u_def [symmetric] by linarith
qed

lemma completedRow_visit_id:
  "completedRow tz v pid pr d st = (r, st') \<Longrightarrow> Visit_ID r = v_visitId v"
  unfolding completedRow_def Let_def by (auto split: prod.splits)

lemma generateProcedure_visit_id:
  assumes "generateProcedure tz v p d st = (Some r, st')"
  shows "Visit_ID r = v_visitId v"
  using generateProcedure_cases [OF assms]
  by (auto simp: basicRow_def dest: completedRow_visit_id)

lemma generateVisit_ok:
  assumes "patients \<noteq> []"
  shows "\<exists>rs st'. generateVisit tz patients i vd pd st = Inr (rs, st') \<and> length rs \<le> 3 \<and>
           (\<forall>r\<in>set rs. Visit_ID r = visitId i)"
proof -
  let ?v = "visitOf tz patients i vd"
  have lt: "patientIndex patients vd < length patients" by (rule patientIndex_lt [OF assms])
  then have
    gen: "generateVisit tz patients i vd pd st =
            Inr (procedureLoop tz ?v pd 0 (numProceduresForVisit vd) st)"
    unfolding generateVisit_def by simp
  have vid: "v_visitId ?v = visitId i"
    unfolding visitOf_def Let_def by simp
  obtain rs st' where
    loop: "procedureLoop tz ?v pd 0 (numProceduresForVisit vd) st = (rs, st')"
    by (cases "procedureLoop tz ?v pd 0 (numProceduresForVisit vd) st")
  from procedureLoop_length [OF loop] numProcedures_le [of vd]
  have len: "length rs \<le> 3" by simp
  have "\<forall>r\<in>set rs. Visit_ID r = v_visitId ?v"
    by (rule procedureLoop_rows [where P = "\<lambda>r. Visit_ID r = v_visitId ?v", OF _ loop])
       (rule generateProcedure_visit_id)
  with gen loop len vid show ?thesis by simp
qed

lemma rowsOfVisit_append:
  "rowsOfVisit vid (xs @ ys) = rowsOfVisit vid xs @ rowsOfVisit vid ys"
  by (simp add: rowsOfVisit_def)

lemma rowsOfVisit_none: "\<forall>r\<in>set rs. Visit_ID r \<noteq> vid \<Longrightarrow> rowsOfVisit vid rs = []"
  by (simp add: rowsOfVisit_def)

lemma rowsOfVisit_length: "length (rowsOfVisit vid rs) \<le> length rs"
  by (simp add: rowsOfVisit_def)

lemma visitLoop_ok:
  assumes "patients \<noteq> []"
  shows "\<exists>rs st'. visitLoop tz patients vd pd i0 k st = Inr (rs, st') \<and> length rs \<le> k * 3 \<and>
           (\<forall>r\<in>set rs. \<exists>i. i0 \<le> i \<and> i < i0 + k \<and> Visit_ID r = visitId i) \<and>
           (\<forall>i. length (rowsOfVisit (visitId i) rs) \<le> 3)"
proof (induction k arbitrary: i0 st)
  case 0
  show ?case by (simp add: rowsOfVisit_def)
next
  case (Suc k)
  from generateVisit_ok [OF assms, of tz i0 "vd i0" "pd i0" st] obtain rows st1 where
    g: "generateVisit tz patients i0 (vd i0) (pd i0) st = Inr (rows, st1)" and
    glen: "length rows \<le> 3" and gid: "\<forall>r\<in>set rows. Visit_ID r = visitId i0"
    by blast
  from Suc.IH [of "Suc i0" st1] obtain rest st2 where
    l: "visitLoop tz patients vd pd (Suc i0) k st1 = Inr (rest, st2)" and
    llen: "length rest \<le> k * 3" and
    lid: "\<forall>r\<in>set rest. \<exists>i. Suc i0 \<le> i \<and> i < Suc i0 + k \<and> Visit_ID r = visitId i" and
    lcount: "\<forall>i. length (rowsOfVisit (visitId i) rest) \<le> 3"
    by blast
  have loop: "visitLoop tz patients vd pd i0 (Suc k) st = Inr (rows @ rest, st2)"
    using g l by simp
  have len: "length (rows @ rest) \<le> Suc k * 3" using glen llen by simp
  have ids: "\<forall>r\<in>set (rows @ rest). \<exists>i. i0 \<le> i \<and> i < i0 + Suc k \<and> Visit_ID r = visitId i"
  proof
    fix r assume "r \<in> set (rows @ rest)"
    then consider "r \<in> set rows" | "r \<in> set rest" by auto
    then show "\<exists>i. i0 \<le> i \<and> i < i0 + Suc k \<and> Visit_ID r = visitId i"
    proof cases
      case 1
      with gid show ?thesis by (intro exI [of _ i0]) simp
    next
      case 2
      with lid obtain i where "Suc i0 \<le> i" "i < Suc i0 + k" "Visit_ID r = visitId i" by blast
      then show ?thesis by (intro exI [of _ i]) simp
    qed
  qed
  have count: "\<forall>i. length (rowsOfVisit (visitId i) (rows @ rest)) \<le> 3"
  proof
    fix i
    show "length (rowsOfVisit (visitId i) (rows @ rest)) \<le> 3"
    proof (cases "i = i0")
      case True
      have "\<forall>r\<in>set rest. Visit_ID r \<noteq> visitId i0"
      proof
        fix r assume "r \<in> set rest"
        with lid obtain j where j: "Suc i0 \<le> j" "Visit_ID r = visitId j" by blast
        then have "j \<noteq> i0" by simp
        with j visitId_inj [of j i0] show "Visit_ID r \<noteq> visitId i0" by auto
      qed
      from rowsOfVisit_none [OF this] True rowsOfVisit_length [of "visitId i0" rows] glen
      show ?thesis by (simp add: rowsOfVisit_append)
    next
      case False
      with gid visitId_inj [of i0 i] have "\<forall>r\<in>set rows. Visit_ID r \<noteq> visitId i" by auto
      from rowsOfVisit_none [OF this] lcount show ?thesis by (simp add: rowsOfVisit_append)
    qed
  qed
  from loop len ids count show ?case by blast
qed

subsection \<open>The rows of one visit\<close>

text \<open>
  A procedure step returns no row exactly when it selects a cleaning that is not due. So
  the rows of a visit are as many as its selected procedures that are not skipped, and
  in the output they are the rows that carry its identifier.
\<close>

lemma generateProcedure_None:
  "fst (generateProcedure tz v p d st) = None \<longleftrightarrow>
     (code (selectProcedure v d) = ''D1110'' \<or> code (selectProcedure v d) = ''D1120'') \<and>
     \<not> isDueForRecall tz (patientLastCleaningDate st) (patient_id (v_patient v))
         (code (selectProcedure v d)) (v_formattedVisitDate v)"
  unfolding generateProcedure_def Let_def by (simp split: prod.splits)

lemma procedureLoop_snd_Suc:
  "snd (procedureLoop tz v pd p (Suc q) st) =
     snd (procedureLoop tz v pd (Suc p) q (snd (generateProcedure tz v p (pd p) st)))"
  by (simp add: Let_def split: prod.splits)

lemma procedureLoop_count:
  "length (fst (procedureLoop tz v pd p k st)) =
     length (filter (\<lambda>q. fst (generateProcedure tz v (p + q) (pd (p + q))
                                (snd (procedureLoop tz v pd p q st))) \<noteq> None) [0..<k])"
proof (induction k arbitrary: p st)
  case 0
  show ?case by simp
next
  case (Suc k)
  obtain r st1 where g: "generateProcedure tz v p (pd p) st = (r, st1)"
    by (cases "generateProcedure tz v p (pd p) st")
  have up: "[0..<Suc k] = 0 # map Suc [0..<k]"
    by (simp add: upt_conv_Cons map_Suc_upt del: upt_Suc)
  have s: "\<And>q. snd (procedureLoop tz v pd p (Suc q) st) = snd (procedureLoop tz v pd (Suc p) q st1)"
    using g by (simp add: Let_def split: prod.splits)
  have tail: "length (fst (procedureLoop tz v pd (Suc p) k st1)) =
     length (filter (\<lambda>q. fst (generateProcedure tz v (p + Suc q) (pd (p + Suc q))
                                (snd (procedureLoop tz v pd p (Suc q) st))) \<noteq> None) [0..<k])"
    using Suc.IH [of "Suc p" st1] by (simp add: s del: procedureLoop.simps)
  have "length (fst (procedureLoop tz v pd p (Suc k) st)) =
          (if r = None then 0 else 1) + length (fst (procedureLoop tz v pd (Suc p) k st1))"
    using g by (simp add: Let_def split: prod.splits option.splits)
  also have "\<dots> = length (filter (\<lambda>q. fst (generateProcedure tz v (p + q) (pd (p + q))
                                (snd (procedureLoop tz v pd p q st))) \<noteq> None) [0..<Suc k])"
    unfolding up tail using g by (simp add: filter_map comp_def del: upt_Suc procedureLoop.simps(2))
  finally show ?case .
qed

lemma procedureLoop_not_skipped:
  "length (fst (procedureLoop tz v pd 0 k st)) =
     length (filter (\<lambda>p. \<not> skipped tz v pd st p) [0..<k])"
  unfolding procedureLoop_count [of tz v pd 0 k st]
  by (simp add: skipped_def stateBeforeProcedure_def generateProcedure_None Let_def)

lemma visitLoop_split:
  "visitLoop tz patients vd pd i0 (j + m) st =
     (case visitLoop tz patients vd pd i0 j st of
        Inl e \<Rightarrow> Inl e
      | Inr (r1, s1) \<Rightarrow>
          (case visitLoop tz patients vd pd (i0 + j) m s1 of
             Inl e \<Rightarrow> Inl e
           | Inr (r2, s2) \<Rightarrow> Inr (r1 @ r2, s2)))"
proof (induction j arbitrary: i0 st)
  case 0
  show ?case by (simp split: sum.splits prod.splits)
next
  case (Suc j)
  show ?case
    using Suc.IH [of "Suc i0"]
    by (simp split: sum.splits prod.splits)
qed

lemma numProcedures_ge: "1 \<le> numProceduresForVisit vd"
proof -
  define u where "u = u_numProcedures vd"
  have eq: "randomBetween 1 3 u = \<lfloor>rv u * 3\<rfloor> + 1"
    by (simp add: randomBetween_def Math_floor_def)
  have "0 \<le> rv u * 3" using rv_bounds(1) [of u] by simp
  then have "0 \<le> \<lfloor>rv u * 3\<rfloor>" by (rule zero_le_floor [THEN iffD2])
  with eq show ?thesis unfolding numProceduresForVisit_def u_def [symmetric] by linarith
qed

lemma visit_rows:
  assumes ne: "patients \<noteq> []" and i: "i < n"
    and l: "visitLoop tz patients vd pd 0 n initial_state = Inr (rs, st')"
  shows "length (rowsOfVisit (visitId i) rs) =
           length (filter (\<lambda>p. \<not> skipped tz (visitOf tz patients i (vd i)) (pd i)
                                   (stateBeforeVisit tz patients vd pd i) p)
                     [0..<numProceduresForVisit (vd i)])"
proof -
  from less_imp_Suc_add [OF i] obtain m where n: "n = i + Suc m"
    by auto
  from visitLoop_ok [OF ne, of tz vd pd 0 i initial_state] obtain r1 s1 where
    l1: "visitLoop tz patients vd pd 0 i initial_state = Inr (r1, s1)" and
    "length r1 \<le> i * 3" and
    id1: "\<forall>r\<in>set r1. \<exists>j. 0 \<le> j \<and> j < 0 + i \<and> Visit_ID r = visitId j" and
    "\<forall>j. length (rowsOfVisit (visitId j) r1) \<le> 3"
    by blast
  from generateVisit_ok [OF ne, of tz i "vd i" "pd i" s1] obtain r2 s2 where
    g: "generateVisit tz patients i (vd i) (pd i) s1 = Inr (r2, s2)" and
    "length r2 \<le> 3" and
    id2: "\<forall>r\<in>set r2. Visit_ID r = visitId i"
    by blast
  from visitLoop_ok [OF ne, of tz vd pd "Suc i" m s2] obtain r3 s3 where
    l3: "visitLoop tz patients vd pd (Suc i) m s2 = Inr (r3, s3)" and
    "length r3 \<le> m * 3" and
    id3: "\<forall>r\<in>set r3. \<exists>j. Suc i \<le> j \<and> j < Suc i + m \<and> Visit_ID r = visitId j" and
    "\<forall>j. length (rowsOfVisit (visitId j) r3) \<le> 3"
    by blast
  have one: "visitLoop tz patients vd pd i (Suc m) s1 = Inr (r2 @ r3, s3)"
    using g l3 by simp
  have "visitLoop tz patients vd pd 0 (i + Suc m) initial_state = Inr (r1 @ r2 @ r3, s3)"
    unfolding visitLoop_split [of tz patients vd pd 0 i "Suc m" initial_state]
    using l1 one by (simp del: visitLoop.simps)
  with l n have rs: "rs = r1 @ r2 @ r3"
    by simp
  have e1: "rowsOfVisit (visitId i) r1 = []"
  proof (rule rowsOfVisit_none, rule ballI)
    fix r assume "r \<in> set r1"
    with id1 obtain j where j: "j < i" "Visit_ID r = visitId j" by auto
    with visitId_inj [of j i] show "Visit_ID r \<noteq> visitId i" by auto
  qed
  have e3: "rowsOfVisit (visitId i) r3 = []"
  proof (rule rowsOfVisit_none, rule ballI)
    fix r assume "r \<in> set r3"
    with id3 obtain j where j: "Suc i \<le> j" "Visit_ID r = visitId j" by auto
    with visitId_inj [of j i] show "Visit_ID r \<noteq> visitId i" by auto
  qed
  have e2: "rowsOfVisit (visitId i) r2 = r2"
    using id2 by (simp add: rowsOfVisit_def)
  have st: "stateBeforeVisit tz patients vd pd i = s1"
    by (simp add: stateBeforeVisit_def l1)
  have lt: "patientIndex patients (vd i) < length patients" by (rule patientIndex_lt [OF ne])
  with g have "r2 = fst (procedureLoop tz (visitOf tz patients i (vd i)) (pd i) 0
                          (numProceduresForVisit (vd i)) s1)"
    by (simp add: generateVisit_def)
  then have "length r2 =
      length (filter (\<lambda>p. \<not> skipped tz (visitOf tz patients i (vd i)) (pd i) s1 p)
                     [0..<numProceduresForVisit (vd i)])"
    by (simp add: procedureLoop_not_skipped)
  with rs e1 e2 e3 st show ?thesis
    by (simp add: rowsOfVisit_append)
qed

lemma noshow_numProcedures: "numProceduresForVisit (noshow_visits i) = 1"
  by (simp add: numProceduresForVisit_def noshow_visits_def zero_visit_draws_def)

lemma zero_numProcedures: "numProceduresForVisit (all_zero_visits i) = 1"
  by (simp add: numProceduresForVisit_def all_zero_visits_def zero_visit_draws_def)

lemma zero_visit_procedure:
  "code (selectProcedure (visitOf tz example_population i (all_zero_visits i))
           (all_zero_procedures i p)) = ''D0120''"
proof -
  have "v_patient (visitOf tz example_population i (all_zero_visits i)) = example_patient"
    by (simp add: visitOf_def Let_def patientIndex_def all_zero_visits_def zero_visit_draws_def
        Math_floor_def example_population_0)
  then show ?thesis
    by (simp add: selectProcedure_def selectProcedureIndex_def procedures_def
        all_zero_procedures_def mk_procedure_def)
qed

section \<open>Claims about the Appointment Generator\<close>

text \<open>
  Claim C3. In every run of the Appointment Generator that returns its rows, every row
  with \<open>Appointment_Status = 'Completed'\<close> has \<open>Out_of_Pocket\<close> equal to
  \<open>Patient_Responsibility\<close> minus \<open>Discount_Applied\<close>, and \<open>Amount_Paid\<close> equal to 0 or
  to \<open>Out_of_Pocket\<close>.
\<close>

theorem completed_row_out_of_pocket:
  assumes "generateAppointmentData tz n patients vd pd = Inr rows"
    and "r \<in> set rows"
    and "Appointment_Status r = ''Completed''"
  shows "Out_of_Pocket r = Patient_Responsibility r - Discount_Applied r \<and>
         (Amount_Paid r = 0 \<or> Amount_Paid r = Out_of_Pocket r)"
proof -
  let ?P = "\<lambda>r. Appointment_Status r = ''Completed'' \<longrightarrow>
     Out_of_Pocket r = Patient_Responsibility r - Discount_Applied r \<and>
     (Amount_Paid r = 0 \<or> Amount_Paid r = Out_of_Pocket r)"
  have "\<forall>r\<in>set rows. ?P r"
  proof (rule generateAppointmentData_rows [where P = ?P, OF _ assms(1)])
    fix i v p d st r st'
    assume "generateProcedure tz v p d st = (Some r, st')"
    from generateProcedure_cases [OF this] show "?P r"
      by (auto simp: basicRow_status dest: completedRow_money)
  qed
  with assms show ?thesis by blast
qed

theorem completed_row_out_of_pocket_witness:
  "generateAppointmentData zone_UTC 1 [example_patient] all_zero_visits all_zero_procedures =
     Inr [example_completed_row] \<and>
   example_completed_row \<in> set [example_completed_row] \<and>
   Appointment_Status example_completed_row = ''Completed'' \<and>
   Out_of_Pocket example_completed_row =
     Patient_Responsibility example_completed_row - Discount_Applied example_completed_row \<and>
   (Amount_Paid example_completed_row = 0 \<or>
    Amount_Paid example_completed_row = Out_of_Pocket example_completed_row)"
  using completed_row_out_of_pocket [OF ev_run, of example_completed_row] ev_run
  by (simp add: example_completed_row_def)

lemma basicRow_patient:
  "Patient_ID (basicRow v pid) = patient_id (v_patient v)"
  "Insurance_Provider (basicRow v pid) = insurance_provider (v_patient v)"
  by (simp_all add: basicRow_def)

text \<open>
  Claim C4. In every run of the Appointment Generator that returns its rows, every row
  whose status is not \<open>Completed\<close> has the amounts, the duration, the completion rate
  and the estimated cost equal to 0, and the payment, claim and treatment-plan texts empty.
\<close>

theorem non_completed_row_defaults:
  assumes "generateAppointmentData tz n patients vd pd = Inr rows"
    and "r \<in> set rows"
    and "Appointment_Status r \<noteq> ''Completed''"
  shows "Charged_Amount r = 0 \<and> Insurance_Covered_Amount r = 0 \<and>
         Patient_Responsibility r = 0 \<and> Discount_Applied r = 0 \<and> Out_of_Pocket r = 0 \<and>
         Amount_Paid r = 0 \<and> Procedure_Duration r = 0 \<and>
         Treatment_Plan_Completion_Rate r = 0 \<and> Estimated_Total_Cost r = 0 \<and>
         Payment_Method r = [] \<and> Payment_Status r = [] \<and>
         Insurance_Claim_Status r = [] \<and> Insurance_Claim_Submission_Date r = [] \<and>
         Insurance_Claim_Payment_Date r = [] \<and> Treatment_Plan_ID r = [] \<and>
         Treatment_Plan_Creation_Date r = [] \<and> Treatment_Plan_Completion_Date r = []"
proof -
  let ?P = "\<lambda>r. Appointment_Status r \<noteq> ''Completed'' \<longrightarrow> (\<exists>v pid. r = basicRow v pid)"
  have "\<forall>r\<in>set rows. ?P r"
  proof (rule generateAppointmentData_rows [where P = ?P, OF _ assms(1)])
    fix i v p d st r st'
    assume "generateProcedure tz v p d st = (Some r, st')"
    from generateProcedure_cases [OF this] show "?P r"
      by (auto dest: completedRow_status)
  qed
  with assms obtain v pid where "r = basicRow v pid" by blast
  then show ?thesis by (simp add: basicRow_def)
qed

theorem non_completed_row_defaults_witness:
  "generateAppointmentData zone_UTC NUM_RECORDS example_population noshow_visits cleaning_procedures =
     Inr [example_noshow_row] \<and>
   example_noshow_row \<in> set [example_noshow_row] \<and>
   Appointment_Status example_noshow_row \<noteq> ''Completed'' \<and>
   Charged_Amount example_noshow_row = 0 \<and> Insurance_Covered_Amount example_noshow_row = 0 \<and>
   Patient_Responsibility example_noshow_row = 0 \<and> Discount_Applied example_noshow_row = 0 \<and>
   Out_of_Pocket example_noshow_row = 0 \<and> Amount_Paid example_noshow_row = 0 \<and>
   Procedure_Duration example_noshow_row = 0 \<and>
   Treatment_Plan_Completion_Rate example_noshow_row = 0 \<and>
   Estimated_Total_Cost example_noshow_row = 0 \<and>
   Payment_Method example_noshow_row = [] \<and> Payment_Status example_noshow_row = [] \<and>
   Insurance_Claim_Status example_noshow_row = [] \<and>
   Insurance_Claim_Submission_Date example_noshow_row = [] \<and>
   Insurance_Claim_Payment_Date example_noshow_row = [] \<and>
   Treatment_Plan_ID example_noshow_row = [] \<and>
   Treatment_Plan_Creation_Date example_noshow_row = [] \<and>
   Treatment_Plan_Completion_Date example_noshow_row = []"
proof -
  have st: "Appointment_Status example_noshow_row \<noteq> ''Completed''"
    by (simp add: example_noshow_row_def)
  from non_completed_row_defaults [OF noshow_run _ st] noshow_run st
  show ?thesis by simp
qed

text \<open>
  Claim C10. Every row whose status is not \<open>Completed\<close> carries in \<open>Insurance_Provider\<close>
  the insurance provider recorded for the patient of the row (a carrier name, or
  \<open>No Insurance\<close>), as the patient record has it; the field is not reset to an empty text.
\<close>

theorem non_completed_row_insurance_provider:
  assumes "generateAppointmentData tz n patients vd pd = Inr rows"
    and "r \<in> set rows"
    and "Appointment_Status r \<noteq> ''Completed''"
  shows "\<exists>pt\<in>set patients. Patient_ID r = patient_id pt \<and>
           Insurance_Provider r = insurance_provider pt"
proof -
  let ?P = "\<lambda>r. Appointment_Status r \<noteq> ''Completed'' \<longrightarrow>
              (\<exists>pt\<in>set patients. Patient_ID r = patient_id pt \<and>
                 Insurance_Provider r = insurance_provider pt)"
  have "\<forall>r\<in>set rows. ?P r"
  proof (rule generateAppointmentData_rows [where P = ?P, OF _ assms(1)])
    fix i v p d st r st'
    assume pat: "v_patient v \<in> set patients"
      and "generateProcedure tz v p d st = (Some r, st')"
    from generateProcedure_cases [OF this(2)] pat show "?P r"
      by (auto simp: basicRow_patient dest: completedRow_status)
  qed
  with assms show ?thesis by blast
qed

theorem non_completed_row_insurance_provider_witness:
  "generateAppointmentData zone_UTC NUM_RECORDS example_population noshow_visits cleaning_procedures =
     Inr [example_noshow_row] \<and>
   example_noshow_row \<in> set [example_noshow_row] \<and>
   Appointment_Status example_noshow_row \<noteq> ''Completed'' \<and>
   (\<exists>pt\<in>set example_population. Patient_ID example_noshow_row = patient_id pt \<and>
      Insurance_Provider example_noshow_row = insurance_provider pt)"
proof -
  have st: "Appointment_Status example_noshow_row \<noteq> ''Completed''"
    by (simp add: example_noshow_row_def)
  from non_completed_row_insurance_provider [OF noshow_run _ st]
    noshow_run st
  show ?thesis by simp
qed

text \<open>
  Claim C8, as the code has it. With a population of \<open>NUM_PATIENTS\<close> patients the
  generator returns its rows, in every time zone; there are at most \<open>NUM_RECORDS * 3\<close> of
  them, and every row carries the identifier of one of the \<open>NUM_RECORDS\<close> visits. For
  every visit between 1 and 3 procedures are selected, and the output holds exactly one
  row of the visit for each selected procedure that the recall test does not skip; a
  procedure is skipped when it is a cleaning (\<open>D1110\<close> or \<open>D1120\<close>) and the patient is not
  due in the state reached at that step. So every selected procedure that is not a
  cleaning gives the visit a row, and a visit has no row at all only if every selected
  procedure is a cleaning that is not due: the counterexample below is a run in which
  visit \<open>V000002\<close> contributes nothing.
\<close>

theorem appointment_generator_output:
  assumes "length patients = NUM_PATIENTS"
  shows "\<exists>rows. generateAppointmentData tz NUM_RECORDS patients vd pd = Inr rows \<and>
           length rows \<le> NUM_RECORDS * 3 \<and>
           (\<forall>r\<in>set rows. \<exists>i<NUM_RECORDS. Visit_ID r = visitId i) \<and>
           (\<forall>i<NUM_RECORDS.
              1 \<le> numProceduresForVisit (vd i) \<and> numProceduresForVisit (vd i) \<le> 3 \<and>
              length (rowsOfVisit (visitId i) rows) =
                length (filter (\<lambda>p. \<not> skipped tz (visitOf tz patients i (vd i)) (pd i)
                                        (stateBeforeVisit tz patients vd pd i) p)
                          [0..<numProceduresForVisit (vd i)]) \<and>
              (\<forall>p<numProceduresForVisit (vd i).
                 code (selectProcedure (visitOf tz patients i (vd i)) (pd i p)) \<noteq> ''D1110'' \<and>
                 code (selectProcedure (visitOf tz patients i (vd i)) (pd i p)) \<noteq> ''D1120'' \<longrightarrow>
                 rowsOfVisit (visitId i) rows \<noteq> []))"
proof -
  from assms have ne: "patients \<noteq> []" by (auto simp: NUM_PATIENTS_def)
  from visitLoop_ok [OF ne, of tz vd pd 0 NUM_RECORDS initial_state] obtain rs st' where
    l: "visitLoop tz patients vd pd 0 NUM_RECORDS initial_state = Inr (rs, st')" and
    len: "length rs \<le> NUM_RECORDS * 3" and
    ids: "\<forall>r\<in>set rs. \<exists>i. 0 \<le> i \<and> i < 0 + NUM_RECORDS \<and> Visit_ID r = visitId i" and
    "\<forall>i. length (rowsOfVisit (visitId i) rs) \<le> 3"
    by blast
  let ?rows = "sort_key (sortKey tz) rs"
  have gen: "generateAppointmentData tz NUM_RECORDS patients vd pd = Inr ?rows"
    using l by (simp add: generateAppointmentData_def)
  have c: "\<And>vid. length (rowsOfVisit vid ?rows) = length (rowsOfVisit vid rs)"
    by (simp add: rowsOfVisit_def filter_sort)
  have count: "\<forall>i<NUM_RECORDS.
              1 \<le> numProceduresForVisit (vd i) \<and> numProceduresForVisit (vd i) \<le> 3 \<and>
              length (rowsOfVisit (visitId i) ?rows) =
                length (filter (\<lambda>p. \<not> skipped tz (visitOf tz patients i (vd i)) (pd i)
                                        (stateBeforeVisit tz patients vd pd i) p)
                          [0..<numProceduresForVisit (vd i)]) \<and>
              (\<forall>p<numProceduresForVisit (vd i).
                 code (selectProcedure (visitOf tz patients i (vd i)) (pd i p)) \<noteq> ''D1110'' \<and>
                 code (selectProcedure (visitOf tz patients i (vd i)) (pd i p)) \<noteq> ''D1120'' \<longrightarrow>
                 rowsOfVisit (visitId i) ?rows \<noteq> [])"
  proof (intro allI impI conjI)
    fix i assume i: "i < NUM_RECORDS"
    let ?v = "visitOf tz patients i (vd i)"
    let ?st = "stateBeforeVisit tz patients vd pd i"
    show "1 \<le> numProceduresForVisit (vd i)" by (rule numProcedures_ge)
    show "numProceduresForVisit (vd i) \<le> 3" by (rule numProcedures_le)
    show eq: "length (rowsOfVisit (visitId i) ?rows) =
                length (filter (\<lambda>p. \<not> skipped tz ?v (pd i) ?st p)
                          [0..<numProceduresForVisit (vd i)])"
      unfolding c by (rule visit_rows [OF ne i l])
    fix p
    assume p: "p < numProceduresForVisit (vd i)"
      and nc: "code (selectProcedure ?v (pd i p)) \<noteq> ''D1110'' \<and>
               code (selectProcedure ?v (pd i p)) \<noteq> ''D1120''"
    from nc have "\<not> skipped tz ?v (pd i) ?st p"
      by (simp add: skipped_def Let_def)
    with p have "p \<in> set (filter (\<lambda>p. \<not> skipped tz ?v (pd i) ?st p)
                             [0..<numProceduresForVisit (vd i)])"
      by simp
    then have "filter (\<lambda>p. \<not> skipped tz ?v (pd i) ?st p) [0..<numProceduresForVisit (vd i)] \<noteq> []"
      by (metis empty_iff empty_set)
    with eq show "rowsOfVisit (visitId i) ?rows \<noteq> []"
      by (metis length_0_conv)
  qed
  from gen len ids count show ?thesis by simp
qed

theorem appointment_generator_output_witness:
  "length example_population = NUM_PATIENTS \<and>
   generateAppointmentData zone_UTC NUM_RECORDS example_population noshow_visits
     cleaning_procedures = Inr [example_noshow_row] \<and>
   length [example_noshow_row] \<le> NUM_RECORDS * 3 \<and>
   Visit_ID example_noshow_row = visitId 0 \<and>
   numProceduresForVisit (noshow_visits 0) = 1 \<and>
   length (rowsOfVisit (visitId 0) [example_noshow_row]) = 1 \<and>
   \<not> skipped zone_UTC (visitOf zone_UTC example_population 0 (noshow_visits 0))
       (cleaning_procedures 0)
       (stateBeforeVisit zone_UTC example_population noshow_visits cleaning_procedures 0) 0 \<and>
   numProceduresForVisit (noshow_visits 1) = 1 \<and>
   length (rowsOfVisit (visitId 1) [example_noshow_row]) = 0 \<and>
   skipped zone_UTC (visitOf zone_UTC example_population 1 (noshow_visits 1))
     (cleaning_procedures 1)
     (stateBeforeVisit zone_UTC example_population noshow_visits cleaning_procedures 1) 0 \<and>
   numProceduresForVisit (all_zero_visits 0) = 1 \<and>
   code (selectProcedure (visitOf zone_UTC example_population 0 (all_zero_visits 0))
           (all_zero_procedures 0 0)) = ''D0120'' \<and>
   (\<exists>rows. generateAppointmentData zone_UTC NUM_RECORDS example_population all_zero_visits
             all_zero_procedures = Inr rows \<and>
           rowsOfVisit (visitId 0) rows \<noteq> [])"
proof -
  have len: "length example_population = NUM_PATIENTS"
    by (simp add: example_population_length NUM_PATIENTS_def)
  have r0: "length (rowsOfVisit (visitId 0) [example_noshow_row]) = 1"
    by (simp add: rowsOfVisit_def example_noshow_row_def ev_vid)
  have r1: "length (rowsOfVisit (visitId 1) [example_noshow_row]) = 0"
    by (simp add: rowsOfVisit_def example_noshow_row_def ev_vid_Suc)
  from appointment_generator_output [OF len, of zone_UTC noshow_visits cleaning_procedures]
    noshow_run
  have count: "\<forall>i<NUM_RECORDS.
      length (rowsOfVisit (visitId i) [example_noshow_row]) =
        length (filter (\<lambda>p. \<not> skipped zone_UTC (visitOf zone_UTC example_population i
                                   (noshow_visits i)) (cleaning_procedures i)
                                (stateBeforeVisit zone_UTC example_population noshow_visits
                                   cleaning_procedures i) p)
                  [0..<numProceduresForVisit (noshow_visits i)])"
    by simp
  have "0 < NUM_RECORDS" "1 < NUM_RECORDS" by (simp_all add: NUM_RECORDS_def)
  with count r0 r1 have
    "\<not> skipped zone_UTC (visitOf zone_UTC example_population 0 (noshow_visits 0))
       (cleaning_procedures 0)
       (stateBeforeVisit zone_UTC example_population noshow_visits cleaning_procedures 0) 0"
    "skipped zone_UTC (visitOf zone_UTC example_population 1 (noshow_visits 1))
     (cleaning_procedures 1)
     (stateBeforeVisit zone_UTC example_population noshow_visits cleaning_procedures 1) 0"
    by (auto simp: noshow_numProcedures split: if_splits)
  moreover
  from appointment_generator_output [OF len, of zone_UTC all_zero_visits all_zero_procedures]
    \<open>0 < NUM_RECORDS\<close>
  have "\<exists>rows. generateAppointmentData zone_UTC NUM_RECORDS example_population all_zero_visits
             all_zero_procedures = Inr rows \<and>
           rowsOfVisit (visitId 0) rows \<noteq> []"
    by (auto simp: zero_numProcedures zero_visit_procedure)
  ultimately show ?thesis
    using len noshow_run r0 r1
    by (simp add: noshow_numProcedures zero_numProcedures zero_visit_procedure NUM_RECORDS_def
        example_noshow_row_def ev_vid)
qed

text \<open>
  The claim as stated (between 1 and 3 rows for every visit, hence an identifier in the
  output for every visit) fails: in the run of \<open>NUM_RECORDS\<close> No-Show visits of patient
  \<open>PAT0001\<close>, each with one cleaning on the same day, the output holds a single row, and
  no row of visit \<open>V000002\<close>.
\<close>

theorem visit_without_rows:
  "length example_population = NUM_PATIENTS \<and>
   generateAppointmentData zone_UTC NUM_RECORDS example_population noshow_visits cleaning_procedures =
     Inr [example_noshow_row] \<and>
   rowsOfVisit (visitId 1) [example_noshow_row] = []"
  by (simp add: example_population_length NUM_PATIENTS_def noshow_run rowsOfVisit_def
      example_noshow_row_def ev_vid_Suc)

text \<open>
  Claim C5, evaluated where the code departs from it. The process runs seven hours west of
  UTC. Patient \<open>PAT0001\<close> has \<open>NUM_RECORDS\<close> Completed visits, each with one adult cleaning
  \<open>D1110\<close>; the first is recorded on 2020-02-01 and every later one on 2020-06-12. The
  recall test reads the two dates as midnight UTC and takes their months with the local
  getters, so that the last cleaning counts in January and the visit in June: five months,
  and the cleaning of 2020-06-12 is emitted, in the fourth month after that of the last
  cleaning. The output holds both cleanings. With the same population and draws in UTC the
  cleaning of 2020-06-12 is skipped, as the claim requires.
\<close>

theorem cleaning_four_months_after_the_last:
  "generateAppointmentData zone_Phoenix NUM_RECORDS example_population west_visits
     cleaning_procedures = Inr [february_cleaning_row, june_cleaning_row] \<and>
   Patient_ID february_cleaning_row = ''PAT0001'' \<and>
   Procedure_Code february_cleaning_row = ''D1110'' \<and>
   Date_of_Service february_cleaning_row = ''2020-02-01'' \<and>
   Patient_ID june_cleaning_row = ''PAT0001'' \<and>
   Procedure_Code june_cleaning_row = ''D1110'' \<and>
   Date_of_Service june_cleaning_row = ''2020-06-12'' \<and>
   generateAppointmentData zone_UTC NUM_RECORDS example_population west_visits
     cleaning_procedures = Inr [february_cleaning_row]"
  by (simp add: west_run utc_run february_cleaning_row_def june_cleaning_row_def
      example_cleaning_row_def example_completed_row_def)

text \<open>
  Claim C6, evaluated where the code departs from it. A Completed visit has two fillings;
  the first opens a treatment plan whose drawn number of procedures is 1. The row of the
  first filling records a completion rate of 100 with no completion date, and the plan
  stays open; the row of the second filling records 100 again and closes the plan. So a
  rate of exactly 100 also appears on a row that does not close the plan.
\<close>

theorem single_procedure_plan_left_open:
  "generateAppointmentData zone_UTC 1 [example_patient] two_procedure_visits restorative_procedures =
     Inr [plan_opening_row, plan_closing_row] \<and>
   Treatment_Plan_ID plan_opening_row = ''TP0000'' \<and>
   Treatment_Plan_Completion_Rate plan_opening_row = 100 \<and>
   Treatment_Plan_Completion_Date plan_opening_row = [] \<and>
   Treatment_Plan_ID plan_closing_row = ''TP0000'' \<and>
   Treatment_Plan_Completion_Rate plan_closing_row = 100 \<and>
   Treatment_Plan_Completion_Date plan_closing_row = ''2020-01-01''"
proof -
  have "generateVisit zone_UTC [example_patient] 0 (two_procedure_visits 0) (restorative_procedures 0)
          initial_state = Inr ([plan_opening_row, plan_closing_row], initial_state)"
    using ev_visit [where patients = "[example_patient]" and i = 0 and us = "draw_of 0"
        and un = "draw_of (1 / 2)" and pd = "restorative_procedures 0" and st = initial_state]
    by (simp add: two_procedure_visits_def zero_visit_draws_def ev_status ev_two
        restorative_procedures_def ev_genproc_open ev_genproc_close)
  then have "generateAppointmentData zone_UTC 1 [example_patient] two_procedure_visits
               restorative_procedures = Inr [plan_opening_row, plan_closing_row]"
    by (simp add: generateAppointmentData_def ev_sort_plan_rows)
  then show ?thesis
    by (simp add: plan_opening_row_def plan_closing_row_def)
qed

section \<open>The Operations Generator: the index and the two arms of each metric\<close>

text \<open>
  The bucket that the index holds for a date and a location is the fold of the rows of the
  file for that date and location, so its sums are the column sums over the Completed
  rows; without such rows the lookup gives the all-zero default.
\<close>

lemma lookup_addRow:
  "lookupMetrics (addRow row idx) date loc =
     (if getProp row ''Date_of_Service'' = date \<and> getProp row ''Location_ID'' = loc
      then updateMetrics row (lookupMetrics idx date loc)
      else lookupMetrics idx date loc)"
  by (auto simp: addRow_def lookupMetrics_def Let_def split: option.splits)

lemma lookup_fold:
  "lookupMetrics (fold addRow rows idx) date loc =
     fold updateMetrics (fileRowsFor rows date loc) (lookupMetrics idx date loc)"
  by (induction rows arbitrary: idx) (simp_all add: fileRowsFor_def lookup_addRow)

lemma lookup_indexRows:
  "lookupMetrics (indexRows rows) date loc =
     fold updateMetrics (fileRowsFor rows date loc) emptyMetrics"
proof -
  have "lookupMetrics Map.empty date loc = emptyMetrics"
    by (simp add: lookupMetrics_def)
  then show ?thesis
    by (simp add: indexRows_def lookup_fold)
qed

lemma fold_updateMetrics_sums:
  "totalDuration (fold updateMetrics rs m) =
     totalDuration m +
     columnSum ''Procedure_Duration'' (filter (\<lambda>row. getProp row ''Appointment_Status'' = ''Completed'') rs)"
  "chargedAmount (fold updateMetrics rs m) =
     chargedAmount m +
     columnSum ''Charged_Amount'' (filter (\<lambda>row. getProp row ''Appointment_Status'' = ''Completed'') rs)"
  "amountPaid (fold updateMetrics rs m) =
     amountPaid m +
     columnSum ''Amount_Paid'' (filter (\<lambda>row. getProp row ''Appointment_Status'' = ''Completed'') rs)"
  by (induction rs arbitrary: m; simp add: updateMetrics_def columnSum_def Let_def)+

lemma metrics_sums:
  "totalDuration (lookupMetrics (indexRows rows) date loc) =
     columnSum ''Procedure_Duration'' (completedRowsFor rows date loc)"
  "chargedAmount (lookupMetrics (indexRows rows) date loc) =
     columnSum ''Charged_Amount'' (completedRowsFor rows date loc)"
  "amountPaid (lookupMetrics (indexRows rows) date loc) =
     columnSum ''Amount_Paid'' (completedRowsFor rows date loc)"
  by (simp_all add: lookup_indexRows fold_updateMetrics_sums completedRowsFor_def emptyMetrics_def)

lemma metrics_no_rows:
  "fileRowsFor rows date loc = [] \<Longrightarrow> lookupMetrics (indexRows rows) date loc = emptyMetrics"
  by (simp add: lookup_indexRows)

lemma availableChairMinutes_pos:
  "location \<in> set ops_locations \<Longrightarrow> 0 < availableChairMinutes date location"
  by (auto simp: ops_locations_def availableChairMinutes_def Let_def)


lemma open_day:
  assumes "getDay date \<noteq> 0" and "formatDate date \<notin> set holidays"
  shows "\<exists>r. generateDailyOperations date location idx d = Some r \<and>
           Chair_Utilization r =
             (if totalDuration (lookupMetrics idx (formatDate date) (ol_id location)) > 0
              then derivedChairUtilization date location
                     (lookupMetrics idx (formatDate date) (ol_id location))
              else Num (synthesizedChairUtilization date location (u_chairUtilization d))) \<and>
           Actual_Collection_Rate r =
             (if chargedAmount (lookupMetrics idx (formatDate date) (ol_id location)) > 0
              then derivedCollectionRate (lookupMetrics idx (formatDate date) (ol_id location))
              else synthesizedCollectionRate location (u_collectionRate d))"
  using assms unfolding generateDailyOperations_def Let_def by simp

subsection \<open>The file with one Completed row on 2024-03-05\<close>

lemma march_parse:
  "map (\<lambda>row. map (getProp row)
          [''Date_of_Service'', ''Location_ID'', ''Appointment_Status'', ''Procedure_Duration'',
           ''Charged_Amount'', ''Amount_Paid'', ''Year'', ''Month''])
     (parseRows (convertToCSV [march_row])) =
   [[''2024-03-05'', ''LOC001'', ''Completed'', ''45'', ''200'', ''180'', ''2024'', ''3'']]"
  by code_simp

lemma march_ints: "parseIntOr0 ''45'' = 45" "parseIntOr0 ''200'' = 200" "parseIntOr0 ''180'' = 180"
  by code_simp+

lemma march_rows:
  obtains row where "parseRows (convertToCSV [march_row]) = [row]"
    and "getProp row ''Date_of_Service'' = ''2024-03-05''"
    and "getProp row ''Location_ID'' = ''LOC001''"
    and "getProp row ''Appointment_Status'' = ''Completed''"
    and "getProp row ''Procedure_Duration'' = ''45''"
    and "getProp row ''Charged_Amount'' = ''200''"
    and "getProp row ''Amount_Paid'' = ''180''"
proof -
  from march_parse obtain row where "parseRows (convertToCSV [march_row]) = [row]"
    by (cases "parseRows (convertToCSV [march_row])") auto
  with march_parse that show thesis by simp
qed

lemma march_rows_05:
  "columnSum ''Procedure_Duration''
     (completedRowsFor (parseRows (convertToCSV [march_row])) ''2024-03-05'' ''LOC001'') = 45"
  "columnSum ''Charged_Amount''
     (completedRowsFor (parseRows (convertToCSV [march_row])) ''2024-03-05'' ''LOC001'') = 200"
  "columnSum ''Amount_Paid''
     (completedRowsFor (parseRows (convertToCSV [march_row])) ''2024-03-05'' ''LOC001'') = 180"
  by (rule march_rows,
      simp add: completedRowsFor_def fileRowsFor_def columnSum_def march_ints)+

lemma march_rows_06:
  "fileRowsFor (parseRows (convertToCSV [march_row])) ''2024-03-06'' ''LOC001'' = []"
  by (rule march_rows) (simp add: fileRowsFor_def)

lemma march_days:
  "formatDate (Date_parse ''2024-03-05'') = ''2024-03-05''"
  "formatDate (Date_parse ''2024-03-06'') = ''2024-03-06''"
  "getDay (Date_parse ''2024-03-05'') = 2" "getDay (Date_parse ''2024-03-06'') = 3"
  "''2024-03-05'' \<notin> set holidays" "''2024-03-06'' \<notin> set holidays"
  by code_simp+


lemma downtown_eval:
  "downtown \<in> set ops_locations" "ol_id downtown = ''LOC001''"
  "ol_chairs downtown = 5" "ol_operatingHours downtown = 9"
  "ol_target_chair_utilization downtown = 85 / 100"
  "ol_target_collection_rate downtown = 92 / 100"
  by (simp_all add: downtown_def ops_locations_def)

lemma march_read: "march_directory ''Pat_App_Data.csv'' = Some (convertToCSV [march_row])"
  by (simp add: march_directory_def)

lemma Math_round_0 [simp]: "Math_round 0 = 0"
  by (simp add: Math_round_def)

lemma denial_rate_without_completed:
  assumes "getDay date \<noteq> 0" and "formatDate date \<notin> set holidays"
    and "completed (lookupMetrics idx (formatDate date) (ol_id location)) = 0"
  shows "map_option Insurance_Claims_Processed (generateDailyOperations date location idx d) = Some 0"
    and "map_option Insurance_Denial_Rate (generateDailyOperations date location idx d) = Some NaN"
  using assms unfolding generateDailyOperations_def Let_def
  by (simp_all add: js_div_def)

lemma march_plainKeys: "plainKeys (parseRows (convertToCSV [march_row]))"
  by (rule march_rows) (simp add: plainKeys_def Object_prototype_names_def)

lemma march_year: "getFullYear (Date_parse ''2024-03-06'') = 2024"
  by code_simp

section \<open>Claims about the Operations Generator\<close>

text \<open>
  Claim C7. Let the appointment file be present, with ordinary keys (no date and no
  location id of a row is the name of an inherited property), and take a catalog location
  and a day on which it is open (neither a Sunday nor a holiday), so that the generator
  returns the record of the day. If the Completed rows of the file for that date and
  location have a positive summed duration, the chair utilization of the record is that
  sum divided by the available chair-minutes (chairs times hours times 60, halved on a
  Saturday), capped at 0.95; if they have a positive summed charged amount, the collection
  rate is the summed amount paid divided by it. If the file has no row for that date and
  location, both are synthesized from the targets of the location and a draw \<open>u\<close>, as
  \<open>lo + u * (hi - lo)\<close> rounded to two decimals: for the chair utilization \<open>lo\<close> is the
  larger of 0.65 and the target less 0.1, and \<open>hi\<close> the smaller of 0.95 and the target
  plus 0.05, the target being that of the location raised by 0.005 for each year since
  2020; for the collection rate \<open>lo\<close> is the larger of 0.6 and the target less 0.1, and
  \<open>hi\<close> the smaller of 0.98 and the target plus 0.05.
\<close>

theorem daily_metrics_derived_or_synthesized:
  assumes loc: "location \<in> set ops_locations"
    and day: "getDay date \<noteq> 0" "formatDate date \<notin> set holidays"
    and present: "fs ''Pat_App_Data.csv'' = Some data"
    and keys: "plainKeys (parseRows data)"
  shows "\<exists>appointmentData r.
           readAppointmentData fs = Inr appointmentData \<and>
           generateDailyOperations date location appointmentData d = Some r \<and>
           (0 < columnSum ''Procedure_Duration''
                  (completedRowsFor (parseRows data) (formatDate date) (ol_id location)) \<longrightarrow>
            Chair_Utilization r =
              Num (min (95 / 100)
                     (real_of_int (columnSum ''Procedure_Duration''
                        (completedRowsFor (parseRows data) (formatDate date) (ol_id location))) /
                      (if getDay date = 6
                       then real_of_int (ol_chairs location * ol_operatingHours location * 60) / 2
                       else real_of_int (ol_chairs location * ol_operatingHours location * 60))))) \<and>
           (0 < columnSum ''Charged_Amount''
                  (completedRowsFor (parseRows data) (formatDate date) (ol_id location)) \<longrightarrow>
            Actual_Collection_Rate r =
              real_of_int (columnSum ''Amount_Paid''
                 (completedRowsFor (parseRows data) (formatDate date) (ol_id location))) /
              real_of_int (columnSum ''Charged_Amount''
                 (completedRowsFor (parseRows data) (formatDate date) (ol_id location)))) \<and>
           (fileRowsFor (parseRows data) (formatDate date) (ol_id location) = [] \<longrightarrow>
            (let target = ol_target_chair_utilization location +
                          real_of_int (getFullYear date - 2020) * (5 / 1000);
                 lo = max (65 / 100) (target - 1 / 10);
                 hi = min (95 / 100) (target + 5 / 100)
             in Chair_Utilization r =
                  Num (real_of_int (Math_round ((rv (u_chairUtilization d) * (hi - lo) + lo) * 100)) /
                       100)) \<and>
            (let lo = max (6 / 10) (ol_target_collection_rate location - 1 / 10);
                 hi = min (98 / 100) (ol_target_collection_rate location + 5 / 100)
             in Actual_Collection_Rate r =
                  real_of_int (Math_round ((rv (u_collectionRate d) * (hi - lo) + lo) * 100)) / 100))"
proof -
  let ?idx = "indexRows (parseRows data)"
  let ?m = "lookupMetrics ?idx (formatDate date) (ol_id location)"
  have read: "readAppointmentData fs = Inr ?idx"
    using present by (simp add: readAppointmentData_def)
  from open_day [OF day, of location ?idx d] obtain r where
    gen: "generateDailyOperations date location ?idx d = Some r" and
    chair: "Chair_Utilization r =
              (if totalDuration ?m > 0 then derivedChairUtilization date location ?m
               else Num (synthesizedChairUtilization date location (u_chairUtilization d)))" and
    coll: "Actual_Collection_Rate r =
              (if chargedAmount ?m > 0 then derivedCollectionRate ?m
               else synthesizedCollectionRate location (u_collectionRate d))"
    by blast
  have pos: "availableChairMinutes date location \<noteq> 0"
    using availableChairMinutes_pos [OF loc, of date] by simp
  have a: "0 < columnSum ''Procedure_Duration''
                 (completedRowsFor (parseRows data) (formatDate date) (ol_id location)) \<longrightarrow>
           Chair_Utilization r =
              Num (min (95 / 100)
                     (real_of_int (columnSum ''Procedure_Duration''
                        (completedRowsFor (parseRows data) (formatDate date) (ol_id location))) /
                      (if getDay date = 6
                       then real_of_int (ol_chairs location * ol_operatingHours location * 60) / 2
                       else real_of_int (ol_chairs location * ol_operatingHours location * 60))))"
    using chair pos
    by (simp add: metrics_sums derivedChairUtilization_def js_div_def availableChairMinutes_def
        Let_def)
  have b: "0 < columnSum ''Charged_Amount''
                  (completedRowsFor (parseRows data) (formatDate date) (ol_id location)) \<longrightarrow>
            Actual_Collection_Rate r =
              real_of_int (columnSum ''Amount_Paid''
                 (completedRowsFor (parseRows data) (formatDate date) (ol_id location))) /
              real_of_int (columnSum ''Charged_Amount''
                 (completedRowsFor (parseRows data) (formatDate date) (ol_id location)))"
    using coll by (simp add: metrics_sums derivedCollectionRate_def)
  have c: "fileRowsFor (parseRows data) (formatDate date) (ol_id location) = [] \<longrightarrow>
            (let target = ol_target_chair_utilization location +
                          real_of_int (getFullYear date - 2020) * (5 / 1000);
                 lo = max (65 / 100) (target - 1 / 10);
                 hi = min (95 / 100) (target + 5 / 100)
             in Chair_Utilization r =
                  Num (real_of_int (Math_round ((rv (u_chairUtilization d) * (hi - lo) + lo) * 100)) /
                       100)) \<and>
            (let lo = max (6 / 10) (ol_target_collection_rate location - 1 / 10);
                 hi = min (98 / 100) (ol_target_collection_rate location + 5 / 100)
             in Actual_Collection_Rate r =
                  real_of_int (Math_round ((rv (u_collectionRate d) * (hi - lo) + lo) * 100)) / 100)"
  proof
    assume "fileRowsFor (parseRows data) (formatDate date) (ol_id location) = []"
    then have "?m = emptyMetrics" by (rule metrics_no_rows)
    then have z: "totalDuration ?m = 0" "chargedAmount ?m = 0"
      by (simp_all add: emptyMetrics_def)
    from chair z have
      "Chair_Utilization r = Num (synthesizedChairUtilization date location (u_chairUtilization d))"
      by simp
    moreover from coll z have
      "Actual_Collection_Rate r = synthesizedCollectionRate location (u_collectionRate d)"
      by simp
    ultimately show
      "(let target = ol_target_chair_utilization location +
                          real_of_int (getFullYear date - 2020) * (5 / 1000);
                 lo = max (65 / 100) (target - 1 / 10);
                 hi = min (95 / 100) (target + 5 / 100)
             in Chair_Utilization r =
                  Num (real_of_int (Math_round ((rv (u_chairUtilization d) * (hi - lo) + lo) * 100)) /
                       100)) \<and>
            (let lo = max (6 / 10) (ol_target_collection_rate location - 1 / 10);
                 hi = min (98 / 100) (ol_target_collection_rate location + 5 / 100)
             in Actual_Collection_Rate r =
                  real_of_int (Math_round ((rv (u_collectionRate d) * (hi - lo) + lo) * 100)) / 100)"
      unfolding Let_def synthesizedChairUtilization_def synthesizedCollectionRate_def
        targetUtilization_def randomFloatBetween_def
      by simp
  qed
  from read gen a b c show ?thesis by blast
qed

theorem daily_metrics_derived_or_synthesized_witness:
  "downtown \<in> set ops_locations \<and>
   getDay (Date_parse ''2024-03-05'') \<noteq> 0 \<and>
   formatDate (Date_parse ''2024-03-05'') \<notin> set holidays \<and>
   getDay (Date_parse ''2024-03-06'') \<noteq> 0 \<and>
   formatDate (Date_parse ''2024-03-06'') \<notin> set holidays \<and>
   march_directory ''Pat_App_Data.csv'' = Some (convertToCSV [march_row]) \<and>
   plainKeys (parseRows (convertToCSV [march_row])) \<and>
   0 < columnSum ''Procedure_Duration''
         (completedRowsFor (parseRows (convertToCSV [march_row])) ''2024-03-05'' ''LOC001'') \<and>
   0 < columnSum ''Charged_Amount''
         (completedRowsFor (parseRows (convertToCSV [march_row])) ''2024-03-05'' ''LOC001'') \<and>
   fileRowsFor (parseRows (convertToCSV [march_row])) ''2024-03-06'' ''LOC001'' = [] \<and>
   (\<exists>appointmentData r.
      readAppointmentData march_directory = Inr appointmentData \<and>
      generateDailyOperations (Date_parse ''2024-03-05'') downtown appointmentData zero_ops_draws =
        Some r \<and>
      Chair_Utilization r = Num (1 / 60) \<and> Actual_Collection_Rate r = 9 / 10) \<and>
   (\<exists>appointmentData r.
      readAppointmentData march_directory = Inr appointmentData \<and>
      generateDailyOperations (Date_parse ''2024-03-06'') downtown appointmentData zero_ops_draws =
        Some r \<and>
      Chair_Utilization r = Num (77 / 100) \<and> Actual_Collection_Rate r = 82 / 100)"
proof -
  have d5: "getDay (Date_parse ''2024-03-05'') \<noteq> 0"
    "formatDate (Date_parse ''2024-03-05'') \<notin> set holidays"
    by (simp_all add: march_days)
  have d6: "getDay (Date_parse ''2024-03-06'') \<noteq> 0"
    "formatDate (Date_parse ''2024-03-06'') \<notin> set holidays"
    by (simp_all add: march_days)
  have z: "rv (u_chairUtilization zero_ops_draws) = 0" "rv (u_collectionRate zero_ops_draws) = 0"
    by (simp_all add: zero_ops_draws_def)
  have r: "Math_round 77 = 77" "Math_round 82 = 82"
    by (simp_all add: Math_round_def)
  from daily_metrics_derived_or_synthesized [where fs = march_directory and d = zero_ops_draws,
      OF downtown_eval(1) d5 march_read march_plainKeys]
  have a: "\<exists>appointmentData r.
      readAppointmentData march_directory = Inr appointmentData \<and>
      generateDailyOperations (Date_parse ''2024-03-05'') downtown appointmentData zero_ops_draws =
        Some r \<and>
      Chair_Utilization r = Num (1 / 60) \<and> Actual_Collection_Rate r = 9 / 10"
    by (simp add: march_days downtown_eval march_rows_05) blast
  from daily_metrics_derived_or_synthesized [where fs = march_directory and d = zero_ops_draws,
      OF downtown_eval(1) d6 march_read march_plainKeys]
  have b: "\<exists>appointmentData r.
      readAppointmentData march_directory = Inr appointmentData \<and>
      generateDailyOperations (Date_parse ''2024-03-06'') downtown appointmentData zero_ops_draws =
        Some r \<and>
      Chair_Utilization r = Num (77 / 100) \<and> Actual_Collection_Rate r = 82 / 100"
    by (simp add: march_days downtown_eval march_rows_06 march_year z r Let_def)
       (auto simp: mult.commute)
  from a b d5 d6 show ?thesis
    by (simp add: downtown_eval march_read march_rows_05 march_rows_06 march_plainKeys)
qed

text \<open>
  Claim C9, evaluated where the code departs from it. The appointment file holds one
  Completed row, at \<open>LOC001\<close> on 2024-03-05. On Wednesday 2024-03-06 the location is open
  and has no completed appointment: the number of processed claims is 0, and the denial
  rate, the quotient of the denied by the processed claims with no test of the
  denominator, is \<open>0 / 0\<close>, which is \<open>NaN\<close>.
\<close>

theorem denial_rate_not_a_number:
  "readAppointmentData march_directory = Inr (indexRows (parseRows (convertToCSV [march_row]))) \<and>
   map_option Insurance_Claims_Processed
     (generateDailyOperations (Date_parse ''2024-03-06'') downtown
        (indexRows (parseRows (convertToCSV [march_row]))) zero_ops_draws) = Some 0 \<and>
   map_option Insurance_Denial_Rate
     (generateDailyOperations (Date_parse ''2024-03-06'') downtown
        (indexRows (parseRows (convertToCSV [march_row]))) zero_ops_draws) = Some NaN \<and>
   \<not> isFinite NaN"
proof -
  have d6: "getDay (Date_parse ''2024-03-06'') \<noteq> 0"
    "formatDate (Date_parse ''2024-03-06'') \<notin> set holidays"
    by (simp_all add: march_days)
  have "lookupMetrics (indexRows (parseRows (convertToCSV [march_row])))
          (formatDate (Date_parse ''2024-03-06'')) (ol_id downtown) = emptyMetrics"
    by (simp add: march_days downtown_eval metrics_no_rows march_rows_06)
  then have c: "completed (lookupMetrics (indexRows (parseRows (convertToCSV [march_row])))
          (formatDate (Date_parse ''2024-03-06'')) (ol_id downtown)) = 0"
    by (simp add: emptyMetrics_def)
  from denial_rate_without_completed [OF d6 c, of zero_ops_draws] show ?thesis
    by (simp add: readAppointmentData_def march_read)
qed


section \<open>The Financial Generator without an operations index\<close>

lemma file_names_differ:
  "operationsInputFile \<noteq> operationsOutputFile"
  "operationsInputFile \<noteq> ''Pat_App_Data.csv''"
  "operationsInputFile \<noteq> ''Dental_Staff_Hours_Data.csv''"
  "operationsInputFile \<noteq> ''Dental_Equipment_Usage_Data.csv''"
  by (simp_all add: operationsInputFile_def operationsOutputFile_def)

lemma appointment_main_other_file:
  "name \<noteq> ''Pat_App_Data.csv'' \<Longrightarrow> appointment_main tz patients vd pd fs name = fs name"
  by (simp add: appointment_main_def split: sum.splits)

lemma operations_main_other_file:
  assumes "name \<noteq> operationsOutputFile" and "name \<noteq> ''Dental_Staff_Hours_Data.csv''"
    and "name \<noteq> ''Dental_Equipment_Usage_Data.csv''"
  shows "fst (operations_main render draws fs) name = fs name"
  using assms by (simp add: operations_main_def Let_def split: sum.splits)

lemma pipeline_keeps_input_file_absent:
  assumes "fs operationsInputFile = None"
  shows "fst (operations_main render draws (appointment_main tz patients vd pd fs))
           operationsInputFile = None"
  using assms
  by (simp add: operations_main_other_file appointment_main_other_file file_names_differ)

lemma readExistingData_operations_absent:
  assumes "fs operationsInputFile = None"
  shows "operationsByLocationMonth (fst (readExistingData pf fs)) = Map.empty"
    and "''Operations data file not found, will generate synthetic data'' \<in>
           set (snd (readExistingData pf fs))"
  using assms by (simp_all add: readExistingData_def split: option.splits prod.splits)


lemma readExistingData_appointments_present:
  assumes "fs ''Pat_App_Data.csv'' = Some data"
  shows "appointmentsByLocationMonth (fst (readExistingData pf fs)) =
           fold addAppointmentMonthRow (parseRows data) Map.empty"
  using assms by (simp add: readExistingData_def split: option.splits prod.splits)

lemma present_and_simps [simp]:
  "present_and None P = False" "present_and (Some v) P = P v"
  by (simp_all add: present_and_def)

text \<open>The operations-derived fields when the operations index has no entry for the month.\<close>

lemma monthly_without_operations:
  assumes "operationsByLocationMonth e = Map.empty"
  shows "Labor_Clinical (generateMonthlyFinancialData date location e d) =
           Math_round (real_of_int (Total_Revenue (generateMonthlyFinancialData date location e d)) *
                       randomFloatBetween (18 / 100) (22 / 100) (f_laborClinical d))"
    and "Labor_Administrative (generateMonthlyFinancialData date location e d) =
           Math_round (real_of_int (Total_Revenue (generateMonthlyFinancialData date location e d)) *
                       randomFloatBetween (6 / 100) (10 / 100) (f_laborAdministrative d))"
    and "fin_Chair_Utilization (generateMonthlyFinancialData date location e d) =
           randomFloatBetween (7 / 10) (9 / 10) (f_chairUtilization d)"
    and "Total_Patient_Visits (generateMonthlyFinancialData date location e d) =
           Math_round (real_of_int (Total_Procedures (generateMonthlyFinancialData date location e d)) *
                       (7 / 10))"
    and "New_Patients (generateMonthlyFinancialData date location e d) =
           Math_round (real_of_int (Total_Patient_Visits (generateMonthlyFinancialData date location e d)) *
                       randomFloatBetween (15 / 100) (25 / 100) (f_newPatients d))"
    and "Collection_Rate (generateMonthlyFinancialData date location e d) =
           (if present_and
                 (appointmentsByLocationMonth e
                    (monthKey (fl_id location) (Some (getFullYear date)) (Some (getMonth date + 1))))
                 (\<lambda>a. totalChargedAmount a > 0)
            then appointmentCollectionRate
                   (the (appointmentsByLocationMonth e
                      (monthKey (fl_id location) (Some (getFullYear date)) (Some (getMonth date + 1)))))
            else fin_synthesizedCollectionRate location (f_collectionRate d))"
  using assms unfolding generateMonthlyFinancialData_def Let_def
  by (simp_all split: prod.splits option.splits)




lemma fin_downtown: "fl_id (fin_locations ! 0) = ''LOC001''"
  "fl_target_collection_rate (fin_locations ! 0) = 92 / 100"
  by (simp_all add: fin_locations_def)





lemma zero_fin_draws_rv [simp]:
  "rv (f_seasonal zero_fin_draws) = 0" "rv (f_growth zero_fin_draws) = 0"
  "rv (f_laborClinical zero_fin_draws) = 0" "rv (f_laborAdministrative zero_fin_draws) = 0"
  "rv (f_collectionRate zero_fin_draws) = 0" "rv (f_completedShare zero_fin_draws) = 0"
  "rv (f_newPatients zero_fin_draws) = 0" "rv (f_chairUtilization zero_fin_draws) = 0"
  "f_baseRevenue zero_fin_draws = draw_of 0" "f_procedureValue zero_fin_draws = draw_of 0"
  by (simp_all add: zero_fin_draws_def)





subsection \<open>The directory that the Financial Generator finds after the run of Completed cleanings\<close>

lemma pipeline_appointment_file:
  "appointment_main zone_UTC example_population all_zero_visits cleaning_procedures Map.empty =
     [''Pat_App_Data.csv'' \<mapsto> convertToCSV [example_cleaning_row]]"
  by (simp add: appointment_main_def completed_run)

lemma financial_input_directory_files:
  "financial_input_directory ''Pat_App_Data.csv'' = Some (convertToCSV [example_cleaning_row])"
  "financial_input_directory operationsInputFile = None"
  "financial_input_directory operationsOutputFile = Some ''Operations_ID''"
  by (simp_all add: financial_input_directory_def pipeline_appointment_file operations_main_def
      generateOperationsDataset_def readAppointmentData_def Let_def sample_operations_files_def
      operationsInputFile_def operationsOutputFile_def)

lemma cleaning_parse:
  "map (\<lambda>row. map (getProp row)
          [''Location_ID'', ''Year'', ''Month'', ''Appointment_Status'', ''Charged_Amount'',
           ''Insurance_Covered_Amount'', ''Amount_Paid''])
     (parseRows (convertToCSV [example_cleaning_row])) =
   [[''LOC001'', ''2020'', ''1'', ''Completed'', ''99'', ''76'', ''21'']]"
  by code_simp

lemma cleaning_ints:
  "parseIntOr0 ''99'' = 99" "parseIntOr0 ''76'' = 76" "parseIntOr0 ''21'' = 21"
  "monthKey ''LOC001'' (parseInt ''2020'') (parseInt ''1'') = ''LOC001-2020-1''"
  "monthKey ''LOC001'' (Some 2020) (Some 1) = ''LOC001-2020-1''"
  by code_simp+

lemma january_eval:
  "getFullYear january_date = 2020" "getMonth january_date + 1 = 1"
  by code_simp+

lemma january_index:
  "appointmentsByLocationMonth (fst (readExistingData pf financial_input_directory))
     ''LOC001-2020-1'' = Some january_bucket"
proof -
  from cleaning_parse obtain row where
    rows: "parseRows (convertToCSV [example_cleaning_row]) = [row]"
    by (cases "parseRows (convertToCSV [example_cleaning_row])") auto
  with cleaning_parse have props:
    "getProp row ''Location_ID'' = ''LOC001''" "getProp row ''Year'' = ''2020''"
    "getProp row ''Month'' = ''1''" "getProp row ''Appointment_Status'' = ''Completed''"
    "getProp row ''Charged_Amount'' = ''99''" "getProp row ''Insurance_Covered_Amount'' = ''76''"
    "getProp row ''Amount_Paid'' = ''21''"
    by simp_all
  show ?thesis
    by (simp add: readExistingData_appointments_present [where fs = financial_input_directory, OF financial_input_directory_files(1)]
        rows addAppointmentMonthRow_def Let_def props cleaning_ints updateAppointmentMonth_def
        emptyAppointmentMonth_def january_bucket_def)
qed

lemma january_synthetic_rate:
  "fin_synthesizedCollectionRate (fin_locations ! 0) (f_collectionRate zero_fin_draws) = 82 / 100"
  by (simp add: fin_synthesizedCollectionRate_def fin_downtown zero_fin_draws_def
      randomFloatBetween_def Math_round_def)

text \<open>
  Claim C1 as the specification states it fails on the collection rate. After the Appointment
  Generator and the Operations Generator have run on an empty directory, the operations input
  file is still absent, but the record of January 2020 at the first location takes its
  collection rate from the appointment index (paid 21 of charged 99), not from the synthetic
  arm, which would have given 0.82.
\<close>

theorem collection_rate_from_appointments:
  "financial_input_directory operationsInputFile = None \<and>
   appointmentsByLocationMonth (fst (readExistingData sample_parseFloat financial_input_directory))
     ''LOC001-2020-1'' = Some january_bucket \<and>
   Collection_Rate (generateMonthlyFinancialData january_date (fin_locations ! 0)
       (fst (readExistingData sample_parseFloat financial_input_directory)) zero_fin_draws) =
     appointmentCollectionRate january_bucket \<and>
   appointmentCollectionRate january_bucket = 7 / 33 \<and>
   fin_synthesizedCollectionRate (fin_locations ! 0) (f_collectionRate zero_fin_draws) = 82 / 100"
proof -
  have e: "operationsByLocationMonth
             (fst (readExistingData sample_parseFloat financial_input_directory)) = Map.empty"
    by (rule readExistingData_operations_absent [where fs = financial_input_directory, OF financial_input_directory_files(2)])
  from monthly_without_operations(6) [OF e, of january_date "fin_locations ! 0" zero_fin_draws]
  have "Collection_Rate (generateMonthlyFinancialData january_date (fin_locations ! 0)
       (fst (readExistingData sample_parseFloat financial_input_directory)) zero_fin_draws) =
     appointmentCollectionRate january_bucket"
    by (simp add: january_eval fin_downtown cleaning_ints january_index)
       (simp add: january_bucket_def)
  moreover have "appointmentCollectionRate january_bucket = 7 / 33"
    by (simp add: appointmentCollectionRate_def january_bucket_def)
  ultimately show ?thesis
    by (simp add: financial_input_directory_files january_index january_synthetic_rate)
qed


text \<open>
  Claim C1, as the code has it. The name that the Financial Generator probes differs from the
  name that the Operations Generator writes. So if no file of the probed name exists before
  the Appointment and Operations Generators run, none exists after, the operations index of
  the Financial Generator is empty and the absence is logged; the labor costs, the chair
  utilization and the visit counts take the arm that does not use operations data; and the
  collection rate is derived from the appointment index when the month has a positive charged
  amount there, and synthesized only otherwise.
\<close>

theorem operations_file_name_mismatch:
  assumes absent: "fs operationsInputFile = None"
  shows "operationsInputFile \<noteq> operationsOutputFile \<and>
    (let produced = fst (operations_main orender odraws (appointment_main tz patients vd pd fs));
         e = fst (readExistingData pf produced);
         r = generateMonthlyFinancialData date location e d;
         bucket = appointmentsByLocationMonth e
                    (monthKey (fl_id location) (Some (getFullYear date)) (Some (getMonth date + 1)))
     in produced operationsInputFile = None \<and>
        operationsByLocationMonth e = Map.empty \<and>
        ''Operations data file not found, will generate synthetic data'' \<in>
          set (snd (readExistingData pf produced)) \<and>
        Labor_Clinical r =
          Math_round (real_of_int (Total_Revenue r) *
                      randomFloatBetween (18 / 100) (22 / 100) (f_laborClinical d)) \<and>
        Labor_Administrative r =
          Math_round (real_of_int (Total_Revenue r) *
                      randomFloatBetween (6 / 100) (10 / 100) (f_laborAdministrative d)) \<and>
        fin_Chair_Utilization r = randomFloatBetween (7 / 10) (9 / 10) (f_chairUtilization d) \<and>
        Total_Patient_Visits r = Math_round (real_of_int (Total_Procedures r) * (7 / 10)) \<and>
        New_Patients r =
          Math_round (real_of_int (Total_Patient_Visits r) *
                      randomFloatBetween (15 / 100) (25 / 100) (f_newPatients d)) \<and>
        Collection_Rate r =
          (if present_and bucket (\<lambda>a. totalChargedAmount a > 0)
           then appointmentCollectionRate (the bucket)
           else fin_synthesizedCollectionRate location (f_collectionRate d)))"
proof -
  let ?produced = "fst (operations_main orender odraws (appointment_main tz patients vd pd fs))"
  have p: "?produced operationsInputFile = None"
    by (rule pipeline_keeps_input_file_absent [where fs = fs, OF absent])
  have e: "operationsByLocationMonth (fst (readExistingData pf ?produced)) = Map.empty"
    by (rule readExistingData_operations_absent(1) [where fs = ?produced, OF p])
  have l: "''Operations data file not found, will generate synthetic data'' \<in>
          set (snd (readExistingData pf ?produced))"
    by (rule readExistingData_operations_absent(2) [where fs = ?produced, OF p])
  note m = monthly_without_operations [OF e]
  show ?thesis
    unfolding Let_def
    by (intro conjI) (rule file_names_differ p e l m)+
qed

theorem operations_file_name_mismatch_witness:
  "(Map.empty :: filesystem) operationsInputFile = None \<and>
   financial_input_directory operationsInputFile = None \<and>
   operationsByLocationMonth (fst (readExistingData sample_parseFloat financial_input_directory)) =
     Map.empty \<and>
   fin_Chair_Utilization
     (generateMonthlyFinancialData january_date (fin_locations ! 0)
        (fst (readExistingData sample_parseFloat financial_input_directory)) zero_fin_draws) =
     7 / 10"
proof -
  have "randomFloatBetween (7 / 10) (9 / 10) (f_chairUtilization zero_fin_draws) = 7 / 10"
    by (simp add: randomFloatBetween_def zero_fin_draws_def Math_round_def)
  with operations_file_name_mismatch [where fs = Map.empty and orender = sample_operations_files
      and odraws = all_zero_ops_draws and patients = example_population and vd = all_zero_visits
      and pd = cleaning_procedures and pf = sample_parseFloat and date = january_date
      and location = "fin_locations ! 0" and d = zero_fin_draws]
  show ?thesis
    unfolding Let_def financial_input_directory_def by simp
qed

end
